theory Spec2Isabelle
  imports Complex_Main "HOL-Library.AList" "HOL-Library.Word"
begin

section \<open>JavaScript values and the built-ins the handlers use\<close>

text \<open>
  A JavaScript string is a sequence of 16-bit code units. \<open>S\<close> turns an Isabelle string
  literal into the JavaScript string with the same characters: the literals of the
  handlers are ASCII text, except for the notice of the worker, which is spelled out in
  code units.
\<close>

type_synonym jstring = "16 word list"

definition S :: "string \<Rightarrow> jstring" where
  "S s = map of_char s"

text \<open>
  The two Lambda functions work on JSON documents. A value is what \<^verbatim>\<open>JSON.parse\<close>
  returns, plus \<^verbatim>\<open>undefined\<close> for a property that is not there: there are no functions
  among the values. An object is the list of its own properties, the first entry of a
  name being the property. Numbers carry the exact value of the double. Console logging
  has no effect on any result and is left out, except where evaluating the logged
  expression can throw.
\<close>

datatype jsval =
    JUndefined
  | JNull
  | JBool bool
  | JNum rat
  | JStr jstring
  | JArr "jsval list"
  | JObj "(jstring \<times> jsval) list"

text \<open>A JavaScript number that is the result of a coercion: it may be \<^verbatim>\<open>NaN\<close> or infinite.\<close>

datatype jsnum = NaN | NegInf | Fin rat | PosInf

text \<open>
  A thrown \<^verbatim>\<open>Error\<close> object: its \<^verbatim>\<open>name\<close> and its \<^verbatim>\<open>message\<close>. \<^verbatim>\<open>String(err)\<close> of an error whose
  message is empty is its name.
\<close>

datatype error = Error (name: jstring) (message: jstring)

definition TypeError :: "jstring \<Rightarrow> error" where
  "TypeError m = Error (S ''TypeError'') m"

text \<open>\<^verbatim>\<open>String(err?.message || err)\<close>\<close>

definition error_text :: "error \<Rightarrow> jstring" where
  "error_text err = (if message err \<noteq> [] then message err else name err)"

text \<open>A name between single quotes, as the messages of the runtime and of the API have it.\<close>

definition quoted :: "jstring \<Rightarrow> jstring" where
  "quoted s = S [CHR 0x27] @ s @ S [CHR 0x27]"

text \<open>Truthiness: what \<^verbatim>\<open>!v\<close>, \<^verbatim>\<open>v || d\<close> and \<^verbatim>\<open>v ? a : b\<close> test.\<close>

fun truthy :: "jsval \<Rightarrow> bool" where
  "truthy JUndefined = False"
| "truthy JNull = False"
| "truthy (JBool b) = b"
| "truthy (JNum r) = (r \<noteq> 0)"
| "truthy (JStr s) = (s \<noteq> [])"
| "truthy (JArr xs) = True"
| "truthy (JObj kvs) = True"

text \<open>\<^verbatim>\<open>a || b\<close>\<close>

definition js_or :: "jsval \<Rightarrow> jsval \<Rightarrow> jsval" where
  "js_or a b = (if truthy a then a else b)"

text \<open>
  \<^verbatim>\<open>v?.k\<close>: optional chaining never throws. None of the property names the handlers read
  (\<^verbatim>\<open>id\<close>, \<^verbatim>\<open>topic\<close>, \<^verbatim>\<open>exp\<close>, \<^verbatim>\<open>iss\<close>, \<^verbatim>\<open>aud\<close>, \<^verbatim>\<open>token_use\<close>, \<^verbatim>\<open>email\<close>, \<^verbatim>\<open>output_text\<close>, \<^verbatim>\<open>output\<close>,
  \<^verbatim>\<open>content\<close>, \<^verbatim>\<open>contents\<close>, \<^verbatim>\<open>text\<close>, \<^verbatim>\<open>value\<close>, ...) is inherited by an object, a string, a
  number, a boolean or an array, so only an object that has the property can answer with
  something else than \<^verbatim>\<open>undefined\<close>. (\<^verbatim>\<open>sub\<close> is a method of strings, but it is read only from
  a token payload that has passed the \<^verbatim>\<open>iss\<close>, \<^verbatim>\<open>aud\<close> and \<^verbatim>\<open>token_use\<close> checks, which a string
  cannot.)
\<close>

definition opt_prop :: "jsval \<Rightarrow> jstring \<Rightarrow> jsval" where
  "opt_prop v k =
     (case v of
        JObj kvs \<Rightarrow> (case map_of kvs k of Some x \<Rightarrow> x | None \<Rightarrow> JUndefined)
      | _ \<Rightarrow> JUndefined)"

text \<open>\<^verbatim>\<open>v.k\<close>: reading a property of \<^verbatim>\<open>null\<close> or \<^verbatim>\<open>undefined\<close> throws a TypeError.\<close>

definition get_prop :: "jsval \<Rightarrow> jstring \<Rightarrow> error + jsval" where
  "get_prop v k =
     (case v of
        JUndefined \<Rightarrow>
          Inl (TypeError (S ''Cannot read properties of undefined (reading '' @ quoted k @ S '')''))
      | JNull \<Rightarrow>
          Inl (TypeError (S ''Cannot read properties of null (reading '' @ quoted k @ S '')''))
      | _ \<Rightarrow> Inr (opt_prop v k))"

text \<open>
  White space as \<^verbatim>\<open>String.prototype.trim\<close> and the regular expression class \<^verbatim>\<open>\s\<close> see it: the
  code units of the white space and line terminator characters of ECMAScript. These are
  tab, line feed, vertical tab, form feed, carriage return, space, no-break space, the
  other space separators of Unicode (U+1680, U+2000 to U+200A, U+202F, U+205F, U+3000),
  the line and paragraph separators and the byte order mark.
\<close>

definition is_space :: "16 word \<Rightarrow> bool" where
  "is_space c =
     (c \<in> set [0x0009, 0x000A, 0x000B, 0x000C, 0x000D, 0x0020, 0x00A0, 0x1680,
               0x2000, 0x2001, 0x2002, 0x2003, 0x2004, 0x2005, 0x2006, 0x2007, 0x2008,
               0x2009, 0x200A, 0x2028, 0x2029, 0x202F, 0x205F, 0x3000, 0xFEFF])"

definition trim :: "jstring \<Rightarrow> jstring" where
  "trim s = rev (dropWhile is_space (rev (dropWhile is_space s)))"

text \<open>\<^verbatim>\<open>s.endsWith(suf)\<close>\<close>

definition endsWith :: "jstring \<Rightarrow> jstring \<Rightarrow> bool" where
  "endsWith s suf = (length suf \<le> length s \<and> drop (length s - length suf) s = suf)"

text \<open>\<^verbatim>\<open>s.split(d)\<close> for a one-character separator: never the empty list.\<close>

fun split :: "16 word \<Rightarrow> jstring \<Rightarrow> jstring list" where
  "split d [] = [[]]"
| "split d (c # cs) =
     (if c = d then [] # split d cs
      else (case split d cs of p # ps \<Rightarrow> (c # p) # ps | [] \<Rightarrow> [[c]]))"

text \<open>
  The comparison \<^verbatim>\<open>a < b\<close> of two numbers: false as soon as one is \<^verbatim>\<open>NaN\<close>.
\<close>

fun js_lt :: "jsnum \<Rightarrow> jsnum \<Rightarrow> bool" where
  "js_lt NaN _ = False"
| "js_lt _ NaN = False"
| "js_lt _ NegInf = False"
| "js_lt NegInf _ = True"
| "js_lt PosInf _ = False"
| "js_lt (Fin a) PosInf = True"
| "js_lt (Fin a) (Fin b) = (a < b)"

text \<open>\<^verbatim>\<open>Math.min(a, b)\<close>: \<^verbatim>\<open>NaN\<close> as soon as one argument is.\<close>

fun Math_min :: "jsnum \<Rightarrow> jsnum \<Rightarrow> jsnum" where
  "Math_min NaN _ = NaN"
| "Math_min _ NaN = NaN"
| "Math_min a b = (if js_lt b a then b else a)"


text \<open>\<^verbatim>\<open>{...a, ...b}\<close> on objects, and the \<^verbatim>\<open>SET\<close> clause of an update: later keys win.\<close>

definition spread :: "(jstring \<times> jsval) list \<Rightarrow> (jstring \<times> jsval) list \<Rightarrow> (jstring \<times> jsval) list" where
  "spread a b = foldl (\<lambda>acc (k, v). AList.update k v acc) a b"

section \<open>The world outside the functions\<close>

text \<open>
  The key-value store, the queue, the notification topic, the generation backend, the
  parameter store, the clock and the JavaScript runtime are not code of this repository.
  The store is modelled as a table keyed by the string attribute \<^verbatim>\<open>id\<close>; every command a
  function sends is appended to a log, whether or not it succeeds. Everything else is an
  answer of the environment: whether the \<open>n\<close>-th command of the log fails and with which
  error, what a query or the generation backend answers, what the clock and the
  identifier generator return, and what the built-in codecs compute.
\<close>

type_synonym item = "(jstring \<times> jsval) list"

datatype command =
    PutCommand jstring item
  | UpdateCommand jstring jsval "(jstring \<times> jsval) list" "jstring list"
  | DeleteCommand jstring jsval
  | GetCommand jstring jsval
  | QueryCommand jstring jsnum jsval
  | SendMessageCommand jstring jstring
  | PublishCommand jstring jstring jstring
  | FetchCommand jstring jstring

text \<open>
  \<^item> \<open>PutCommand TableName Item\<close> with the condition \<^verbatim>\<open>attribute_not_exists(id)\<close>;
  \<^item> \<open>UpdateCommand TableName id sets removes\<close>: the \<^verbatim>\<open>SET\<close> and \<^verbatim>\<open>REMOVE\<close> clauses under \<^verbatim>\<open>Key: {id}\<close>;
  \<^item> \<open>QueryCommand TableName Limit ExclusiveStartKey\<close> on the index \<^verbatim>\<open>byCreatedAt\<close>, newest first;
  \<^item> \<open>SendMessageCommand QueueUrl MessageBody\<close>;
  \<^item> \<open>PublishCommand TopicArn Subject Message\<close>: the completion notice;
  \<^item> \<open>FetchCommand apiKey body\<close>: the POST to the generation backend.
\<close>

record query_output =
  Items :: "jsval list option"
  LastEvaluatedKey :: jsval

record fetch_response =
  ok :: bool
  status :: nat
  body_text :: jstring
  body_json :: "error + jsval"

record env =
  JSON_parse :: "jstring \<Rightarrow> error + jsval"
  JSON_stringify :: "jsval \<Rightarrow> jstring"
  base64_encode :: "jstring \<Rightarrow> jstring"
  base64_decode :: "jstring \<Rightarrow> jstring"
  base64url_decode :: "jstring \<Rightarrow> jstring"
  StringToNumber :: "jstring \<Rightarrow> jsnum"
  Number_toString :: "rat \<Rightarrow> jstring"
  ssm_parameters :: "error + (jstring \<times> jstring) list"
  fault :: "nat \<Rightarrow> error option"
  query_answer :: "nat \<Rightarrow> query_output"
  fetch_answer :: "nat \<Rightarrow> fetch_response"
  randomUUID :: "nat \<Rightarrow> jstring"
  toISOString :: "nat \<Rightarrow> jstring"
  Date_now :: int

text \<open>
  \<^item> \<open>JSON_parse\<close>, \<open>JSON_stringify\<close>: the runtime's JSON codec (\<open>Inl\<close>: the SyntaxError thrown);
  \<^item> \<open>base64_encode s\<close> is \<^verbatim>\<open>Buffer.from(s).toString("base64")\<close>, \<open>base64_decode c\<close> is
    \<^verbatim>\<open>Buffer.from(c, "base64").toString("utf8")\<close>, \<open>base64url_decode\<close> the same for \<^verbatim>\<open>"base64url"\<close>;
  \<^item> \<open>StringToNumber\<close>: the number a string reads as (\<^verbatim>\<open>NaN\<close> when it does not read as one),
    and \<open>Number_toString\<close>: the text of a number;
  \<^item> \<open>ssm_parameters\<close>: what \<^verbatim>\<open>loadConfig\<close> gets for this invocation, from its cache or from
    the parameter store (key to value, the path prefix stripped), or the error of the fetch;
  \<^item> \<open>fault n\<close>: the error with which the \<open>n\<close>-th command sent fails, if it does;
  \<^item> \<open>query_answer n\<close>, \<open>fetch_answer n\<close>: the answer to the \<open>n\<close>-th command when it is a
    query or a fetch that does not fail;
  \<^item> \<open>randomUUID n\<close>, \<open>toISOString n\<close>: \<^verbatim>\<open>crypto.randomUUID()\<close> and \<^verbatim>\<open>new Date().toISOString()\<close>
    when \<open>n\<close> commands have been sent;
  \<^item> \<open>Date_now\<close>: \<^verbatim>\<open>Date.now()\<close>, in milliseconds.
\<close>

record world =
  table :: "jstring \<Rightarrow> item option"
  calls :: "command list"

type_synonym 'a io = "(error + 'a) \<times> world"

text \<open>
  \<open>and_then\<close> sequences two awaited steps: an exception of the first skips the second, and
  the world is the one the first step left.
\<close>

definition and_then :: "'a io \<Rightarrow> ('a \<Rightarrow> world \<Rightarrow> 'b io) \<Rightarrow> 'b io" where
  "and_then m f = (case m of (Inl err, w) \<Rightarrow> (Inl err, w) | (Inr x, w) \<Rightarrow> f x w)"

text \<open>Sending a command: it is logged, and the environment says whether it fails.\<close>

definition issue :: "env \<Rightarrow> command \<Rightarrow> world \<Rightarrow> error option \<times> world" where
  "issue e c w = (fault e (length (calls w)), w\<lparr>calls := calls w @ [c]\<rparr>)"

definition ValidationException :: error where
  "ValidationException = Error (S ''ValidationException'') (S ''The provided key element does not match the schema'')"

definition ConditionalCheckFailedException :: error where
  "ConditionalCheckFailedException = Error (S ''ConditionalCheckFailedException'') (S ''The conditional request failed'')"

text \<open>
  \<^verbatim>\<open>ddb.send(new PutCommand({TableName, Item, ConditionExpression: "attribute_not_exists(id)"}))\<close>:
  the write is refused when an item with this \<^verbatim>\<open>id\<close> is there.
\<close>

definition ddb_put :: "env \<Rightarrow> jstring \<Rightarrow> item \<Rightarrow> world \<Rightarrow> unit io" where
  "ddb_put e TableName Item w =
     (case issue e (PutCommand TableName Item) w of
        (Some err, w1) \<Rightarrow> (Inl err, w1)
      | (None, w1) \<Rightarrow>
          (case map_of Item (S ''id'') of
             Some (JStr i) \<Rightarrow>
               (if table w1 i \<noteq> None then (Inl ConditionalCheckFailedException, w1)
                else (Inr (), w1\<lparr>table := (table w1)(i \<mapsto> Item)\<rparr>))
           | _ \<Rightarrow> (Inl ValidationException, w1)))"

text \<open>
  \<^verbatim>\<open>ddb.send(new UpdateCommand({TableName, Key: {id}, UpdateExpression: "SET ... REMOVE ..."}))\<close>:
  unconditional. The store creates the item when no item has this key, and refuses a key
  that is not a string.
\<close>

definition apply_update :: "item \<Rightarrow> (jstring \<times> jsval) list \<Rightarrow> jstring list \<Rightarrow> item" where
  "apply_update it sets removes = foldl (\<lambda>acc k. AList.delete k acc) (spread it sets) removes"

definition ddb_update ::
  "env \<Rightarrow> jstring \<Rightarrow> jsval \<Rightarrow> (jstring \<times> jsval) list \<Rightarrow> jstring list \<Rightarrow> world \<Rightarrow> unit io" where
  "ddb_update e TableName key sets removes w =
     (case issue e (UpdateCommand TableName key sets removes) w of
        (Some err, w1) \<Rightarrow> (Inl err, w1)
      | (None, w1) \<Rightarrow>
          (case key of
             JStr i \<Rightarrow>
               (let old = (case table w1 i of None \<Rightarrow> [(S ''id'', JStr i)] | Some it \<Rightarrow> it)
                in (Inr (), w1\<lparr>table := (table w1)(i \<mapsto> apply_update old sets removes)\<rparr>))
           | _ \<Rightarrow> (Inl ValidationException, w1)))"

definition ddb_delete :: "env \<Rightarrow> jstring \<Rightarrow> jstring \<Rightarrow> world \<Rightarrow> unit io" where
  "ddb_delete e TableName i w =
     (case issue e (DeleteCommand TableName (JStr i)) w of
        (Some err, w1) \<Rightarrow> (Inl err, w1)
      | (None, w1) \<Rightarrow> (Inr (), w1\<lparr>table := (table w1)(i := None)\<rparr>))"

definition ddb_get :: "env \<Rightarrow> jstring \<Rightarrow> jstring \<Rightarrow> world \<Rightarrow> item option io" where
  "ddb_get e TableName i w =
     (case issue e (GetCommand TableName (JStr i)) w of
        (Some err, w1) \<Rightarrow> (Inl err, w1)
      | (None, w1) \<Rightarrow> (Inr (table w1 i), w1))"

definition ddb_query :: "env \<Rightarrow> jstring \<Rightarrow> jsnum \<Rightarrow> jsval \<Rightarrow> world \<Rightarrow> query_output io" where
  "ddb_query e TableName Limit ExclusiveStartKey w =
     (case issue e (QueryCommand TableName Limit ExclusiveStartKey) w of
        (Some err, w1) \<Rightarrow> (Inl err, w1)
      | (None, w1) \<Rightarrow> (Inr (query_answer e (length (calls w))), w1))"

definition sqs_send :: "env \<Rightarrow> jstring \<Rightarrow> jstring \<Rightarrow> world \<Rightarrow> unit io" where
  "sqs_send e QueueUrl MessageBody w =
     (case issue e (SendMessageCommand QueueUrl MessageBody) w of
        (Some err, w1) \<Rightarrow> (Inl err, w1)
      | (None, w1) \<Rightarrow> (Inr (), w1))"

definition sns_publish :: "env \<Rightarrow> jstring \<Rightarrow> jstring \<Rightarrow> jstring \<Rightarrow> world \<Rightarrow> unit io" where
  "sns_publish e TopicArn Subject Message w =
     (case issue e (PublishCommand TopicArn Subject Message) w of
        (Some err, w1) \<Rightarrow> (Inl err, w1)
      | (None, w1) \<Rightarrow> (Inr (), w1))"

definition fetch :: "env \<Rightarrow> jstring \<Rightarrow> jstring \<Rightarrow> world \<Rightarrow> fetch_response io" where
  "fetch e apiKey request w =
     (case issue e (FetchCommand apiKey request) w of
        (Some err, w1) \<Rightarrow> (Inl err, w1)
      | (None, w1) \<Rightarrow> (Inr (fetch_answer e (length (calls w))), w1))"

section \<open>Coercions\<close>

text \<open>
  \<^verbatim>\<open>xs.join(sep)\<close> on strings, and on texts of which one may be an exception: the first
  exception from the left is thrown.
\<close>

fun join :: "jstring \<Rightarrow> jstring list \<Rightarrow> jstring" where
  "join sep [] = []"
| "join sep [x] = x"
| "join sep (x # y # ys) = x @ sep @ join sep (y # ys)"

fun all_texts :: "(error + jstring) list \<Rightarrow> error + jstring list" where
  "all_texts [] = Inr []"
| "all_texts (Inl err # ts) = Inl err"
| "all_texts (Inr t # ts) = (case all_texts ts of Inl err \<Rightarrow> Inl err | Inr us \<Rightarrow> Inr (t # us))"

text \<open>
  The text of a value, as a template literal \<^verbatim>\<open>`${v}`\<close> takes it. An array prints its
  elements between commas, \<^verbatim>\<open>null\<close> and \<^verbatim>\<open>undefined\<close> as nothing. An object that has no property
  \<^verbatim>\<open>toString\<close> of its own inherits the method that prints \<^verbatim>\<open>[object Object]\<close>. One that has it
  has a value there that is not a function, and neither is its own \<^verbatim>\<open>valueOf\<close> if it has
  one, while the inherited \<^verbatim>\<open>valueOf\<close> returns the object: the conversion throws a TypeError.
\<close>

fun ToString :: "env \<Rightarrow> jsval \<Rightarrow> error + jstring" where
  "ToString e JUndefined = Inr (S ''undefined'')"
| "ToString e JNull = Inr (S ''null'')"
| "ToString e (JBool b) = Inr (if b then S ''true'' else S ''false'')"
| "ToString e (JNum r) = Inr (Number_toString e r)"
| "ToString e (JStr s) = Inr s"
| "ToString e (JArr xs) =
     (case all_texts (map (\<lambda>x. if x = JUndefined \<or> x = JNull then Inr [] else ToString e x) xs) of
        Inl err \<Rightarrow> Inl err
      | Inr ts \<Rightarrow> Inr (join (S '','') ts))"
| "ToString e (JObj kvs) =
     (if map_of kvs (S ''toString'') = None then Inr (S ''[object Object]'')
      else Inl (TypeError (S ''Cannot convert object to primitive value'')))"

text \<open>
  The primitive value of a value: an array or an object gives its text (its \<^verbatim>\<open>valueOf\<close>, its
  own or inherited, gives no primitive value), or throws as above.
\<close>

definition ToPrimitive :: "env \<Rightarrow> jsval \<Rightarrow> error + jsval" where
  "ToPrimitive e v =
     (case v of
        JArr xs \<Rightarrow> (case ToString e v of Inl err \<Rightarrow> Inl err | Inr s \<Rightarrow> Inr (JStr s))
      | JObj kvs \<Rightarrow> (case ToString e v of Inl err \<Rightarrow> Inl err | Inr s \<Rightarrow> Inr (JStr s))
      | _ \<Rightarrow> Inr v)"

text \<open>
  The number of a primitive value, and \<^verbatim>\<open>Number(v)\<close>, the number of any value.
\<close>

definition number_of :: "env \<Rightarrow> jsval \<Rightarrow> jsnum" where
  "number_of e p =
     (case p of
        JNull \<Rightarrow> Fin 0
      | JBool b \<Rightarrow> Fin (if b then 1 else 0)
      | JNum r \<Rightarrow> Fin r
      | JStr s \<Rightarrow> StringToNumber e s
      | _ \<Rightarrow> NaN)"

definition Number :: "env \<Rightarrow> jsval \<Rightarrow> error + jsnum" where
  "Number e v =
     (case ToPrimitive e v of Inl err \<Rightarrow> Inl err | Inr p \<Rightarrow> Inr (number_of e p))"

text \<open>A configuration value or a request parameter: a string, or \<^verbatim>\<open>undefined\<close>.\<close>

definition param :: "(jstring \<times> jstring) list \<Rightarrow> jstring \<Rightarrow> jsval" where
  "param kvs k = (case map_of kvs k of Some s \<Rightarrow> JStr s | None \<Rightarrow> JUndefined)"

text \<open>The string of a value that is a string.\<close>

definition str_of :: "jsval \<Rightarrow> jstring" where
  "str_of v = (case v of JStr s \<Rightarrow> s | _ \<Rightarrow> [])"

definition is_string :: "jsval \<Rightarrow> bool" where
  "is_string v = (case v of JStr s \<Rightarrow> True | _ \<Rightarrow> False)"

section \<open>The API function\<close>

text \<open>
  \<^verbatim>\<open>src/api-function/index.js\<close>. The event is the proxy event of the HTTP gateway: its header
  and parameter values are strings, its body is a string, or a value already parsed.
\<close>

record api_event =
  httpMethod :: jstring
  path :: "jstring option"
  resource :: "jstring option"
  queryStringParameters :: "(jstring \<times> jstring) list option"
  pathParameters :: "(jstring \<times> jstring) list option"
  headers :: "(jstring \<times> jstring) list option"
  body :: jsval

text \<open>The response \<^verbatim>\<open>{statusCode, headers, body}\<close>.\<close>

record response =
  statusCode :: nat
  res_headers :: "(jstring \<times> jsval) list"
  res_body :: jstring

definition cors :: "(jstring \<times> jsval) list" where
  "cors =
     [(S ''Access-Control-Allow-Origin'', JStr (S ''*'')),
      (S ''Access-Control-Allow-Headers'',
         JStr (S ''Content-Type,X-Amz-Date,Authorization,X-Api-Key,X-Amz-Security-Token'')),
      (S ''Access-Control-Allow-Methods'', JStr (S ''OPTIONS,GET,POST,DELETE''))]"

text \<open>
  \<^verbatim>\<open>res(statusCode, data, additionalHeaders = {})\<close>: a string is sent as it is, anything else
  as its JSON text. In \<^verbatim>\<open>src/api-function/index.js\<close> the function has no third parameter and
  the headers are \<open>cors\<close>: there \<open>additionalHeaders\<close> is always empty.
\<close>

definition res :: "env \<Rightarrow> nat \<Rightarrow> jsval \<Rightarrow> (jstring \<times> jsval) list \<Rightarrow> response" where
  "res e code data additionalHeaders =
     (let payload = (case data of JStr s \<Rightarrow> s | _ \<Rightarrow> JSON_stringify e data)
      in \<lparr>statusCode = code, res_headers = spread cors additionalHeaders, res_body = payload\<rparr>)"

text \<open>\<^verbatim>\<open>{ message: m }\<close>\<close>

definition msg :: "jstring \<Rightarrow> jsval" where
  "msg m = JObj [(S ''message'', JStr m)]"

text \<open>\<^verbatim>\<open>loadConfig()\<close> of the API function: the parameters, unchecked.\<close>

definition loadConfig :: "env \<Rightarrow> error + (jstring \<times> jstring) list" where
  "loadConfig e = ssm_parameters e"

text \<open>\<^verbatim>\<open>event.path?.endsWith("/tasks")\<close>\<close>

definition path_is_tasks :: "api_event \<Rightarrow> bool" where
  "path_is_tasks ev = (case path ev of Some p \<Rightarrow> endsWith p (S ''/tasks'') | None \<Rightarrow> False)"

text \<open>\<^verbatim>\<open>typeof event.body === "string" ? JSON.parse(event.body) : event.body\<close>\<close>

definition parse_body :: "env \<Rightarrow> jsval \<Rightarrow> error + jsval" where
  "parse_body e b = (case b of JStr s \<Rightarrow> JSON_parse e s | _ \<Rightarrow> Inr b)"

text \<open>
  \<^verbatim>\<open>(body?.topic || "").trim()\<close>: a truthy topic that is not a string has no method \<^verbatim>\<open>trim\<close>,
  and the call throws.
\<close>

definition topic_of :: "jsval \<Rightarrow> error + jstring" where
  "topic_of b =
     (case js_or (opt_prop b (S ''topic'')) (JStr []) of
        JStr s \<Rightarrow> Inr (trim s)
      | _ \<Rightarrow> Inl (TypeError (S ''(body?.topic || \"\").trim is not a function'')))"

text \<open>The Task as Create stores it, and the work item it publishes.\<close>

definition new_item :: "jstring \<Rightarrow> jstring \<Rightarrow> jstring \<Rightarrow> item" where
  "new_item i topic now =
     [(S ''id'', JStr i), (S ''pk'', JStr (S ''TASK'')), (S ''topic'', JStr topic),
      (S ''status'', JStr (S ''QUEUED'')), (S ''createdAt'', JStr now), (S ''updatedAt'', JStr now),
      (S ''researchMd'', JStr []), (S ''error'', JNull)]"

definition sqsPayload :: "jstring \<Rightarrow> jstring \<Rightarrow> jstring \<Rightarrow> jsval" where
  "sqsPayload i topic now =
     JObj [(S ''id'', JStr i), (S ''topic'', JStr topic), (S ''requestedAt'', JStr now),
           (S ''taskType'', JStr (S ''RESEARCH_SUMMARY_V1''))]"

definition created :: "jstring \<Rightarrow> jstring \<Rightarrow> jstring \<Rightarrow> jsval" where
  "created i topic now =
     JObj [(S ''id'', JStr i), (S ''topic'', JStr topic), (S ''status'', JStr (S ''QUEUED'')),
           (S ''createdAt'', JStr now)]"

text \<open>
  \<^verbatim>\<open>POST /tasks\<close>. \<open>xh\<close> is the additional header of a success response: none in
  \<^verbatim>\<open>src/api-function/index.js\<close>.
\<close>

definition create_task ::
  "env \<Rightarrow> jstring \<Rightarrow> jsval \<Rightarrow> api_event \<Rightarrow> (jstring \<times> jsval) list \<Rightarrow> world \<Rightarrow> response io" where
  "create_task e tableName queueUrl ev xh w =
     (case parse_body e (body ev) of
        Inl err \<Rightarrow> (Inr (res e 400 (msg (S ''Invalid JSON'')) []), w)
      | Inr b \<Rightarrow>
          (case topic_of b of
             Inl err \<Rightarrow> (Inl err, w)
           | Inr topic \<Rightarrow>
               if topic = []
               then (Inr (res e 422 (msg (S ''Field '' @ quoted (S ''topic'') @ S '' is required'')) []), w)
               else
                 (let i = randomUUID e (length (calls w));
                      now = toISOString e (length (calls w))
                  in and_then (ddb_put e tableName (new_item i topic now) w) (\<lambda>_ w1.
                     and_then
                       (if truthy queueUrl
                        then sqs_send e (str_of queueUrl)
                               (JSON_stringify e (sqsPayload i topic now)) w1
                        else (Inr (), w1)) (\<lambda>_ w2.
                     (Inr (res e 201 (created i topic now) xh), w2))))))"

text \<open>
  \<^verbatim>\<open>Math.min(Number(qs.limit || 25), 100)\<close>: the argument of \<^verbatim>\<open>Number\<close> is a string or 25, a
  primitive value, and the conversion cannot throw.
\<close>

definition list_limit :: "env \<Rightarrow> (jstring \<times> jstring) list \<Rightarrow> jsnum" where
  "list_limit e qs = Math_min (number_of e (js_or (param qs (S ''limit'')) (JNum 25))) (Fin 100)"

text \<open>
  \<^verbatim>\<open>qs.cursor ? JSON.parse(Buffer.from(qs.cursor, "base64").toString("utf8")) : undefined\<close>
\<close>

definition startKey_of :: "env \<Rightarrow> (jstring \<times> jstring) list \<Rightarrow> error + jsval" where
  "startKey_of e qs =
     (if truthy (param qs (S ''cursor''))
      then JSON_parse e (base64_decode e (str_of (param qs (S ''cursor''))))
      else Inr JUndefined)"

text \<open>
  \<^verbatim>\<open>out.LastEvaluatedKey ? Buffer.from(JSON.stringify(out.LastEvaluatedKey)).toString("base64") : null\<close>
\<close>

definition cursor_of :: "env \<Rightarrow> jsval \<Rightarrow> jsval" where
  "cursor_of e k = (if truthy k then JStr (base64_encode e (JSON_stringify e k)) else JNull)"

text \<open>\<^verbatim>\<open>GET /tasks\<close>\<close>

definition list_tasks ::
  "env \<Rightarrow> jstring \<Rightarrow> api_event \<Rightarrow> (jstring \<times> jsval) list \<Rightarrow> world \<Rightarrow> response io" where
  "list_tasks e tableName ev xh w =
     (let qs = (case queryStringParameters ev of Some q \<Rightarrow> q | None \<Rightarrow> []);
          limit = list_limit e qs
      in case startKey_of e qs of
           Inl err \<Rightarrow> (Inl err, w)
         | Inr startKey \<Rightarrow>
             and_then (ddb_query e tableName limit startKey w) (\<lambda>out w1.
               (Inr (res e 200
                  (JObj [(S ''items'', JArr (case Items out of Some xs \<Rightarrow> xs | None \<Rightarrow> [])),
                         (S ''cursor'', cursor_of e (LastEvaluatedKey out))]) xh),
                w1)))"

text \<open>\<^verbatim>\<open>event.pathParameters?.id\<close>\<close>

definition path_id :: "api_event \<Rightarrow> jsval" where
  "path_id ev = (case pathParameters ev of Some ps \<Rightarrow> param ps (S ''id'') | None \<Rightarrow> JUndefined)"

definition missing_id :: "env \<Rightarrow> response" where
  "missing_id e = res e 400 (msg (S ''Missing path param '' @ quoted (S ''id''))) []"

text \<open>\<^verbatim>\<open>GET /tasks/{id}\<close>\<close>

definition get_task ::
  "env \<Rightarrow> jstring \<Rightarrow> api_event \<Rightarrow> (jstring \<times> jsval) list \<Rightarrow> world \<Rightarrow> response io" where
  "get_task e tableName ev xh w =
     (if \<not> truthy (path_id ev) then (Inr (missing_id e), w)
      else and_then (ddb_get e tableName (str_of (path_id ev)) w) (\<lambda>out w1.
             (case out of
                None \<Rightarrow> (Inr (res e 404 (msg (S ''Not Found'')) []), w1)
              | Some it \<Rightarrow> (Inr (res e 200 (JObj it) xh), w1))))"

text \<open>\<^verbatim>\<open>DELETE /tasks/{id}\<close>\<close>

definition delete_task ::
  "env \<Rightarrow> jstring \<Rightarrow> api_event \<Rightarrow> (jstring \<times> jsval) list \<Rightarrow> world \<Rightarrow> response io" where
  "delete_task e tableName ev xh w =
     (if \<not> truthy (path_id ev) then (Inr (missing_id e), w)
      else and_then (ddb_delete e tableName (str_of (path_id ev)) w) (\<lambda>_ w1.
             (Inr (res e 204 (JStr []) xh), w1)))"

text \<open>The body of the handler's \<^verbatim>\<open>try\<close>, once the configuration is loaded.\<close>

definition routes ::
  "env \<Rightarrow> (jstring \<times> jstring) list \<Rightarrow> api_event \<Rightarrow> (jstring \<times> jsval) list \<Rightarrow> world \<Rightarrow> response io" where
  "routes e config ev xh w =
     (let tableName = param config (S ''dynamo-db-table-name'');
          queueUrl = param config (S ''sqs-queue-url'')
      in if \<not> truthy tableName
         then (Inr (res e 500 (msg (S ''dynamo-db-table-name not set'')) []), w)
         else if httpMethod ev = S ''POST'' \<and> path_is_tasks ev
         then create_task e (str_of tableName) queueUrl ev xh w
         else if httpMethod ev = S ''GET'' \<and> path_is_tasks ev \<and> resource ev \<noteq> Some (S ''/tasks/{id}'')
         then list_tasks e (str_of tableName) ev xh w
         else if httpMethod ev = S ''GET'' \<and> resource ev = Some (S ''/tasks/{id}'')
         then get_task e (str_of tableName) ev xh w
         else if httpMethod ev = S ''DELETE'' \<and> resource ev = Some (S ''/tasks/{id}'')
         then delete_task e (str_of tableName) ev xh w
         else (Inr (res e 404 (msg (S ''Not Found'')) []), w))"

text \<open>The \<^verbatim>\<open>catch\<close> of the handler: any exception becomes a 500 response.\<close>

definition server_error :: "env \<Rightarrow> response io \<Rightarrow> response \<times> world" where
  "server_error e m =
     (case m of
        (Inr r, w) \<Rightarrow> (r, w)
      | (Inl err, w) \<Rightarrow>
          (res e 500 (JObj [(S ''message'', JStr (S ''Server error'')), (S ''error'', JStr (message err))]) [],
           w))"

text \<open>\<^verbatim>\<open>handler\<close> of \<^verbatim>\<open>src/api-function/index.js\<close>.\<close>

definition handler_api :: "env \<Rightarrow> api_event \<Rightarrow> world \<Rightarrow> response \<times> world" where
  "handler_api e ev w =
     (if httpMethod ev = S ''OPTIONS''
      then (\<lparr>statusCode = 200, res_headers = cors, res_body = []\<rparr>, w)
      else server_error e
             (case loadConfig e of
                Inl err \<Rightarrow> (Inl err, w)
              | Inr config \<Rightarrow> routes e config ev [] w))"

section \<open>The worker function\<close>

text \<open>
  \<^verbatim>\<open>src/worker-function/index.js\<close>. The event is a batch of queue records, each with its
  message identifier and its body, a string.
\<close>

record sqs_record =
  messageId :: jstring
  sqs_body :: jstring

record sqs_event =
  Records :: "sqs_record list option"

text \<open>The batch failure report \<^verbatim>\<open>{ batchItemFailures: [{ itemIdentifier }, ...] }\<close>.\<close>

record batch_response =
  batchItemFailures :: "jstring list"

text \<open>A natural number in decimal, as a template literal prints it.\<close>

fun decimal :: "nat \<Rightarrow> jstring" where
  "decimal n = (if n < 10 then [of_nat (48 + n)] else decimal (n div 10) @ [of_nat (48 + n mod 10)])"

text \<open>
  \<^verbatim>\<open>loadConfig()\<close> of the worker: the parameters, refused when one of the three required
  keys is missing or empty.
\<close>

definition required :: "jstring list" where
  "required = [S ''dynamo-db-table-name'', S ''openai-api-key'', S ''openai-prompt-id'']"

definition loadConfig_worker :: "env \<Rightarrow> error + (jstring \<times> jstring) list" where
  "loadConfig_worker e =
     (case ssm_parameters e of
        Inl err \<Rightarrow> Inl err
      | Inr params \<Rightarrow>
          (let missing = filter (\<lambda>k. \<not> truthy (param params k)) required
           in if missing \<noteq> []
              then Inl (Error (S ''Error'') (S ''Missing SSM parameters: '' @ join (S '', '') missing))
              else Inr params))"

text \<open>
  \<^verbatim>\<open>extractMarkdown(data)\<close>. \<open>pushed c\<close> is what the inner loop pushes for the element \<open>c\<close> of a
  block's content; \<open>block_parts blk\<close> runs the inner loop on one block: a content that is a
  string is iterated character by character, and a truthy content that is neither an
  array nor a string is not iterable.
\<close>

definition pushed :: "jsval \<Rightarrow> jstring list" where
  "pushed c =
     (if is_string c then [str_of c]
      else if is_string (opt_prop c (S ''text'')) then [str_of (opt_prop c (S ''text''))]
      else if is_string (opt_prop (opt_prop c (S ''text'')) (S ''value''))
        then [str_of (opt_prop (opt_prop c (S ''text'')) (S ''value''))]
      else if is_string (opt_prop c (S ''output_text'')) then [str_of (opt_prop c (S ''output_text''))]
      else [])"

definition block_parts :: "jsval \<Rightarrow> error + jstring list" where
  "block_parts blk =
     (case js_or (js_or (opt_prop blk (S ''content'')) (opt_prop blk (S ''contents''))) (JArr []) of
        JArr cs \<Rightarrow> Inr (concat (map pushed cs))
      | JStr s \<Rightarrow> Inr (map (\<lambda>c. [c]) s)
      | _ \<Rightarrow> Inl (TypeError (S ''content is not iterable'')))"

fun output_parts :: "jsval list \<Rightarrow> error + jstring list" where
  "output_parts [] = Inr []"
| "output_parts (blk # blks) =
     (case block_parts blk of
        Inl err \<Rightarrow> Inl err
      | Inr ps \<Rightarrow> (case output_parts blks of Inl err \<Rightarrow> Inl err | Inr qs \<Rightarrow> Inr (ps @ qs)))"

definition older_part :: "jsval \<Rightarrow> jstring" where
  "older_part c =
     (if is_string (opt_prop (opt_prop c (S ''text'')) (S ''value''))
        then str_of (opt_prop (opt_prop c (S ''text'')) (S ''value''))
      else if is_string (opt_prop c (S ''text'')) then str_of (opt_prop c (S ''text''))
      else [])"

definition older_shapes :: "jsval \<Rightarrow> jstring" where
  "older_shapes data =
     (case opt_prop data (S ''content'') of
        JArr cs \<Rightarrow> trim (concat (map older_part cs))
      | _ \<Rightarrow> [])"

definition extractMarkdown :: "jsval \<Rightarrow> error + jstring" where
  "extractMarkdown data =
     (if is_string (opt_prop data (S ''output_text'')) \<and> trim (str_of (opt_prop data (S ''output_text''))) \<noteq> []
      then Inr (trim (str_of (opt_prop data (S ''output_text''))))
      else
        (case opt_prop data (S ''output'') of
           JArr blks \<Rightarrow>
             (case output_parts blks of
                Inl err \<Rightarrow> Inl err
              | Inr parts \<Rightarrow>
                  if trim (concat parts) \<noteq> [] then Inr (trim (concat parts))
                  else Inr (older_shapes data))
         | _ \<Rightarrow> Inr (older_shapes data)))"

text \<open>\<^verbatim>\<open>callOpenAIWithPrompt(topic, apiKey, promptId)\<close>\<close>

definition callOpenAIWithPrompt :: "env \<Rightarrow> jsval \<Rightarrow> jstring \<Rightarrow> jstring \<Rightarrow> world \<Rightarrow> jstring io" where
  "callOpenAIWithPrompt e topic apiKey promptId w =
     (let request =
        JSON_stringify e
          (JObj [(S ''prompt'', JObj [(S ''id'', JStr promptId), (S ''variables'', JObj [(S ''topic'', topic)])])])
      in and_then (fetch e apiKey request w) (\<lambda>r w1.
           if \<not> ok r
           then (Inl (Error (S ''Error'') (S ''OpenAI '' @ decimal (status r) @ S '': '' @ body_text r)), w1)
           else
             (case body_json r of
                Inl err \<Rightarrow> (Inl err, w1)
              | Inr data \<Rightarrow>
                  (case extractMarkdown data of
                     Inl err \<Rightarrow> (Inl err, w1)
                   | Inr md \<Rightarrow>
                       if md = [] then (Inl (Error (S ''Error'') (S ''Empty OpenAI response'')), w1)
                       else (Inr md, w1)))))"

text \<open>
  A template literal with one value in it, \<^verbatim>\<open>`... ${v}`\<close>: the text of the value, or the
  exception of its conversion. The log lines of the handlers that are template literals
  are kept for that exception.
\<close>

definition template :: "env \<Rightarrow> jsval \<Rightarrow> world \<Rightarrow> jstring io" where
  "template e v w = (ToString e v, w)"

text \<open>
  The completion notice: the subject, and the message
  \<^verbatim>\<open>`<notice_head>${topic}<notice_mid>${id}`\<close> around the texts of the topic and the id.
\<close>

definition notice_subject :: jstring where
  "notice_subject =
     [0x041A, 0x043E, 0x043D, 0x0441, 0x043F, 0x0435, 0x043A, 0x0442, 0x0020,
      0x0433, 0x043E, 0x0442, 0x043E, 0x0432, 0x0438, 0x0439]"

definition notice_head :: jstring where
  "notice_head =
     [0x041A, 0x043E, 0x043D, 0x0441, 0x043F, 0x0435, 0x043A, 0x0442, 0x0020, 0x043D, 0x0430,
      0x0020, 0x0442, 0x0435, 0x043C, 0x0443, 0x0020, 0x0022]"

definition notice_mid :: jstring where
  "notice_mid =
     [0x0022, 0x0020, 0x0433, 0x043E, 0x0442, 0x043E, 0x0432, 0x0438, 0x0439, 0x002E, 0x0020,
      0x0049, 0x0044, 0x003A, 0x0020]"

definition notice :: "jstring \<Rightarrow> jstring \<Rightarrow> jstring" where
  "notice topic_text id_text = notice_head @ topic_text @ notice_mid @ id_text"

text \<open>
  The \<^verbatim>\<open>try\<close> block of the loop body, for one record. The three log lines
  \<^verbatim>\<open>`... id=${id}`\<close> stand before the \<^verbatim>\<open>PROCESSING\<close> write, before the \<^verbatim>\<open>DONE\<close> write and before
  the notice; the message of the notice is built before the notice is sent.
\<close>

definition try_record :: "env \<Rightarrow> (jstring \<times> jstring) list \<Rightarrow> sqs_record \<Rightarrow> world \<Rightarrow> unit io" where
  "try_record e cfg r w =
     (let TABLE_NAME = str_of (param cfg (S ''dynamo-db-table-name''));
          SNS_TOPIC_ARN = param cfg (S ''sns-topic-arn'');
          OPENAI_API_KEY = str_of (param cfg (S ''openai-api-key''));
          OPENAI_PROMPT_ID = str_of (param cfg (S ''openai-prompt-id''))
      in case JSON_parse e (sqs_body r) of
           Inl err \<Rightarrow> (Inl err, w)
         | Inr m \<Rightarrow>
             (case get_prop m (S ''id'') of
                Inl err \<Rightarrow> (Inl err, w)
              | Inr i \<Rightarrow>
                  (case get_prop m (S ''topic'') of
                     Inl err \<Rightarrow> (Inl err, w)
                   | Inr topic \<Rightarrow>
                       if \<not> truthy i \<or> \<not> truthy topic
                       then (Inl (Error (S ''Error'') (S ''Message must contain id and topic'')), w)
                       else
                         and_then (template e i w) (\<lambda>_ w0.
                         and_then
                           (ddb_update e TABLE_NAME i
                              [(S ''status'', JStr (S ''PROCESSING'')),
                               (S ''updatedAt'', JStr (toISOString e (length (calls w0))))] [] w0) (\<lambda>_ w1.
                         and_then
                           (callOpenAIWithPrompt e topic OPENAI_API_KEY OPENAI_PROMPT_ID w1) (\<lambda>markdown w2.
                         and_then (template e i w2) (\<lambda>_ w2.
                         and_then
                           (ddb_update e TABLE_NAME i
                              [(S ''researchMd'', JStr markdown), (S ''status'', JStr (S ''DONE'')),
                               (S ''updatedAt'', JStr (toISOString e (length (calls w2))))]
                              [S ''error''] w2) (\<lambda>_ w3.
                         if truthy SNS_TOPIC_ARN
                         then
                           and_then (template e i w3) (\<lambda>_ w3.
                           and_then (template e topic w3) (\<lambda>topic_text w3.
                           and_then (template e i w3) (\<lambda>id_text w3.
                             sns_publish e (str_of SNS_TOPIC_ARN) notice_subject
                               (notice topic_text id_text) w3)))
                         else (Inr (), w3)))))))))"

text \<open>
  The \<^verbatim>\<open>catch\<close> block, after the record is put on the failure list: the body is parsed
  again and, when it has a truthy \<^verbatim>\<open>id\<close>, the line \<^verbatim>\<open>`... id=${safe.id}`\<close> is logged and the task
  under this \<^verbatim>\<open>id\<close> is marked \<^verbatim>\<open>ERROR\<close>. Whatever this attempt throws is logged and dropped.
\<close>

definition mark_error :: "env \<Rightarrow> (jstring \<times> jstring) list \<Rightarrow> sqs_record \<Rightarrow> error \<Rightarrow> world \<Rightarrow> world" where
  "mark_error e cfg r err w =
     (case JSON_parse e (sqs_body r) of
        Inl nested \<Rightarrow> w
      | Inr safe \<Rightarrow>
          if truthy (opt_prop safe (S ''id''))
          then snd (and_then (template e (opt_prop safe (S ''id'')) w) (\<lambda>_ w0.
                      ddb_update e (str_of (param cfg (S ''dynamo-db-table-name''))) (opt_prop safe (S ''id''))
                        [(S ''error'', JStr (error_text err)), (S ''status'', JStr (S ''ERROR'')),
                         (S ''updatedAt'', JStr (toISOString e (length (calls w0))))] [] w0))
          else w)"

text \<open>The loop body: the failure list and the world, before and after one record.\<close>

definition process_record ::
  "env \<Rightarrow> (jstring \<times> jstring) list \<Rightarrow> jstring list \<times> world \<Rightarrow> sqs_record \<Rightarrow> jstring list \<times> world" where
  "process_record e cfg s r =
     (case try_record e cfg r (snd s) of
        (Inr u, w1) \<Rightarrow> (fst s, w1)
      | (Inl err, w1) \<Rightarrow> (fst s @ [messageId r], mark_error e cfg r err w1))"

text \<open>\<^verbatim>\<open>handler\<close> of \<^verbatim>\<open>src/worker-function/index.js\<close>.\<close>

definition handler_worker :: "env \<Rightarrow> sqs_event \<Rightarrow> world \<Rightarrow> batch_response \<times> world" where
  "handler_worker e ev w =
     (let records = (case Records ev of Some rs \<Rightarrow> rs | None \<Rightarrow> [])
      in case loadConfig_worker e of
           Inl err \<Rightarrow> (\<lparr>batchItemFailures = map messageId records\<rparr>, w)
         | Inr cfg \<Rightarrow>
             (let s = foldl (process_record e cfg) ([], w) records
              in (\<lparr>batchItemFailures = fst s\<rparr>, snd s)))"

section \<open>The API function with the identity hint\<close>

text \<open>
  \<^verbatim>\<open>src/unnamed/part_000\<close>: the API function of the previous section, with a user read from
  the bearer token of the request. Its routes are the same code; a success response
  carries the header \<^verbatim>\<open>X-User-ID\<close> when a user was found.
\<close>

record user =
  user_id :: jsval
  email :: jsval
  username :: jsval
  userStatus :: jsval
  user_payload :: jsval

text \<open>
  \<^verbatim>\<open>parseJWT(token)\<close>: three segments between dots (the code unit \<open>0x2E\<close>), the middle one
  padded with \<^verbatim>\<open>=\<close> (\<open>0x3D\<close>) to a multiple of four code units, decoded and parsed. Every
  failure is thrown again as one error.
\<close>

definition parseJWT :: "env \<Rightarrow> jstring \<Rightarrow> error + jsval" where
  "parseJWT e token =
     (case split 0x2E token of
        [h, payload, sig] \<Rightarrow>
          (let paddedPayload = payload @ replicate ((4 - length payload mod 4) mod 4) 0x3D;
               decodedPayload = base64url_decode e paddedPayload
           in case JSON_parse e decodedPayload of
                Inl err \<Rightarrow> Inl (Error (S ''Error'') (S ''Failed to parse JWT: '' @ message err))
              | Inr p \<Rightarrow> Inr p)
      | _ \<Rightarrow> Inl (Error (S ''Error'') (S ''Failed to parse JWT: Invalid JWT format'')))"

text \<open>
  \<^verbatim>\<open>isTokenExpired(payload)\<close>: \<^verbatim>\<open>if (!payload.exp) return true;\<close> then
  \<^verbatim>\<open>payload.exp < Math.floor(Date.now() / 1000)\<close>, which compares the number of \<^verbatim>\<open>exp\<close>.
\<close>

definition isTokenExpired :: "env \<Rightarrow> jsval \<Rightarrow> error + bool" where
  "isTokenExpired e payload =
     (case get_prop payload (S ''exp'') of
        Inl err \<Rightarrow> Inl err
      | Inr ex \<Rightarrow>
          if \<not> truthy ex then Inr True
          else
            (case Number e ex of
               Inl err \<Rightarrow> Inl err
             | Inr n \<Rightarrow> Inr (js_lt n (Fin (of_int (Date_now e div 1000))))))"

text \<open>\<^verbatim>\<open>authHeader.replace(/^Bearer\s+/i, "")\<close>\<close>

definition strip_bearer :: "jstring \<Rightarrow> jstring" where
  "strip_bearer h =
     (if length h > 6
         \<and> list_all2 (\<lambda>c lu. c = fst lu \<or> c = snd lu) (take 6 h) (zip (S ''bearer'') (S ''BEARER''))
         \<and> is_space (h ! 6)
      then dropWhile is_space (drop 6 h)
      else h)"

text \<open>
  The issuer the token must name, from the user pool id \<^verbatim>\<open>region_suffix\<close>, split at the
  underscore (\<open>0x5F\<close>).
\<close>

definition expected_issuer :: "jstring \<Rightarrow> jstring" where
  "expected_issuer userPoolId =
     (S ''https://cognito-idp.'')
       @ (case split 0x5F userPoolId of region # _ \<Rightarrow> region | [] \<Rightarrow> [])
       @ S ''.amazonaws.com/'' @ userPoolId"

text \<open>The \<^verbatim>\<open>try\<close> block of \<^verbatim>\<open>getAuthenticatedUser\<close>.\<close>

definition verify_token :: "env \<Rightarrow> jstring \<Rightarrow> jstring \<Rightarrow> jstring \<Rightarrow> error + user option" where
  "verify_token e token userPoolId clientId =
     (case parseJWT e token of
        Inl err \<Rightarrow> Inl err
      | Inr payload \<Rightarrow>
          (case isTokenExpired e payload of
             Inl err \<Rightarrow> Inl err
           | Inr expired \<Rightarrow>
               if expired then Inr None
               else if opt_prop payload (S ''iss'') \<noteq> JStr (expected_issuer userPoolId) then Inr None
               else if opt_prop payload (S ''aud'') \<noteq> JStr clientId then Inr None
               else if opt_prop payload (S ''token_use'') \<noteq> JStr (S ''id'') then Inr None
               else Inr (Some \<lparr>user_id = opt_prop payload (S ''sub''),
                                email = opt_prop payload (S ''email''),
                                username = opt_prop payload (S ''cognito:username''),
                                userStatus = opt_prop payload (S ''cognito:user_status''),
                                user_payload = payload\<rparr>)))"

text \<open>\<^verbatim>\<open>getAuthenticatedUser(event, config)\<close>: a user, or \<^verbatim>\<open>null\<close>.\<close>

definition getAuthenticatedUser :: "env \<Rightarrow> api_event \<Rightarrow> (jstring \<times> jstring) list \<Rightarrow> user option" where
  "getAuthenticatedUser e ev config =
     (let userPoolId = param config (S ''cognito-user-pool-id'');
          clientId = param config (S ''cognito-client-id'')
      in if \<not> truthy userPoolId \<or> \<not> truthy clientId then None
         else
           (let hs = (case headers ev of Some h \<Rightarrow> h | None \<Rightarrow> []);
                authHeader = js_or (param hs (S ''Authorization'')) (param hs (S ''authorization''))
            in if \<not> truthy authHeader then None
               else
                 (let token = strip_bearer (str_of authHeader)
                  in if token = [] then None
                     else
                       (case verify_token e token (str_of userPoolId) (str_of clientId) of
                          Inl err \<Rightarrow> None
                        | Inr u \<Rightarrow> u))))"

text \<open>\<^verbatim>\<open>user ? { "X-User-ID": user.id } : {}\<close>\<close>

definition user_header :: "user option \<Rightarrow> (jstring \<times> jsval) list" where
  "user_header u = (case u of Some x \<Rightarrow> [(S ''X-User-ID'', user_id x)] | None \<Rightarrow> [])"

text \<open>
  \<^verbatim>\<open>handler\<close> of \<^verbatim>\<open>src/unnamed/part_000\<close>. The user is logged, \<^verbatim>\<open>user ? `ID: ${user.id}` : ...\<close>,
  inside the \<^verbatim>\<open>try\<close> of the handler, before the request is routed.
\<close>

definition handler_api_auth :: "env \<Rightarrow> api_event \<Rightarrow> world \<Rightarrow> response \<times> world" where
  "handler_api_auth e ev w =
     (if httpMethod ev = S ''OPTIONS''
      then (\<lparr>statusCode = 200, res_headers = cors, res_body = []\<rparr>, w)
      else server_error e
             (case loadConfig e of
                Inl err \<Rightarrow> (Inl err, w)
              | Inr config \<Rightarrow>
                  (let user = getAuthenticatedUser e ev config
                   in and_then
                        (case user of Some u \<Rightarrow> template e (user_id u) w | None \<Rightarrow> (Inr [], w))
                        (\<lambda>_ w0. routes e config ev (user_header user) w0))))"

section \<open>Reading the store\<close>

text \<open>The status a task has in the store, if the task is there and has one.\<close>

definition status_of :: "world \<Rightarrow> jstring \<Rightarrow> jsval option" where
  "status_of w i = (case table w i of Some it \<Rightarrow> map_of it (S ''status'') | None \<Rightarrow> None)"

text \<open>
  A step from one world to another never queues: a task that is \<^verbatim>\<open>QUEUED\<close> after it was
  \<^verbatim>\<open>QUEUED\<close> before it. It returns no task to \<^verbatim>\<open>QUEUED\<close>: a task that is \<^verbatim>\<open>QUEUED\<close> after it
  was \<^verbatim>\<open>QUEUED\<close> before it, or was not in the store.
\<close>

definition never_queues :: "world \<Rightarrow> world \<Rightarrow> bool" where
  "never_queues w w' =
     (\<forall>i. status_of w' i = Some (JStr (S ''QUEUED'')) \<longrightarrow> status_of w i = Some (JStr (S ''QUEUED'')))"

definition no_requeue :: "world \<Rightarrow> world \<Rightarrow> bool" where
  "no_requeue w w' =
     (\<forall>i. status_of w' i = Some (JStr (S ''QUEUED'')) \<longrightarrow>
            status_of w i = Some (JStr (S ''QUEUED'')) \<or> table w i = None)"

text \<open>
  The system at work: a sequence of invocations of the API function (with or without the
  identity hint) and of the worker, each in the environment of its time.
\<close>

datatype invocation =
    Api env api_event
  | ApiWithHint env api_event
  | Worker env sqs_event

fun invoke :: "world \<Rightarrow> invocation \<Rightarrow> world" where
  "invoke w (Api e ev) = snd (handler_api e ev w)"
| "invoke w (ApiWithHint e ev) = snd (handler_api_auth e ev w)"
| "invoke w (Worker e ev) = snd (handler_worker e ev w)"

definition run :: "invocation list \<Rightarrow> world \<Rightarrow> world" where
  "run ops w = foldl invoke w ops"

text \<open>The items of a query answer, \<^verbatim>\<open>out.Items || []\<close>.\<close>

definition items_of :: "query_output \<Rightarrow> jsval list" where
  "items_of out = (case Items out of Some xs \<Rightarrow> xs | None \<Rightarrow> [])"

section \<open>A sample environment\<close>

text \<open>
  The values the examples below run on: a configuration with every parameter set, a
  runtime that answers as Node.js does on the texts of the examples (a JSON printer for
  text without quotes, backslashes or control characters, and a JSON reader and base64
  codecs given as tables), a store, a queue and a topic that accept every command, and a
  generation backend that answers with a note.
\<close>

definition sample_config :: "(jstring \<times> jstring) list" where
  "sample_config =
     [(S ''dynamo-db-table-name'', S ''tasks''),
      (S ''sqs-queue-url'', S ''https://sqs.example/tasks''),
      (S ''sns-topic-arn'', S ''arn:aws:sns:eu-west-1:1:done''),
      (S ''openai-api-key'', S ''sk-sample''),
      (S ''openai-prompt-id'', S ''pmpt_1''),
      (S ''cognito-user-pool-id'', S ''eu-west-1_Ab1''),
      (S ''cognito-client-id'', S ''client-1'')]"

definition sample_key :: jsval where
  "sample_key =
     JObj [(S ''id'', JStr (S ''t1'')), (S ''pk'', JStr (S ''TASK'')),
           (S ''createdAt'', JStr (S ''2024-01-01T00:00:00.000Z''))]"

definition sample_key_json :: jstring where
  "sample_key_json = S ''{\"id\":\"t1\",\"pk\":\"TASK\",\"createdAt\":\"2024-01-01T00:00:00.000Z\"}''"

definition sample_cursor :: jstring where
  "sample_cursor =
     (S ''eyJpZCI6InQxIiwicGsiOiJUQVNLIiwiY3JlYXRlZEF0IjoiMjAyNC0wMS0wMVQwMDowMDowMC4wMDBaIn0='')"

definition sample_payload :: jsval where
  "sample_payload =
     JObj [(S ''sub'', JStr (S ''u-1'')), (S ''exp'', JNum 1700000000),
           (S ''iss'', JStr (S ''https://cognito-idp.eu-west-1.amazonaws.com/eu-west-1_Ab1'')),
           (S ''aud'', JStr (S ''client-1'')), (S ''token_use'', JStr (S ''id''))]"

definition sample_payload_json :: jstring where
  "sample_payload_json =
     (S ''{\"sub\":\"u-1\",\"exp\":1700000000,\"iss\":\"https://cognito-idp.eu-west-1.amazonaws.com/eu-west-1_Ab1\",\"aud\":\"client-1\",\"token_use\":\"id\"}'')"

definition sample_segment :: jstring where
  "sample_segment =
     (S ''eyJzdWIiOiJ1LTEiLCJleHAiOjE3MDAwMDAwMDAsImlzcyI6Imh0dHBzOi8vY29nbml0by1pZHAuZXUtd2VzdC0xLmFtYXpvbmF3cy5jb20vZXUtd2VzdC0xX0FiMSIsImF1ZCI6ImNsaWVudC0xIiwidG9rZW5fdXNlIjoiaWQifQ'')"

definition sample_token :: jstring where
  "sample_token = S ''eyJhbGciOiJSUzI1NiJ9.'' @ sample_segment @ S ''.c2ln''"

text \<open>A second token, whose \<^verbatim>\<open>sub\<close> claim is the object \<^verbatim>\<open>{"toString":0}\<close>.\<close>

definition object_sub_payload :: jsval where
  "object_sub_payload =
     JObj [(S ''sub'', JObj [(S ''toString'', JNum 0)]), (S ''exp'', JNum 1700000000),
           (S ''iss'', JStr (S ''https://cognito-idp.eu-west-1.amazonaws.com/eu-west-1_Ab1'')),
           (S ''aud'', JStr (S ''client-1'')), (S ''token_use'', JStr (S ''id''))]"

definition object_sub_payload_json :: jstring where
  "object_sub_payload_json =
     S ''{\"sub\":{\"toString\":0},\"exp\":1700000000,\"iss\":\"https://cognito-idp.eu-west-1.amazonaws.com/eu-west-1_Ab1\",\"aud\":\"client-1\",\"token_use\":\"id\"}''"

definition object_sub_segment :: jstring where
  "object_sub_segment =
     S ''eyJzdWIiOnsidG9TdHJpbmciOjB9LCJleHAiOjE3MDAwMDAwMDAsImlzcyI6Imh0dHBzOi8vY29nbml0by1pZHAuZXUtd2VzdC0xLmFtYXpvbmF3cy5jb20vZXUtd2VzdC0xX0FiMSIsImF1ZCI6ImNsaWVudC0xIiwidG9rZW5fdXNlIjoiaWQifQ''"

definition object_sub_token :: jstring where
  "object_sub_token = S ''eyJhbGciOiJSUzI1NiJ9.'' @ object_sub_segment @ S ''.c2ln''"

definition sample_parse :: "jstring \<Rightarrow> error + jsval" where
  "sample_parse s =
     (if s = S ''{\"topic\":\"   \"}'' then Inr (JObj [(S ''topic'', JStr (S ''   ''))])
      else if s = S ''{\"topic\":\" Photosynthesis \"}''
        then Inr (JObj [(S ''topic'', JStr (S '' Photosynthesis ''))])
      else if s = S ''{\"id\":\"t1\",\"topic\":\"Photosynthesis\"}''
        then Inr (JObj [(S ''id'', JStr (S ''t1'')), (S ''topic'', JStr (S ''Photosynthesis''))])
      else if s = S ''{\"id\":\"t1\"}'' then Inr (JObj [(S ''id'', JStr (S ''t1''))])
      else if s = S ''{\"topic\":\"Photosynthesis\"}''
        then Inr (JObj [(S ''topic'', JStr (S ''Photosynthesis''))])
      else if s = sample_key_json then Inr sample_key
      else if s = sample_payload_json then Inr sample_payload
      else if s = object_sub_payload_json then Inr object_sub_payload
      else if s = S ''{\"id\":{\"toString\":0}}''
        then Inr (JObj [(S ''id'', JObj [(S ''toString'', JNum 0)])])
      else if s = S ''{\"id\":\"t1\",\"topic\":{\"toString\":0}}''
        then Inr (JObj [(S ''id'', JStr (S ''t1'')), (S ''topic'', JObj [(S ''toString'', JNum 0)])])
      else Inl (Error (S ''SyntaxError'') (S ''Unexpected token'')))"

fun sample_stringify :: "jsval \<Rightarrow> jstring" where
  "sample_stringify JUndefined = S ''null''"
| "sample_stringify JNull = S ''null''"
| "sample_stringify (JBool b) = (if b then (S ''true'') else (S ''false''))"
| "sample_stringify (JNum r) = decimal (nat \<lfloor>r\<rfloor>)"
| "sample_stringify (JStr s) = S ''\"'' @ s @ S ''\"''"
| "sample_stringify (JArr xs) = S ''['' @ join (S '','') (map sample_stringify xs) @ S '']''"
| "sample_stringify (JObj kvs) =
     (S ''{'') @ join (S '','')
              (map (\<lambda>kv. S ''\"'' @ fst kv @ S ''\":'' @ sample_stringify (snd kv))
                 (filter (\<lambda>kv. snd kv \<noteq> JUndefined) kvs)) @ S ''}''"

definition sample_note :: jsval where
  "sample_note = JObj [(S ''output_text'', JStr (S '' # Photosynthesis ''))]"

definition env0 :: env where
  "env0 =
     \<lparr>JSON_parse = sample_parse,
      JSON_stringify = sample_stringify,
      base64_encode = (\<lambda>s. if s = sample_key_json then sample_cursor else []),
      base64_decode = (\<lambda>c. if c = sample_cursor then sample_key_json else []),
      base64url_decode =
        (\<lambda>c. if c = sample_segment @ S ''=='' then sample_payload_json
             else if c = object_sub_segment @ S ''=='' then object_sub_payload_json
             else []),
      StringToNumber = (\<lambda>s. if s = S ''500'' then Fin 500 else if s = S ''7'' then Fin 7 else NaN),
      Number_toString = (\<lambda>r. decimal (nat \<lfloor>r\<rfloor>)),
      ssm_parameters = Inr sample_config,
      fault = (\<lambda>n. None),
      query_answer = (\<lambda>n. \<lparr>Items = Some [JObj [(S ''id'', JStr (S ''t1''))]], LastEvaluatedKey = sample_key\<rparr>),
      fetch_answer = (\<lambda>n. \<lparr>ok = True, status = 200, body_text = [], body_json = Inr sample_note\<rparr>),
      randomUUID = (\<lambda>n. (S ''0b9f7c1e-uuid'')),
      toISOString = (\<lambda>n. if n = 0 then (S ''2024-01-01T00:00:00.000Z'') else (S ''2024-01-01T00:00:01.000Z'')),
      Date_now = 1700000000000\<rparr>"

definition world0 :: world where
  "world0 = \<lparr>table = (\<lambda>i. None), calls = []\<rparr>"

text \<open>Requests and records of the examples.\<close>

definition post_tasks :: "jstring \<Rightarrow> api_event" where
  "post_tasks b =
     \<lparr>httpMethod = S ''POST'', path = Some (S ''/prod/tasks''), resource = Some (S ''/tasks''),
      queryStringParameters = None, pathParameters = None, headers = None, body = JStr b\<rparr>"

definition get_tasks :: "(jstring \<times> jstring) list option \<Rightarrow> api_event" where
  "get_tasks qs =
     \<lparr>httpMethod = S ''GET'', path = Some (S ''/prod/tasks''), resource = Some (S ''/tasks''),
      queryStringParameters = qs, pathParameters = None, headers = None, body = JNull\<rparr>"

text \<open>The queue refuses the message: the second command of an invocation fails.\<close>

definition env_queue_down :: env where
  "env_queue_down =
     env0\<lparr>fault := (\<lambda>n. if n = 1 then Some (Error (S ''QueueDoesNotExist'') (S ''The queue does not exist''))
                         else None)\<rparr>"

text \<open>The same configuration without a queue.\<close>

definition env_no_queue :: env where
  "env_no_queue = env0\<lparr>ssm_parameters := Inr [(S ''dynamo-db-table-name'', S ''tasks'')]\<rparr>"

text \<open>The generation backend cannot be reached: the second command fails.\<close>

definition env_backend_down :: env where
  "env_backend_down =
     env0\<lparr>fault := (\<lambda>n. if n = 1 then Some (Error (S ''TypeError'') (S ''fetch failed'')) else None)\<rparr>"

text \<open>The topic refuses the notice: the fourth command of an invocation fails.\<close>

definition env_topic_down :: env where
  "env_topic_down =
     env0\<lparr>fault := (\<lambda>n. if n = 3 then Some (Error (S ''AuthorizationError'') (S ''Publish is not authorized''))
                         else None)\<rparr>"

text \<open>The store answers with the last page: no continuation key.\<close>

definition env_last_page :: env where
  "env_last_page =
     env0\<lparr>query_answer :=
            (\<lambda>n. \<lparr>Items = Some [JObj [(S ''id'', JStr (S ''t1''))]], LastEvaluatedKey = JUndefined\<rparr>)\<rparr>"

text \<open>One second later.\<close>

definition env_later :: env where
  "env_later = env0\<lparr>Date_now := 1700000001000\<rparr>"

text \<open>A store that holds the task \<^verbatim>\<open>t1\<close>, done.\<close>

definition done_task :: item where
  "done_task =
     [(S ''id'', JStr (S ''t1'')), (S ''pk'', JStr (S ''TASK'')), (S ''topic'', JStr (S ''Photosynthesis'')),
      (S ''status'', JStr (S ''DONE'')), (S ''createdAt'', JStr (S ''2023-12-31T00:00:00.000Z'')),
      (S ''updatedAt'', JStr (S ''2023-12-31T00:01:00.000Z'')), (S ''researchMd'', JStr (S ''# Photosynthesis''))]"

definition world_done :: world where
  "world_done = \<lparr>table = (\<lambda>i. if i = S ''t1'' then Some done_task else None), calls = []\<rparr>"

text \<open>A store that holds the task \<^verbatim>\<open>t1\<close>, queued.\<close>

definition world_queued :: world where
  "world_queued =
     \<lparr>table = (\<lambda>i. if i = S ''t1''
                       then Some (new_item (S ''t1'') (S ''Photosynthesis'') (S ''2023-12-31T00:00:00.000Z''))
                       else None),
      calls = []\<rparr>"

text \<open>A batch of one record, and a request with a bearer token.\<close>

definition batch_of :: "jstring \<Rightarrow> sqs_event" where
  "batch_of b = \<lparr>Records = Some [\<lparr>messageId = S ''m-1'', sqs_body = b\<rparr>]\<rparr>"

definition with_token :: "api_event \<Rightarrow> api_event" where
  "with_token ev = ev\<lparr>headers := Some [(S ''Authorization'', S ''Bearer '' @ sample_token)]\<rparr>"

definition with_object_sub_token :: "api_event \<Rightarrow> api_event" where
  "with_object_sub_token ev = ev\<lparr>headers := Some [(S ''Authorization'', S ''Bearer '' @ object_sub_token)]\<rparr>"


text \<open>
  A Create request whose body is already parsed, with the topic \<^verbatim>\<open>Photosynthesis\<close> between a
  no-break space and an em space followed by a line feed.
\<close>

definition padded_topic :: jstring where
  "padded_topic = 0x00A0 # S ''Photosynthesis'' @ [0x2003, 0x000A]"

definition post_padded :: api_event where
  "post_padded = (post_tasks [])\<lparr>body := JObj [(S ''topic'', JStr padded_topic)]\<rparr>"

section \<open>Strings of literals\<close>

lemma unat_of_char: "unat (of_char c :: 16 word) = of_char c"
proof -
  have "(of_char c :: 16 word) = of_nat (of_char c)" by (simp add: of_nat_of_char)
  then have "unat (of_char c :: 16 word) = (of_char c :: nat) mod 2 ^ 16"
    by (simp add: unat_of_nat)
  moreover have "(of_char c :: nat) < 2 ^ 16"
    by (rule less_trans [OF nat_of_char_less_256]) simp
  ultimately show ?thesis by simp
qed

lemma of_char_word_inj [simp]: "(of_char c :: 16 word) = of_char d \<longleftrightarrow> c = d"
proof
  assume "(of_char c :: 16 word) = of_char d"
  then have "unat (of_char c :: 16 word) = unat (of_char d :: 16 word)" by simp
  then show "c = d" by (simp add: unat_of_char)
qed simp

lemma S_inj [simp]: "S a = S b \<longleftrightarrow> a = b"
proof -
  have "inj (of_char :: char \<Rightarrow> 16 word)" by (rule injI) simp
  then show ?thesis by (simp add: S_def inj_map_eq_map)
qed

lemma S_Nil [simp]: "S [] = []" "S a = [] \<longleftrightarrow> a = []" "[] = S a \<longleftrightarrow> a = []"
  by (auto simp: S_def)

lemma length_S [simp]: "length (S a) = length a"
  by (simp add: S_def)

lemma S_append [simp]: "S a @ S b = S (a @ b)" "S a @ S b @ x = S (a @ b) @ x"
  by (simp_all add: S_def)

lemma S_drop [simp]: "drop n (S a) = S (drop n a)"
  by (simp add: S_def drop_map)

lemma S_take [simp]: "take n (S a) = S (take n a)"
  by (simp add: S_def take_map)

lemma S_rev [simp]: "rev (S a) = S (rev a)"
  by (simp add: S_def rev_map)

lemma S_dropWhile [simp]: "dropWhile P (S a) = S (dropWhile (\<lambda>c. P (of_char c)) a)"
  by (simp add: S_def dropWhile_map comp_def)

lemma S_Cons: "S (c # cs) = of_char c # S cs"
  by (simp add: S_def)

section \<open>The service calls\<close>

lemma ddb_put_ok:
  assumes "ddb_put e t it w = (Inr u, w1)"
  shows "\<exists>i. map_of it (S ''id'') = Some (JStr i) \<and> table w i = None \<and> fault e (length (calls w)) = None
             \<and> w1 = w\<lparr>calls := calls w @ [PutCommand t it], table := (table w)(i \<mapsto> it)\<rparr>"
  using assms
  by (auto simp: ddb_put_def issue_def split: option.splits jsval.splits if_splits)

lemma sqs_send_eq:
  "sqs_send e u m w =
     ((case fault e (length (calls w)) of Some err \<Rightarrow> Inl err | None \<Rightarrow> Inr ()),
      w\<lparr>calls := calls w @ [SendMessageCommand u m]\<rparr>)"
  by (simp add: sqs_send_def issue_def split: option.splits)

lemma str_of_JStr [simp]: "str_of (JStr s) = s"
  by (simp add: str_of_def)

lemma res_sel [simp]:
  "statusCode (res e c d xh) = c"
  "res_headers (res e c d xh) = spread cors xh"
  "res_body (res e c d xh) = (case d of JStr s \<Rightarrow> s | _ \<Rightarrow> JSON_stringify e d)"
  by (simp_all add: res_def)

lemma ddb_update_eq:
  "ddb_update e t key sets removes w =
     (case fault e (length (calls w)) of
        Some err \<Rightarrow> (Inl err, w\<lparr>calls := calls w @ [UpdateCommand t key sets removes]\<rparr>)
      | None \<Rightarrow>
          (case key of
             JStr i \<Rightarrow>
               (Inr (),
                w\<lparr>calls := calls w @ [UpdateCommand t key sets removes],
                  table := (table w)(i \<mapsto>
                    apply_update (case table w i of None \<Rightarrow> [(S ''id'', JStr i)] | Some it \<Rightarrow> it)
                      sets removes)\<rparr>)
           | _ \<Rightarrow> (Inl ValidationException, w\<lparr>calls := calls w @ [UpdateCommand t key sets removes]\<rparr>)))"
  by (simp add: ddb_update_def issue_def Let_def split: option.splits jsval.splits)

lemma sns_publish_eq:
  "sns_publish e a subject text w =
     ((case fault e (length (calls w)) of Some err \<Rightarrow> Inl err | None \<Rightarrow> Inr ()),
      w\<lparr>calls := calls w @ [PublishCommand a subject text]\<rparr>)"
  by (simp add: sns_publish_def issue_def split: option.splits)

lemma fetch_eq:
  "fetch e k rq w =
     ((case fault e (length (calls w)) of
         Some err \<Rightarrow> Inl err
       | None \<Rightarrow> Inr (fetch_answer e (length (calls w)))),
      w\<lparr>calls := calls w @ [FetchCommand k rq]\<rparr>)"
  by (simp add: fetch_def issue_def split: option.splits)

lemma callOpenAI_world:
  "snd (callOpenAIWithPrompt e topic k p w)
   = w\<lparr>calls := calls w @
        [FetchCommand k
           (JSON_stringify e
              (JObj [(S ''prompt'', JObj [(S ''id'', JStr p), (S ''variables'', JObj [(S ''topic'', topic)])])]))]\<rparr>"
  by (simp add: callOpenAIWithPrompt_def Let_def and_then_def fetch_eq
           split: option.splits sum.splits)

lemma callOpenAI_ok:
  assumes "fault e (length (calls w)) = None" and "ok (fetch_answer e (length (calls w)))"
    and "body_json (fetch_answer e (length (calls w))) = Inr data"
    and "extractMarkdown data = Inr md" and "md \<noteq> []"
  shows "fst (callOpenAIWithPrompt e topic k p w) = Inr md"
  using assms
  by (simp add: callOpenAIWithPrompt_def Let_def and_then_def fetch_eq)

text \<open>The status of an item after each of the three updates of the worker.\<close>

lemma status_after_processing:
  "map_of (apply_update it [(S ''status'', JStr (S ''PROCESSING'')), (S ''updatedAt'', t)] []) (S ''status'')
   = Some (JStr (S ''PROCESSING''))"
  by (simp add: apply_update_def spread_def update_conv')

lemma status_after_done:
  "map_of (apply_update it [(S ''researchMd'', md), (S ''status'', JStr (S ''DONE'')), (S ''updatedAt'', t)] [S ''error''])
     (S ''status'') = Some (JStr (S ''DONE''))"
  by (simp add: apply_update_def spread_def update_conv' delete_conv')

lemma status_after_error:
  "map_of (apply_update it [(S ''error'', m), (S ''status'', JStr (S ''ERROR'')), (S ''updatedAt'', t)] []) (S ''status'')
   = Some (JStr (S ''ERROR''))"
  by (simp add: apply_update_def spread_def update_conv')

lemma get_prop_obj: "opt_prop m k = JStr s \<Longrightarrow> get_prop m j = Inr (opt_prop m j)"
  by (cases m) (simp_all add: get_prop_def opt_prop_def)

lemma spread_nil [simp]: "spread a [] = a"
  by (simp add: spread_def)


section \<open>The sample environment at work\<close>

lemma sample_token_parts:
  "split 0x2E sample_token = [S ''eyJhbGciOiJSUzI1NiJ9'', sample_segment, S ''c2ln'']"
  by (simp add: sample_token_def sample_segment_def S_Cons)

lemma sample_segment_length: "length sample_segment = 174"
  by (simp add: sample_segment_def)

lemma sample_parseJWT_at: "parseJWT (env0\<lparr>Date_now := d\<rparr>) sample_token = Inr sample_payload"
proof -
  have pad: "(4 - length sample_segment mod 4) mod 4 = 2"
    by (simp add: sample_segment_length)
  have rep: "replicate 2 (0x3D :: 16 word) = S ''==''" by (simp add: numeral_2_eq_2 S_Cons)
  have d: "base64url_decode env0 (sample_segment @ S ''=='') = sample_payload_json"
    by (simp add: env0_def)
  have p: "JSON_parse env0 sample_payload_json = Inr sample_payload"
    by (simp add: env0_def sample_parse_def sample_payload_json_def sample_key_json_def)
  show ?thesis
    by (simp add: parseJWT_def sample_token_parts pad rep d p)
qed

lemma sample_parseJWT: "parseJWT env0 sample_token = Inr sample_payload"
  using sample_parseJWT_at [of "Date_now env0"] by simp

lemma sample_strip: "strip_bearer (S ''Bearer '' @ sample_token) = sample_token"
  by (simp add: strip_bearer_def is_space_def sample_token_def sample_segment_def S_Cons)


lemma sample_not_expired: "isTokenExpired env0 sample_payload = Inr False"
  by (simp add: isTokenExpired_def get_prop_def opt_prop_def sample_payload_def Number_def
      ToPrimitive_def number_of_def env0_def)

lemma sample_issuer:
  "expected_issuer (S ''eu-west-1_Ab1'') = S ''https://cognito-idp.eu-west-1.amazonaws.com/eu-west-1_Ab1''"
  by (simp add: expected_issuer_def S_Cons)

lemma sample_verify:
  "verify_token env0 sample_token (S ''eu-west-1_Ab1'') (S ''client-1'')
   = Inr (Some \<lparr>user_id = JStr (S ''u-1''), email = JUndefined, username = JUndefined,
                 userStatus = JUndefined, user_payload = sample_payload\<rparr>)"
proof -
  have "opt_prop sample_payload (S ''iss'') = JStr (expected_issuer (S ''eu-west-1_Ab1''))"
    by (simp add: sample_issuer) (simp add: sample_payload_def opt_prop_def)
  moreover have "opt_prop sample_payload (S ''aud'') = JStr (S ''client-1'')"
    "opt_prop sample_payload (S ''token_use'') = JStr (S ''id'')"
    "opt_prop sample_payload (S ''sub'') = JStr (S ''u-1'')"
    "opt_prop sample_payload (S ''email'') = JUndefined"
    "opt_prop sample_payload (S ''cognito:username'') = JUndefined"
    "opt_prop sample_payload (S ''cognito:user_status'') = JUndefined"
    by (simp_all add: sample_payload_def opt_prop_def)
  ultimately show ?thesis
    by (simp add: verify_token_def sample_parseJWT sample_not_expired)
qed

lemma sample_user:
  "getAuthenticatedUser env0 (with_token ev) sample_config
   = Some \<lparr>user_id = JStr (S ''u-1''), email = JUndefined, username = JUndefined,
           userStatus = JUndefined, user_payload = sample_payload\<rparr>"
proof -
  have c: "param sample_config (S ''cognito-user-pool-id'') = JStr (S ''eu-west-1_Ab1'')"
    "param sample_config (S ''cognito-client-id'') = JStr (S ''client-1'')"
    by (simp_all add: param_def sample_config_def)
  have h: "headers (with_token ev) = Some [(S ''Authorization'', S ''Bearer '' @ sample_token)]"
    by (simp add: with_token_def)
  have a: "js_or (param [(S ''Authorization'', S ''Bearer '' @ sample_token)] (S ''Authorization''))
             (param [(S ''Authorization'', S ''Bearer '' @ sample_token)] (S ''authorization''))
           = JStr (S ''Bearer '' @ sample_token)"
    by (simp add: js_or_def param_def)
  have t: "sample_token \<noteq> []" by (simp add: sample_token_def)
  show ?thesis
    unfolding getAuthenticatedUser_def c h
    by (simp add: a str_of_def sample_strip t sample_verify del: append.simps)
qed

lemma sample_trim:
  "trim (S '' Photosynthesis '') = S ''Photosynthesis''"
  "trim padded_topic = S ''Photosynthesis''"
  by (simp_all add: trim_def is_space_def padded_topic_def S_def)

lemma sample_topic_of:
  "topic_of (JObj [(S ''topic'', JStr (S '' Photosynthesis ''))]) = Inr (S ''Photosynthesis'')"
  "topic_of (JObj [(S ''topic'', JStr padded_topic)]) = Inr (S ''Photosynthesis'')"
proof -
  have "padded_topic \<noteq> []" by (simp add: padded_topic_def)
  then show "topic_of (JObj [(S ''topic'', JStr padded_topic)]) = Inr (S ''Photosynthesis'')"
    by (simp add: topic_of_def opt_prop_def js_or_def sample_trim)
qed (simp add: topic_of_def opt_prop_def js_or_def sample_trim)

lemma sample_create_routes:
  assumes "httpMethod ev = S ''POST''" and "path_is_tasks ev"
    and "parse_body env0 (body ev) = Inr b" and "topic_of b = Inr (S ''Photosynthesis'')"
  shows "routes env0 sample_config ev xh world0
     = (Inr (res env0 201 (created (S ''0b9f7c1e-uuid'') (S ''Photosynthesis'') (S ''2024-01-01T00:00:00.000Z'')) xh),
        \<lparr>table = (table world0)(S ''0b9f7c1e-uuid'' \<mapsto>
                  new_item (S ''0b9f7c1e-uuid'') (S ''Photosynthesis'') (S ''2024-01-01T00:00:00.000Z'')),
         calls = [PutCommand (S ''tasks'')
                  (new_item (S ''0b9f7c1e-uuid'') (S ''Photosynthesis'') (S ''2024-01-01T00:00:00.000Z'')),
                SendMessageCommand (S ''https://sqs.example/tasks'')
                  (S ''{\"id\":\"0b9f7c1e-uuid\",\"topic\":\"Photosynthesis\",\"requestedAt\":\"2024-01-01T00:00:00.000Z\",\"taskType\":\"RESEARCH_SUMMARY_V1\"}'')]\<rparr>)"
  by (simp add: assms routes_def create_task_def and_then_def ddb_put_def
      issue_def new_item_def world0_def param_def sample_config_def sqs_send_def
      sqsPayload_def Let_def)
     (simp add: env0_def)

lemma sample_post_facts:
  "httpMethod (post_tasks b) = S ''POST''" "path_is_tasks (post_tasks b)" "body (post_tasks b) = JStr b"
  "headers (post_tasks b) = None"
  "httpMethod (with_token (post_tasks b)) = S ''POST''" "path_is_tasks (with_token (post_tasks b))"
  "body (with_token (post_tasks b)) = JStr b"
  "httpMethod (with_object_sub_token (post_tasks b)) = S ''POST''"
  "path_is_tasks (with_object_sub_token (post_tasks b))"
  "body (with_object_sub_token (post_tasks b)) = JStr b"
  "httpMethod post_padded = S ''POST''" "path_is_tasks post_padded"
  "body post_padded = JObj [(S ''topic'', JStr padded_topic)]"
  by (simp_all add: with_token_def with_object_sub_token_def post_tasks_def path_is_tasks_def
      endsWith_def post_padded_def)

lemma sample_bodies:
  "parse_body env0 (JStr (S ''{\"topic\":\" Photosynthesis \"}''))
   = Inr (JObj [(S ''topic'', JStr (S '' Photosynthesis ''))])"
  "parse_body env0 (JObj [(S ''topic'', JStr padded_topic)]) = Inr (JObj [(S ''topic'', JStr padded_topic)])"
  by (simp_all add: parse_body_def env0_def sample_parse_def)

lemma sample_created_body:
  "JSON_stringify env0
     (JObj [(S ''id'', JStr (S ''0b9f7c1e-uuid'')), (S ''topic'', JStr (S ''Photosynthesis'')),
            (S ''status'', JStr (S ''QUEUED'')), (S ''createdAt'', JStr (S ''2024-01-01T00:00:00.000Z''))])
   = S ''{\"id\":\"0b9f7c1e-uuid\",\"topic\":\"Photosynthesis\",\"status\":\"QUEUED\",\"createdAt\":\"2024-01-01T00:00:00.000Z\"}''"
  by (simp add: env0_def)

lemma sample_create_auth:
  "handler_api_auth env0 (with_token (post_tasks (S ''{\"topic\":\" Photosynthesis \"}''))) world0
   = (\<lparr>statusCode = 201, res_headers = cors @ [(S ''X-User-ID'', JStr (S ''u-1''))],
       res_body = S ''{\"id\":\"0b9f7c1e-uuid\",\"topic\":\"Photosynthesis\",\"status\":\"QUEUED\",\"createdAt\":\"2024-01-01T00:00:00.000Z\"}''\<rparr>,
      \<lparr>table = (table world0)(S ''0b9f7c1e-uuid'' \<mapsto>
                  new_item (S ''0b9f7c1e-uuid'') (S ''Photosynthesis'') (S ''2024-01-01T00:00:00.000Z'')),
       calls = [PutCommand (S ''tasks'')
                  (new_item (S ''0b9f7c1e-uuid'') (S ''Photosynthesis'') (S ''2024-01-01T00:00:00.000Z'')),
                SendMessageCommand (S ''https://sqs.example/tasks'')
                  (S ''{\"id\":\"0b9f7c1e-uuid\",\"topic\":\"Photosynthesis\",\"requestedAt\":\"2024-01-01T00:00:00.000Z\",\"taskType\":\"RESEARCH_SUMMARY_V1\"}'')]\<rparr>)"
proof -
  let ?ev = "with_token (post_tasks (S ''{\"topic\":\" Photosynthesis \"}''))"
  have c: "loadConfig env0 = Inr sample_config" by (simp add: loadConfig_def env0_def)
  have g: "getAuthenticatedUser env0 ?ev sample_config
           = Some \<lparr>user_id = JStr (S ''u-1''), email = JUndefined, username = JUndefined,
                   userStatus = JUndefined, user_payload = sample_payload\<rparr>"
    by (rule sample_user)
  have pb: "parse_body env0 (body ?ev) = Inr (JObj [(S ''topic'', JStr (S '' Photosynthesis ''))])"
    by (simp add: sample_post_facts sample_bodies)
  have h: "handler_api_auth env0 ?ev world0
           = server_error env0 (routes env0 sample_config ?ev [(S ''X-User-ID'', JStr (S ''u-1''))] world0)"
    unfolding handler_api_auth_def c Let_def
    by (simp add: sample_post_facts g template_def and_then_def user_header_def)
  show ?thesis
    unfolding h sample_create_routes [OF sample_post_facts(5,6) pb sample_topic_of(1)]
    by (simp add: server_error_def res_def created_def sample_created_body spread_def cors_def)
qed

lemma sample_create_plain:
  "handler_api_auth env0 (post_tasks (S ''{\"topic\":\" Photosynthesis \"}'')) world0
   = (\<lparr>statusCode = 201, res_headers = cors,
       res_body = S ''{\"id\":\"0b9f7c1e-uuid\",\"topic\":\"Photosynthesis\",\"status\":\"QUEUED\",\"createdAt\":\"2024-01-01T00:00:00.000Z\"}''\<rparr>,
      \<lparr>table = (table world0)(S ''0b9f7c1e-uuid'' \<mapsto>
                  new_item (S ''0b9f7c1e-uuid'') (S ''Photosynthesis'') (S ''2024-01-01T00:00:00.000Z'')),
       calls = [PutCommand (S ''tasks'')
                  (new_item (S ''0b9f7c1e-uuid'') (S ''Photosynthesis'') (S ''2024-01-01T00:00:00.000Z'')),
                SendMessageCommand (S ''https://sqs.example/tasks'')
                  (S ''{\"id\":\"0b9f7c1e-uuid\",\"topic\":\"Photosynthesis\",\"requestedAt\":\"2024-01-01T00:00:00.000Z\",\"taskType\":\"RESEARCH_SUMMARY_V1\"}'')]\<rparr>)"
proof -
  let ?ev = "post_tasks (S ''{\"topic\":\" Photosynthesis \"}'')"
  have c: "loadConfig env0 = Inr sample_config" by (simp add: loadConfig_def env0_def)
  have g: "getAuthenticatedUser env0 ?ev sample_config = None"
    by (simp add: getAuthenticatedUser_def sample_post_facts js_or_def param_def sample_config_def)
  have pb: "parse_body env0 (body ?ev) = Inr (JObj [(S ''topic'', JStr (S '' Photosynthesis ''))])"
    by (simp add: sample_post_facts sample_bodies)
  have h: "handler_api_auth env0 ?ev world0
           = server_error env0 (routes env0 sample_config ?ev [] world0)"
    unfolding handler_api_auth_def c Let_def
    by (simp add: sample_post_facts g and_then_def user_header_def)
  show ?thesis
    unfolding h sample_create_routes [OF sample_post_facts(1,2) pb sample_topic_of(1)]
    by (simp add: server_error_def res_def created_def sample_created_body)
qed

lemma sample_create_padded:
  "handler_api env0 post_padded world0
   = (\<lparr>statusCode = 201, res_headers = cors,
       res_body = S ''{\"id\":\"0b9f7c1e-uuid\",\"topic\":\"Photosynthesis\",\"status\":\"QUEUED\",\"createdAt\":\"2024-01-01T00:00:00.000Z\"}''\<rparr>,
      \<lparr>table = (table world0)(S ''0b9f7c1e-uuid'' \<mapsto>
                  new_item (S ''0b9f7c1e-uuid'') (S ''Photosynthesis'') (S ''2024-01-01T00:00:00.000Z'')),
       calls = [PutCommand (S ''tasks'')
                  (new_item (S ''0b9f7c1e-uuid'') (S ''Photosynthesis'') (S ''2024-01-01T00:00:00.000Z'')),
                SendMessageCommand (S ''https://sqs.example/tasks'')
                  (S ''{\"id\":\"0b9f7c1e-uuid\",\"topic\":\"Photosynthesis\",\"requestedAt\":\"2024-01-01T00:00:00.000Z\",\"taskType\":\"RESEARCH_SUMMARY_V1\"}'')]\<rparr>)"
proof -
  have c: "loadConfig env0 = Inr sample_config" by (simp add: loadConfig_def env0_def)
  have pb: "parse_body env0 (body post_padded) = Inr (JObj [(S ''topic'', JStr padded_topic)])"
    by (simp add: sample_post_facts sample_bodies)
  have h: "handler_api env0 post_padded world0
           = server_error env0 (routes env0 sample_config post_padded [] world0)"
    unfolding handler_api_def c
    by (simp add: sample_post_facts)
  show ?thesis
    unfolding h sample_create_routes [OF sample_post_facts(11,12) pb sample_topic_of(2)]
    by (simp add: server_error_def res_def created_def sample_created_body)
qed

text \<open>The token whose \<^verbatim>\<open>sub\<close> claim is an object passes every check of the identity hint.\<close>

lemma object_sub_token_parts:
  "split 0x2E object_sub_token = [S ''eyJhbGciOiJSUzI1NiJ9'', object_sub_segment, S ''c2ln'']"
  by (simp add: object_sub_token_def object_sub_segment_def S_Cons)

lemma object_sub_parseJWT: "parseJWT env0 object_sub_token = Inr object_sub_payload"
proof -
  have len: "length object_sub_segment = 186" by (simp add: object_sub_segment_def)
  have pad: "(4 - length object_sub_segment mod 4) mod 4 = 2" by (simp add: len)
  have rep: "replicate 2 (0x3D :: 16 word) = S ''==''" by (simp add: numeral_2_eq_2 S_Cons)
  have ne: "object_sub_segment @ S ''=='' \<noteq> sample_segment @ S ''==''"
    by (simp add: object_sub_segment_def sample_segment_def)
  have d: "base64url_decode env0 (object_sub_segment @ S ''=='') = object_sub_payload_json"
    using ne by (simp add: env0_def)
  have p: "JSON_parse env0 object_sub_payload_json = Inr object_sub_payload"
    by (simp add: env0_def sample_parse_def object_sub_payload_json_def sample_payload_json_def
        sample_key_json_def)
  show ?thesis
    by (simp add: parseJWT_def object_sub_token_parts pad rep d p)
qed

lemma object_sub_strip: "strip_bearer (S ''Bearer '' @ object_sub_token) = object_sub_token"
  by (simp add: strip_bearer_def is_space_def object_sub_token_def object_sub_segment_def S_Cons)

lemma object_sub_user:
  "getAuthenticatedUser env0 (with_object_sub_token ev) sample_config
   = Some \<lparr>user_id = JObj [(S ''toString'', JNum 0)], email = JUndefined, username = JUndefined,
           userStatus = JUndefined, user_payload = object_sub_payload\<rparr>"
proof -
  have c: "param sample_config (S ''cognito-user-pool-id'') = JStr (S ''eu-west-1_Ab1'')"
    "param sample_config (S ''cognito-client-id'') = JStr (S ''client-1'')"
    by (simp_all add: param_def sample_config_def)
  have h: "headers (with_object_sub_token ev) = Some [(S ''Authorization'', S ''Bearer '' @ object_sub_token)]"
    by (simp add: with_object_sub_token_def)
  have a: "js_or (param [(S ''Authorization'', S ''Bearer '' @ object_sub_token)] (S ''Authorization''))
             (param [(S ''Authorization'', S ''Bearer '' @ object_sub_token)] (S ''authorization''))
           = JStr (S ''Bearer '' @ object_sub_token)"
    by (simp add: js_or_def param_def)
  have t: "object_sub_token \<noteq> []" by (simp add: object_sub_token_def)
  have x: "isTokenExpired env0 object_sub_payload = Inr False"
    by (simp add: isTokenExpired_def get_prop_def opt_prop_def object_sub_payload_def Number_def
        ToPrimitive_def number_of_def env0_def)
  have "opt_prop object_sub_payload (S ''iss'') = JStr (expected_issuer (S ''eu-west-1_Ab1''))"
    by (simp add: sample_issuer) (simp add: object_sub_payload_def opt_prop_def)
  moreover have "opt_prop object_sub_payload (S ''aud'') = JStr (S ''client-1'')"
    "opt_prop object_sub_payload (S ''token_use'') = JStr (S ''id'')"
    "opt_prop object_sub_payload (S ''sub'') = JObj [(S ''toString'', JNum 0)]"
    "opt_prop object_sub_payload (S ''email'') = JUndefined"
    "opt_prop object_sub_payload (S ''cognito:username'') = JUndefined"
    "opt_prop object_sub_payload (S ''cognito:user_status'') = JUndefined"
    by (simp_all add: object_sub_payload_def opt_prop_def)
  ultimately have v: "verify_token env0 object_sub_token (S ''eu-west-1_Ab1'') (S ''client-1'')
     = Inr (Some \<lparr>user_id = JObj [(S ''toString'', JNum 0)], email = JUndefined,
                   username = JUndefined, userStatus = JUndefined,
                   user_payload = object_sub_payload\<rparr>)"
    by (simp add: verify_token_def object_sub_parseJWT x)
  show ?thesis
    unfolding getAuthenticatedUser_def c h
    by (simp add: a str_of_def object_sub_strip t v del: append.simps)
qed

lemma sample_key_text: "JSON_stringify env0 sample_key = sample_key_json"
  by (simp add: env0_def sample_key_def sample_key_json_def)

lemma sample_get_facts:
  "httpMethod (get_tasks qs) = S ''GET''" "path_is_tasks (get_tasks qs)"
  "resource (get_tasks qs) \<noteq> Some (S ''/tasks/{id}'')"
  "queryStringParameters (get_tasks qs) = qs"
  "loadConfig env0 = Inr sample_config"
  "truthy (param sample_config (S ''dynamo-db-table-name''))"
  "str_of (param sample_config (S ''dynamo-db-table-name'')) = S ''tasks''"
  by (simp_all add: get_tasks_def path_is_tasks_def endsWith_def loadConfig_def env0_def
      param_def sample_config_def)

lemma sample_page:
  "query_answer env0 n = \<lparr>Items = Some [JObj [(S ''id'', JStr (S ''t1''))]], LastEvaluatedKey = sample_key\<rparr>"
  "fault env0 n = None"
  by (simp_all add: env0_def)

lemma world0_calls [simp]: "calls world0 = []"
  by (simp add: world0_def)


lemma sample_list_body:
  "JSON_stringify env0 (JObj [(S ''items'', JArr [JObj [(S ''id'', JStr (S ''t1''))]]), (S ''cursor'', JStr sample_cursor)])
   = S ''{\"items\":[{\"id\":\"t1\"}],\"cursor\":\"eyJpZCI6InQxIiwicGsiOiJUQVNLIiwiY3JlYXRlZEF0IjoiMjAyNC0wMS0wMVQwMDowMDowMC4wMDBaIn0=\"}''"
  by (simp add: env0_def sample_cursor_def)

lemma sample_extract: "extractMarkdown sample_note = Inr (S ''# Photosynthesis'')"
  by (simp add: extractMarkdown_def sample_note_def opt_prop_def is_string_def trim_def is_space_def)

lemma sample_malformed_batch:
  "snd (handler_worker env0 (batch_of (S ''{\"topic\":\"Photosynthesis\"}'')) w) = w"
  by (simp add: handler_worker_def loadConfig_worker_def required_def batch_of_def
      process_record_def try_record_def get_prop_def opt_prop_def param_def sample_config_def
      mark_error_def Let_def env0_def sample_parse_def)

lemma last_page_facts:
  "loadConfig env_last_page = Inr sample_config"
  "fault env_last_page n = None"
  "LastEvaluatedKey (query_answer env_last_page n) = JUndefined"
  "items_of (query_answer env_last_page n) = [JObj [(S ''id'', JStr (S ''t1''))]]"
  "JSON_stringify env_last_page = sample_stringify"
  by (simp_all add: env_last_page_def env0_def loadConfig_def items_of_def)

section \<open>Create: validation\<close>

lemma topic_of_blank:
  assumes "\<not> truthy (opt_prop b (S ''topic'')) \<or> (\<exists>s. opt_prop b (S ''topic'') = JStr s \<and> trim s = [])"
  shows "topic_of b = Inr []"
  using assms by (auto simp: topic_of_def js_or_def trim_def)

text \<open>
  C5. A request \<^verbatim>\<open>POST /tasks\<close> whose body parses and whose topic is absent (or any other
  falsy value: \<^verbatim>\<open>null\<close>, the empty string), or a string that is empty once trimmed, gets the
  response 422 with the message that the field is required, and the world is the one
  before the call: no command was sent to the store or to the queue, and the table is
  unchanged. (The configuration is loaded and names the table, as for every request that
  reaches a route.)
\<close>

theorem create_blank_topic_is_rejected:
  assumes "httpMethod ev = S ''POST''" and "path_is_tasks ev"
    and "loadConfig e = Inr config" and "truthy (param config (S ''dynamo-db-table-name''))"
    and "parse_body e (body ev) = Inr b"
    and "\<not> truthy (opt_prop b (S ''topic'')) \<or> (\<exists>s. opt_prop b (S ''topic'') = JStr s \<and> trim s = [])"
  shows "handler_api e ev w
         = (res e 422 (msg (S ''Field '' @ quoted (S ''topic'') @ S '' is required'')) [], w)"
proof -
  have t: "topic_of b = Inr []" using assms(6) by (rule topic_of_blank)
  have "create_task e (str_of (param config (S ''dynamo-db-table-name'')))
          (param config (S ''sqs-queue-url'')) ev [] w
        = (Inr (res e 422 (msg (S ''Field '' @ quoted (S ''topic'') @ S '' is required'')) []), w)"
    by (simp add: create_task_def assms(5) t)
  then have "routes e config ev [] w
        = (Inr (res e 422 (msg (S ''Field '' @ quoted (S ''topic'') @ S '' is required'')) []), w)"
    using assms(1,2,4) by (simp add: routes_def)
  then show ?thesis
    using assms(1,3) by (simp add: handler_api_def server_error_def)
qed

text \<open>
  The examples: a topic of three spaces; a body without topic; and a topic made of a
  no-break space, an em space, a tab and a byte order mark.
\<close>

theorem create_blank_topic_witness:
  "handler_api env0 (post_tasks (S ''{\"topic\":\"   \"}'')) world0
   = (\<lparr>statusCode = 422, res_headers = cors,
       res_body = (S ''{\"message\":\"Field 'topic' is required\"}'')\<rparr>, world0)
   \<and> handler_api env0 (post_tasks (S ''{\"id\":\"t1\"}'')) world0
   = (\<lparr>statusCode = 422, res_headers = cors,
       res_body = (S ''{\"message\":\"Field 'topic' is required\"}'')\<rparr>, world0)
   \<and> trim [0x00A0, 0x2003, 0x0009, 0xFEFF] = []
   \<and> handler_api env0
        ((post_tasks [])\<lparr>body := JObj [(S ''topic'', JStr [0x00A0, 0x2003, 0x0009, 0xFEFF])]\<rparr>) world0
   = (\<lparr>statusCode = 422, res_headers = cors,
       res_body = (S ''{\"message\":\"Field 'topic' is required\"}'')\<rparr>, world0)"
proof -
  let ?a = "post_tasks (S ''{\"topic\":\"   \"}'')" and ?b = "post_tasks (S ''{\"id\":\"t1\"}'')"
  let ?c = "(post_tasks [])\<lparr>body := JObj [(S ''topic'', JStr [0x00A0, 0x2003, 0x0009, 0xFEFF])]\<rparr>"
  have 1: "httpMethod ?a = S ''POST''" "httpMethod ?b = S ''POST''" "httpMethod ?c = S ''POST''"
    by (simp_all add: post_tasks_def)
  have 2: "path_is_tasks ?a" "path_is_tasks ?b" "path_is_tasks ?c"
    by (simp_all add: post_tasks_def path_is_tasks_def endsWith_def)
  have 3: "loadConfig env0 = Inr sample_config" by (simp add: loadConfig_def env0_def)
  have 4: "truthy (param sample_config (S ''dynamo-db-table-name''))"
    by (simp add: param_def sample_config_def)
  have 5: "parse_body env0 (body ?a) = Inr (JObj [(S ''topic'', JStr (S ''   ''))])"
    "parse_body env0 (body ?b) = Inr (JObj [(S ''id'', JStr (S ''t1''))])"
    "parse_body env0 (body ?c) = Inr (JObj [(S ''topic'', JStr [0x00A0, 0x2003, 0x0009, 0xFEFF])])"
    by (simp_all add: parse_body_def post_tasks_def env0_def sample_parse_def)
  have tr: "trim [0x00A0, 0x2003, 0x0009, 0xFEFF] = []"
    by (simp add: trim_def is_space_def)
  have 6: "\<not> truthy (opt_prop (JObj [(S ''topic'', JStr (S ''   ''))]) (S ''topic''))
           \<or> (\<exists>s. opt_prop (JObj [(S ''topic'', JStr (S ''   ''))]) (S ''topic'') = JStr s \<and> trim s = [])"
    by (simp add: opt_prop_def trim_def is_space_def)
  have 7: "\<not> truthy (opt_prop (JObj [(S ''id'', JStr (S ''t1''))]) (S ''topic''))
           \<or> (\<exists>s. opt_prop (JObj [(S ''id'', JStr (S ''t1''))]) (S ''topic'') = JStr s \<and> trim s = [])"
    by (simp add: opt_prop_def)
  have 8: "\<not> truthy (opt_prop (JObj [(S ''topic'', JStr [0x00A0, 0x2003, 0x0009, 0xFEFF])]) (S ''topic''))
           \<or> (\<exists>s. opt_prop (JObj [(S ''topic'', JStr [0x00A0, 0x2003, 0x0009, 0xFEFF])]) (S ''topic'') = JStr s
                  \<and> trim s = [])"
    by (simp add: opt_prop_def tr)
  have b: "res env0 422 (msg (S ''Field '' @ quoted (S ''topic'') @ S '' is required'')) []
           = \<lparr>statusCode = 422, res_headers = cors,
               res_body = (S ''{\"message\":\"Field 'topic' is required\"}'')\<rparr>"
    by (simp add: res_def msg_def quoted_def env0_def)
  show ?thesis
    using create_blank_topic_is_rejected [OF 1(1) 2(1) 3 4 5(1) 6, of world0]
      create_blank_topic_is_rejected [OF 1(2) 2(2) 3 4 5(2) 7, of world0]
      create_blank_topic_is_rejected [OF 1(3) 2(3) 3 4 5(3) 8, of world0]
    by (simp add: b tr)
qed

section \<open>Create: the store write and the queue\<close>

lemma topic_of_string:
  "opt_prop b (S ''topic'') = JStr s \<Longrightarrow> trim s \<noteq> [] \<Longrightarrow> topic_of b = Inr (trim s)"
  by (auto simp: topic_of_def js_or_def trim_def)

text \<open>
  C1, as the code has it. A request \<^verbatim>\<open>POST /tasks\<close> with a topic that is not blank, whose
  conditional store write succeeds, leaves the Task in the store. Without a queue URL the
  publish is skipped and the response is 201 with \<^verbatim>\<open>{id, topic, status, createdAt}\<close>. With a
  queue URL the work item is sent: when the queue accepts it the response is the same 201,
  and when the send fails the exception reaches the handler's \<^verbatim>\<open>catch\<close> and the response is
  500, with the Task stored all the same.
\<close>

theorem create_publish_outcomes:
  fixes e :: env and ev :: api_event and w w1 :: world
  defines "n \<equiv> length (calls w)"
  assumes "httpMethod ev = S ''POST''" and "path_is_tasks ev"
    and "loadConfig e = Inr config" and "truthy (param config (S ''dynamo-db-table-name''))"
    and "parse_body e (body ev) = Inr b"
    and "opt_prop b (S ''topic'') = JStr s" and "trim s \<noteq> []"
    and "ddb_put e (str_of (param config (S ''dynamo-db-table-name'')))
           (new_item (randomUUID e n) (trim s) (toISOString e n)) w = (Inr (), w1)"
  shows "table w1 (randomUUID e n) = Some (new_item (randomUUID e n) (trim s) (toISOString e n))
       \<and> (\<not> truthy (param config (S ''sqs-queue-url'')) \<longrightarrow>
            handler_api e ev w = (res e 201 (created (randomUUID e n) (trim s) (toISOString e n)) [], w1))
       \<and> (truthy (param config (S ''sqs-queue-url'')) \<longrightarrow>
            handler_api e ev w =
              ((case fault e (length (calls w1)) of
                  None \<Rightarrow> res e 201 (created (randomUUID e n) (trim s) (toISOString e n)) []
                | Some err \<Rightarrow>
                    res e 500 (JObj [(S ''message'', JStr (S ''Server error'')),
                                     (S ''error'', JStr (message err))]) []),
               w1\<lparr>calls := calls w1 @
                  [SendMessageCommand (str_of (param config (S ''sqs-queue-url'')))
                     (JSON_stringify e (sqsPayload (randomUUID e n) (trim s) (toISOString e n)))]\<rparr>))"
proof -
  let ?i = "randomUUID e n" and ?now = "toISOString e n"
  let ?t = "str_of (param config (S ''dynamo-db-table-name''))"
  let ?q = "param config (S ''sqs-queue-url'')"
  have top: "topic_of b = Inr (trim s)" using assms(7,8) by (rule topic_of_string)
  have stored: "table w1 ?i = Some (new_item ?i (trim s) ?now)"
    using ddb_put_ok [OF assms(9)] by (auto simp: new_item_def)
  have h: "handler_api e ev w = server_error e (create_task e ?t ?q ev [] w)"
    using assms(2-5) by (simp add: handler_api_def routes_def)
  have c: "create_task e ?t ?q ev [] w =
      and_then (if truthy ?q
                then sqs_send e (str_of ?q) (JSON_stringify e (sqsPayload ?i (trim s) ?now)) w1
                else (Inr (), w1))
        (\<lambda>_ w2. (Inr (res e 201 (created ?i (trim s) ?now) []), w2))"
    using assms(6,8,9) top by (simp add: create_task_def n_def and_then_def Let_def)
  show ?thesis
    using stored
    by (simp add: h c and_then_def server_error_def sqs_send_eq split: option.splits)
qed

text \<open>
  The examples: the queue accepts the work item, and the response is 201; no queue is
  configured, the store write is the only command, and the response is 201; and the topic
  given between a no-break space and an em space followed by a line feed is stored and
  published trimmed.
\<close>

theorem create_publish_witness:
  "handler_api env0 (post_tasks (S ''{\"topic\":\" Photosynthesis \"}'')) world0
   = (\<lparr>statusCode = 201, res_headers = cors,
       res_body = S ''{\"id\":\"0b9f7c1e-uuid\",\"topic\":\"Photosynthesis\",\"status\":\"QUEUED\",\"createdAt\":\"2024-01-01T00:00:00.000Z\"}''\<rparr>,
      \<lparr>table = (table world0)(S ''0b9f7c1e-uuid'' \<mapsto>
                  new_item (S ''0b9f7c1e-uuid'') (S ''Photosynthesis'') (S ''2024-01-01T00:00:00.000Z'')),
       calls = [PutCommand (S ''tasks'')
                  (new_item (S ''0b9f7c1e-uuid'') (S ''Photosynthesis'') (S ''2024-01-01T00:00:00.000Z'')),
                SendMessageCommand (S ''https://sqs.example/tasks'')
                  (S ''{\"id\":\"0b9f7c1e-uuid\",\"topic\":\"Photosynthesis\",\"requestedAt\":\"2024-01-01T00:00:00.000Z\",\"taskType\":\"RESEARCH_SUMMARY_V1\"}'')]\<rparr>)
   \<and> handler_api env_no_queue (post_tasks (S ''{\"topic\":\" Photosynthesis \"}'')) world0
   = (\<lparr>statusCode = 201, res_headers = cors,
       res_body = S ''{\"id\":\"0b9f7c1e-uuid\",\"topic\":\"Photosynthesis\",\"status\":\"QUEUED\",\"createdAt\":\"2024-01-01T00:00:00.000Z\"}''\<rparr>,
      \<lparr>table = (table world0)(S ''0b9f7c1e-uuid'' \<mapsto>
                  new_item (S ''0b9f7c1e-uuid'') (S ''Photosynthesis'') (S ''2024-01-01T00:00:00.000Z'')),
       calls = [PutCommand (S ''tasks'')
                  (new_item (S ''0b9f7c1e-uuid'') (S ''Photosynthesis'') (S ''2024-01-01T00:00:00.000Z''))]\<rparr>)
   \<and> handler_api env0 post_padded world0
   = (\<lparr>statusCode = 201, res_headers = cors,
       res_body = S ''{\"id\":\"0b9f7c1e-uuid\",\"topic\":\"Photosynthesis\",\"status\":\"QUEUED\",\"createdAt\":\"2024-01-01T00:00:00.000Z\"}''\<rparr>,
      \<lparr>table = (table world0)(S ''0b9f7c1e-uuid'' \<mapsto>
                  new_item (S ''0b9f7c1e-uuid'') (S ''Photosynthesis'') (S ''2024-01-01T00:00:00.000Z'')),
       calls = [PutCommand (S ''tasks'')
                  (new_item (S ''0b9f7c1e-uuid'') (S ''Photosynthesis'') (S ''2024-01-01T00:00:00.000Z'')),
                SendMessageCommand (S ''https://sqs.example/tasks'')
                  (S ''{\"id\":\"0b9f7c1e-uuid\",\"topic\":\"Photosynthesis\",\"requestedAt\":\"2024-01-01T00:00:00.000Z\",\"taskType\":\"RESEARCH_SUMMARY_V1\"}'')]\<rparr>)"
proof -
  let ?ev = "post_tasks (S ''{\"topic\":\" Photosynthesis \"}'')"
  let ?p = "JObj [(S ''topic'', JStr padded_topic)]"
  let ?b = "JObj [(S ''topic'', JStr (S '' Photosynthesis ''))]"
  let ?it = "new_item (S ''0b9f7c1e-uuid'') (S ''Photosynthesis'') (S ''2024-01-01T00:00:00.000Z'')"
  let ?w1 = "\<lparr>table = (table world0)(S ''0b9f7c1e-uuid'' \<mapsto> ?it), calls = [PutCommand (S ''tasks'') ?it]\<rparr>"
  let ?only = "[(S ''dynamo-db-table-name'', S ''tasks'')]"
  have 1: "httpMethod ?ev = S ''POST''" by (simp add: post_tasks_def)
  have 2: "path_is_tasks ?ev" by (simp add: post_tasks_def path_is_tasks_def endsWith_def)
  have 3: "loadConfig env0 = Inr sample_config" "loadConfig env_no_queue = Inr ?only"
    by (simp_all add: loadConfig_def env0_def env_no_queue_def)
  have 4: "truthy (param sample_config (S ''dynamo-db-table-name''))"
    "truthy (param ?only (S ''dynamo-db-table-name''))"
    by (simp_all add: param_def sample_config_def)
  have 5: "parse_body env0 (body ?ev) = Inr ?b" "parse_body env_no_queue (body ?ev) = Inr ?b"
    by (simp_all add: parse_body_def post_tasks_def env0_def env_no_queue_def sample_parse_def)
  have 6: "opt_prop ?b (S ''topic'') = JStr (S '' Photosynthesis '')" by (simp add: opt_prop_def)
  have t: "trim (S '' Photosynthesis '') = S ''Photosynthesis''" by (rule sample_trim)
  have 7: "trim (S '' Photosynthesis '') \<noteq> []" by (simp add: t)
  have p5: "parse_body env0 (body post_padded) = Inr ?p"
    by (simp add: sample_post_facts sample_bodies)
  have p6: "opt_prop ?p (S ''topic'') = JStr padded_topic" by (simp add: opt_prop_def)
  have p7: "trim padded_topic \<noteq> []" by (simp add: sample_trim)
  have p8: "ddb_put env0 (str_of (param sample_config (S ''dynamo-db-table-name'')))
             (new_item (randomUUID env0 (length (calls world0))) (trim padded_topic)
                (toISOString env0 (length (calls world0)))) world0 = (Inr (), ?w1)"
    by (simp add: sample_trim ddb_put_def issue_def new_item_def env0_def world0_def
        param_def sample_config_def)
  have 8: "ddb_put env0 (str_of (param sample_config (S ''dynamo-db-table-name'')))
             (new_item (randomUUID env0 (length (calls world0))) (trim (S '' Photosynthesis ''))
                (toISOString env0 (length (calls world0)))) world0 = (Inr (), ?w1)"
    "ddb_put env_no_queue (str_of (param ?only (S ''dynamo-db-table-name'')))
             (new_item (randomUUID env_no_queue (length (calls world0))) (trim (S '' Photosynthesis ''))
                (toISOString env_no_queue (length (calls world0)))) world0 = (Inr (), ?w1)"
    by (simp_all add: t ddb_put_def issue_def new_item_def env0_def env_no_queue_def world0_def
        param_def sample_config_def)
  have q: "truthy (param sample_config (S ''sqs-queue-url''))"
    "\<not> truthy (param ?only (S ''sqs-queue-url''))"
    by (simp_all add: param_def sample_config_def)
  show ?thesis
    using create_publish_outcomes [OF 1 2 3(1) 4(1) 5(1) 6 7 8(1)]
      create_publish_outcomes [OF 1 2 3(2) 4(2) 5(2) 6 7 8(2)]
      create_publish_outcomes [OF sample_post_facts(11,12) 3(1) 4(1) p5 p6 p7 p8] q
    by (simp add: t sample_trim env0_def env_no_queue_def res_def created_def sqsPayload_def
        param_def sample_config_def)
qed

text \<open>
  C1 as stated fails: the store write succeeds, the queue refuses the message, and the
  response is 500, not 201. The Task is in the store.
\<close>

theorem create_publish_failure_counterexample:
  "ddb_put env_queue_down (S ''tasks'')
       (new_item (S ''0b9f7c1e-uuid'') (S ''Photosynthesis'') (S ''2024-01-01T00:00:00.000Z'')) world0
     = (Inr (),
        \<lparr>table = (table world0)(S ''0b9f7c1e-uuid'' \<mapsto>
                    new_item (S ''0b9f7c1e-uuid'') (S ''Photosynthesis'') (S ''2024-01-01T00:00:00.000Z'')),
         calls = [PutCommand (S ''tasks'')
                    (new_item (S ''0b9f7c1e-uuid'') (S ''Photosynthesis'') (S ''2024-01-01T00:00:00.000Z''))]\<rparr>)
   \<and> fault env_queue_down 1 = Some (Error (S ''QueueDoesNotExist'') (S ''The queue does not exist''))
   \<and> statusCode (fst (handler_api env_queue_down (post_tasks (S ''{\"topic\":\" Photosynthesis \"}'')) world0)) = 500
   \<and> res_body (fst (handler_api env_queue_down (post_tasks (S ''{\"topic\":\" Photosynthesis \"}'')) world0))
       = S ''{\"message\":\"Server error\",\"error\":\"The queue does not exist\"}''
   \<and> table (snd (handler_api env_queue_down (post_tasks (S ''{\"topic\":\" Photosynthesis \"}'')) world0))
         (S ''0b9f7c1e-uuid'')
       = Some (new_item (S ''0b9f7c1e-uuid'') (S ''Photosynthesis'') (S ''2024-01-01T00:00:00.000Z''))
   \<and> calls (snd (handler_api env_queue_down (post_tasks (S ''{\"topic\":\" Photosynthesis \"}'')) world0))
       = [PutCommand (S ''tasks'')
            (new_item (S ''0b9f7c1e-uuid'') (S ''Photosynthesis'') (S ''2024-01-01T00:00:00.000Z'')),
          SendMessageCommand (S ''https://sqs.example/tasks'')
            (S ''{\"id\":\"0b9f7c1e-uuid\",\"topic\":\"Photosynthesis\",\"requestedAt\":\"2024-01-01T00:00:00.000Z\",\"taskType\":\"RESEARCH_SUMMARY_V1\"}'')]"
  by (simp add: handler_api_def loadConfig_def env_queue_down_def env0_def routes_def
      path_is_tasks_def endsWith_def create_task_def parse_body_def post_tasks_def sample_parse_def
      topic_of_def opt_prop_def js_or_def trim_def is_space_def and_then_def ddb_put_def
      issue_def new_item_def world0_def param_def sample_config_def str_of_def sqs_send_def
      sqsPayload_def server_error_def res_def spread_def Let_def)

section \<open>Create: the stored Task and the work item\<close>

lemma topic_of_nonblank:
  assumes "topic_of b = Inr topic" and "topic \<noteq> []"
  shows "\<exists>s. opt_prop b (S ''topic'') = JStr s \<and> topic = trim s"
  using assms
  by (auto simp: topic_of_def js_or_def trim_def split: jsval.splits if_splits)

lemma create_task_201:
  assumes "create_task e t q ev xh w = (Inr r, w')" and "statusCode r = 201"
  shows "\<exists>b topic w1.
           parse_body e (body ev) = Inr b \<and> topic_of b = Inr topic \<and> topic \<noteq> []
         \<and> ddb_put e t (new_item (randomUUID e (length (calls w))) topic (toISOString e (length (calls w)))) w
             = (Inr (), w1)
         \<and> r = res e 201 (created (randomUUID e (length (calls w))) topic (toISOString e (length (calls w)))) xh
         \<and> (if truthy q
             then w' = w1\<lparr>calls := calls w1 @
                    [SendMessageCommand (str_of q)
                       (JSON_stringify e (sqsPayload (randomUUID e (length (calls w))) topic
                          (toISOString e (length (calls w)))))]\<rparr>
             else w' = w1)"
  using assms
  by (auto simp: create_task_def and_then_def Let_def sqs_send_eq
           split: sum.splits if_splits prod.splits option.splits)

lemma routes_201:
  assumes "routes e config ev xh w = (Inr r, w')" and "statusCode r = 201"
  shows "truthy (param config (S ''dynamo-db-table-name''))
       \<and> create_task e (str_of (param config (S ''dynamo-db-table-name''))) (param config (S ''sqs-queue-url'')) ev xh w
           = (Inr r, w')"
  using assms
  by (auto simp: routes_def Let_def list_tasks_def get_task_def delete_task_def and_then_def
           missing_id_def
           split: if_splits sum.splits prod.splits option.splits)

lemma handler_201:
  assumes "h = handler_api \<or> h = handler_api_auth"
    and "h e ev w = (r, w')" and "statusCode r = 201"
  shows "\<exists>config xh. loadConfig e = Inr config \<and> routes e config ev xh w = (Inr r, w')"
  using assms
  by (auto simp: handler_api_def handler_api_auth_def server_error_def template_def and_then_def
             Let_def
           split: if_splits sum.splits prod.splits option.splits)

text \<open>
  C10. Whenever one of the two API handlers answers 201, the request had a topic that is
  not blank once trimmed, and under a fresh id the store holds a Task whose \<^verbatim>\<open>id\<close> is that
  id, whose \<^verbatim>\<open>topic\<close> is the trimmed topic, whose \<^verbatim>\<open>status\<close> is \<^verbatim>\<open>QUEUED\<close>, whose \<^verbatim>\<open>updatedAt\<close> equals
  its \<^verbatim>\<open>createdAt\<close>, whose \<^verbatim>\<open>researchMd\<close> is the empty string and whose \<^verbatim>\<open>error\<close> is null. The
  response body carries the same id, topic and \<^verbatim>\<open>createdAt\<close>. When a queue URL is configured
  the work item sent after the store write has the Task's id and topic, and its
  \<^verbatim>\<open>requestedAt\<close> is the Task's \<^verbatim>\<open>createdAt\<close>; otherwise the store write is the only command.
\<close>

theorem create_stores_and_publishes_coherently:
  assumes "h = handler_api \<or> h = handler_api_auth"
    and "h e ev w = (r, w')" and "statusCode r = 201"
  shows "\<exists>config b s i now it.
           loadConfig e = Inr config \<and> parse_body e (body ev) = Inr b
         \<and> opt_prop b (S ''topic'') = JStr s \<and> trim s \<noteq> []
         \<and> res_body r = JSON_stringify e
               (JObj [(S ''id'', JStr i), (S ''topic'', JStr (trim s)), (S ''status'', JStr (S ''QUEUED'')),
                      (S ''createdAt'', JStr now)])
         \<and> table w i = None \<and> table w' i = Some it
         \<and> map_of it (S ''id'') = Some (JStr i)
         \<and> map_of it (S ''topic'') = Some (JStr (trim s))
         \<and> map_of it (S ''status'') = Some (JStr (S ''QUEUED''))
         \<and> map_of it (S ''createdAt'') = Some (JStr now)
         \<and> map_of it (S ''updatedAt'') = Some (JStr now)
         \<and> map_of it (S ''researchMd'') = Some (JStr [])
         \<and> map_of it (S ''error'') = Some JNull
         \<and> (if truthy (param config (S ''sqs-queue-url''))
             then calls w' = calls w @
                    [PutCommand (str_of (param config (S ''dynamo-db-table-name''))) it,
                     SendMessageCommand (str_of (param config (S ''sqs-queue-url'')))
                       (JSON_stringify e
                          (JObj [(S ''id'', JStr i), (S ''topic'', JStr (trim s)),
                                 (S ''requestedAt'', JStr now),
                                 (S ''taskType'', JStr (S ''RESEARCH_SUMMARY_V1''))]))]
             else calls w' = calls w @ [PutCommand (str_of (param config (S ''dynamo-db-table-name''))) it])"
proof -
  from handler_201 [OF assms] obtain config xh
    where cfg: "loadConfig e = Inr config" and ro: "routes e config ev xh w = (Inr r, w')"
    by blast
  let ?t = "str_of (param config (S ''dynamo-db-table-name''))"
  let ?q = "param config (S ''sqs-queue-url'')"
  let ?i = "randomUUID e (length (calls w))"
  let ?now = "toISOString e (length (calls w))"
  from routes_201 [OF ro assms(3)]
  have ct: "create_task e ?t ?q ev xh w = (Inr r, w')" by simp
  from create_task_201 [OF ct assms(3)] obtain b topic w1
    where pb: "parse_body e (body ev) = Inr b" and tp: "topic_of b = Inr topic" and ne: "topic \<noteq> []"
      and put: "ddb_put e ?t (new_item ?i topic ?now) w = (Inr (), w1)"
      and r: "r = res e 201 (created ?i topic ?now) xh"
      and w': "if truthy ?q
               then w' = w1\<lparr>calls := calls w1 @
                      [SendMessageCommand (str_of ?q) (JSON_stringify e (sqsPayload ?i topic ?now))]\<rparr>
               else w' = w1"
    by blast
  from topic_of_nonblank [OF tp ne] obtain s where s: "opt_prop b (S ''topic'') = JStr s" "topic = trim s"
    by blast
  from ddb_put_ok [OF put]
  have fresh: "table w ?i = None"
    and w1: "w1 = w\<lparr>calls := calls w @ [PutCommand ?t (new_item ?i topic ?now)],
                     table := (table w)(?i \<mapsto> new_item ?i topic ?now)\<rparr>"
    by (auto simp: new_item_def)
  have body: "res_body r = JSON_stringify e
               (JObj [(S ''id'', JStr ?i), (S ''topic'', JStr (trim s)), (S ''status'', JStr (S ''QUEUED'')),
                      (S ''createdAt'', JStr ?now)])"
    by (simp add: r created_def s)
  have stored: "table w' ?i = Some (new_item ?i topic ?now)"
    using w' w1 by (simp split: if_splits)
  have log: "if truthy ?q
             then calls w' = calls w @
                    [PutCommand ?t (new_item ?i topic ?now),
                     SendMessageCommand (str_of ?q)
                       (JSON_stringify e
                          (JObj [(S ''id'', JStr ?i), (S ''topic'', JStr (trim s)),
                                 (S ''requestedAt'', JStr ?now),
                                 (S ''taskType'', JStr (S ''RESEARCH_SUMMARY_V1''))]))]
             else calls w' = calls w @ [PutCommand ?t (new_item ?i topic ?now)]"
    using w' w1 by (simp add: sqsPayload_def s)
  have attrs: "map_of (new_item ?i topic ?now) (S ''id'') = Some (JStr ?i)"
    "map_of (new_item ?i topic ?now) (S ''topic'') = Some (JStr (trim s))"
    "map_of (new_item ?i topic ?now) (S ''status'') = Some (JStr (S ''QUEUED''))"
    "map_of (new_item ?i topic ?now) (S ''createdAt'') = Some (JStr ?now)"
    "map_of (new_item ?i topic ?now) (S ''updatedAt'') = Some (JStr ?now)"
    "map_of (new_item ?i topic ?now) (S ''researchMd'') = Some (JStr [])"
    "map_of (new_item ?i topic ?now) (S ''error'') = Some JNull"
    by (simp_all add: new_item_def s)
  show ?thesis
    using cfg pb s(1) ne[unfolded s(2)] body fresh stored attrs log
    by blast
qed

text \<open>
  The examples: a request with the sample token creates the Task of the topic
  \<^verbatim>\<open>Photosynthesis\<close>, given between two spaces; and so does the request whose topic is given
  between a no-break space and an em space followed by a line feed.
\<close>

theorem create_coherent_witness:
  "statusCode (fst (handler_api_auth env0 (with_token (post_tasks (S ''{\"topic\":\" Photosynthesis \"}''))) world0)) = 201
   \<and> (\<exists>i now it.
          table (snd (handler_api_auth env0 (with_token (post_tasks (S ''{\"topic\":\" Photosynthesis \"}''))) world0)) i
            = Some it
        \<and> map_of it (S ''id'') = Some (JStr i)
        \<and> map_of it (S ''topic'') = Some (JStr (S ''Photosynthesis''))
        \<and> map_of it (S ''createdAt'') = Some (JStr now)
        \<and> map_of it (S ''updatedAt'') = Some (JStr now)
        \<and> map_of it (S ''researchMd'') = Some (JStr [])
        \<and> map_of it (S ''error'') = Some JNull
        \<and> last (calls (snd (handler_api_auth env0 (with_token (post_tasks (S ''{\"topic\":\" Photosynthesis \"}''))) world0)))
            = SendMessageCommand (S ''https://sqs.example/tasks'')
                (JSON_stringify env0
                   (JObj [(S ''id'', JStr i), (S ''topic'', JStr (S ''Photosynthesis'')),
                          (S ''requestedAt'', JStr now),
                          (S ''taskType'', JStr (S ''RESEARCH_SUMMARY_V1''))])))
   \<and> statusCode (fst (handler_api env0 post_padded world0)) = 201
   \<and> (\<exists>i now it.
          table (snd (handler_api env0 post_padded world0)) i = Some it
        \<and> map_of it (S ''id'') = Some (JStr i)
        \<and> map_of it (S ''topic'') = Some (JStr (S ''Photosynthesis''))
        \<and> map_of it (S ''createdAt'') = Some (JStr now)
        \<and> map_of it (S ''updatedAt'') = Some (JStr now)
        \<and> map_of it (S ''researchMd'') = Some (JStr [])
        \<and> map_of it (S ''error'') = Some JNull
        \<and> last (calls (snd (handler_api env0 post_padded world0)))
            = SendMessageCommand (S ''https://sqs.example/tasks'')
                (JSON_stringify env0
                   (JObj [(S ''id'', JStr i), (S ''topic'', JStr (S ''Photosynthesis'')),
                          (S ''requestedAt'', JStr now),
                          (S ''taskType'', JStr (S ''RESEARCH_SUMMARY_V1''))])))"
proof -
  have gen: "\<exists>i now it.
          table (snd (h env0 ev world0)) i = Some it
        \<and> map_of it (S ''id'') = Some (JStr i)
        \<and> map_of it (S ''topic'') = Some (JStr (S ''Photosynthesis''))
        \<and> map_of it (S ''createdAt'') = Some (JStr now)
        \<and> map_of it (S ''updatedAt'') = Some (JStr now)
        \<and> map_of it (S ''researchMd'') = Some (JStr [])
        \<and> map_of it (S ''error'') = Some JNull
        \<and> last (calls (snd (h env0 ev world0)))
            = SendMessageCommand (S ''https://sqs.example/tasks'')
                (JSON_stringify env0
                   (JObj [(S ''id'', JStr i), (S ''topic'', JStr (S ''Photosynthesis'')),
                          (S ''requestedAt'', JStr now),
                          (S ''taskType'', JStr (S ''RESEARCH_SUMMARY_V1''))]))"
    if 1: "h = handler_api \<or> h = handler_api_auth"
      and 3: "statusCode (fst (h env0 ev world0)) = 201"
      and pb: "parse_body env0 (body ev) = Inr (JObj [(S ''topic'', JStr t)])"
      and tr: "trim t = S ''Photosynthesis''"
    for h ev t
  proof -
    let ?X = "h env0 ev world0"
    have 2: "h env0 ev world0 = (fst ?X, snd ?X)" by simp
    from create_stores_and_publishes_coherently [OF 1 2 3]
    obtain config b s i now it where
      *: "loadConfig env0 = Inr config" "parse_body env0 (body ev) = Inr b"
         "opt_prop b (S ''topic'') = JStr s" "table (snd ?X) i = Some it"
         "map_of it (S ''id'') = Some (JStr i)" "map_of it (S ''topic'') = Some (JStr (trim s))"
         "map_of it (S ''createdAt'') = Some (JStr now)" "map_of it (S ''updatedAt'') = Some (JStr now)"
         "map_of it (S ''researchMd'') = Some (JStr [])" "map_of it (S ''error'') = Some JNull"
         "if truthy (param config (S ''sqs-queue-url''))
          then calls (snd ?X) = calls world0 @
                   [PutCommand (str_of (param config (S ''dynamo-db-table-name''))) it,
                    SendMessageCommand (str_of (param config (S ''sqs-queue-url'')))
                      (JSON_stringify env0
                         (JObj [(S ''id'', JStr i), (S ''topic'', JStr (trim s)),
                                (S ''requestedAt'', JStr now),
                                (S ''taskType'', JStr (S ''RESEARCH_SUMMARY_V1''))]))]
          else calls (snd ?X) = calls world0 @ [PutCommand (str_of (param config (S ''dynamo-db-table-name''))) it]"
      by blast
    have cfg: "config = sample_config" using *(1) by (simp add: loadConfig_def env0_def)
    have s: "trim s = S ''Photosynthesis''"
      using *(2,3) tr by (auto simp: pb opt_prop_def)
    have "table (snd ?X) i = Some it
          \<and> map_of it (S ''id'') = Some (JStr i)
          \<and> map_of it (S ''topic'') = Some (JStr (S ''Photosynthesis''))
          \<and> map_of it (S ''createdAt'') = Some (JStr now)
          \<and> map_of it (S ''updatedAt'') = Some (JStr now)
          \<and> map_of it (S ''researchMd'') = Some (JStr [])
          \<and> map_of it (S ''error'') = Some JNull
          \<and> last (calls (snd ?X))
              = SendMessageCommand (S ''https://sqs.example/tasks'')
                  (JSON_stringify env0
                     (JObj [(S ''id'', JStr i), (S ''topic'', JStr (S ''Photosynthesis'')),
                            (S ''requestedAt'', JStr now),
                            (S ''taskType'', JStr (S ''RESEARCH_SUMMARY_V1''))]))"
      using *(4-11) s by (simp add: cfg param_def sample_config_def)
    then show ?thesis by blast
  qed
  let ?ev = "with_token (post_tasks (S ''{\"topic\":\" Photosynthesis \"}''))"
  have a: "statusCode (fst (handler_api_auth env0 ?ev world0)) = 201"
    by (simp add: sample_create_auth)
  have b: "statusCode (fst (handler_api env0 post_padded world0)) = 201"
    by (simp add: sample_create_padded)
  have pa: "parse_body env0 (body ?ev) = Inr (JObj [(S ''topic'', JStr (S '' Photosynthesis ''))])"
    by (simp add: sample_post_facts sample_bodies)
  have pb: "parse_body env0 (body post_padded) = Inr (JObj [(S ''topic'', JStr padded_topic)])"
    by (simp add: sample_post_facts sample_bodies)
  show ?thesis
    using a b gen [of handler_api_auth ?ev, OF _ a pa sample_trim(1)]
      gen [of handler_api post_padded, OF _ b pb sample_trim(2)]
    by simp
qed

section \<open>The identity hint: expiry\<close>

text \<open>
  C8, as the code has it. A token whose payload has no \<^verbatim>\<open>exp\<close> claim (or a falsy one), or
  whose \<^verbatim>\<open>exp\<close> is a number strictly below the current time in whole seconds
  (\<^verbatim>\<open>Math.floor(Date.now() / 1000)\<close>), gives no user. The comparison is \<^verbatim>\<open>payload.exp < now\<close>: a
  token whose \<^verbatim>\<open>exp\<close> equals the current second is not expired for this check.
\<close>

theorem expired_token_gives_no_user:
  assumes "headers ev = Some hs"
    and "js_or (param hs (S ''Authorization'')) (param hs (S ''authorization'')) = JStr a"
    and "parseJWT e (strip_bearer a) = Inr payload"
    and "\<not> truthy (opt_prop payload (S ''exp''))
         \<or> (\<exists>r. opt_prop payload (S ''exp'') = JNum r \<and> r < of_int (Date_now e div 1000))"
  shows "getAuthenticatedUser e ev config = None"
proof -
  have "isTokenExpired e payload = Inr True \<or> (\<exists>err. isTokenExpired e payload = Inl err)"
    using assms(4)
    by (auto simp: isTokenExpired_def get_prop_def Number_def ToPrimitive_def number_of_def
             split: jsval.splits)
  then have "verify_token e (strip_bearer a) u c = Inr None
             \<or> (\<exists>err. verify_token e (strip_bearer a) u c = Inl err)" for u c
    by (auto simp: verify_token_def assms(3))
  from this [of "str_of (param config (S ''cognito-user-pool-id''))"
                "str_of (param config (S ''cognito-client-id''))"]
  show ?thesis
    by (auto simp: getAuthenticatedUser_def Let_def assms(1,2))
qed

text \<open>The example: the sample token, one second after its expiry.\<close>

theorem expired_token_witness:
  "opt_prop sample_payload (S ''exp'') = JNum 1700000000
   \<and> Date_now env_later div 1000 = 1700000001
   \<and> getAuthenticatedUser env_later (with_token (get_tasks None)) sample_config = None"
proof -
  have 1: "headers (with_token (get_tasks None)) = Some [(S ''Authorization'', S ''Bearer '' @ sample_token)]"
    by (simp add: with_token_def)
  have 2: "js_or (param [(S ''Authorization'', S ''Bearer '' @ sample_token)] (S ''Authorization''))
             (param [(S ''Authorization'', S ''Bearer '' @ sample_token)] (S ''authorization''))
           = JStr (S ''Bearer '' @ sample_token)"
    by (simp add: js_or_def param_def)
  have 3: "parseJWT env_later (strip_bearer (S ''Bearer '' @ sample_token)) = Inr sample_payload"
    by (simp only: sample_strip env_later_def sample_parseJWT_at)
  have ex: "opt_prop sample_payload (S ''exp'') = JNum 1700000000"
    by (simp add: sample_payload_def opt_prop_def)
  have now: "Date_now env_later div 1000 = 1700000001"
    by (simp add: env_later_def)
  have 4: "\<not> truthy (opt_prop sample_payload (S ''exp''))
         \<or> (\<exists>r. opt_prop sample_payload (S ''exp'') = JNum r \<and> r < of_int (Date_now env_later div 1000))"
    by (simp add: ex now)
  show ?thesis
    using expired_token_gives_no_user [OF 1 2 3 4, of sample_config] ex now by simp
qed

text \<open>
  C8 as stated fails: at the very second of its expiry the sample token still gives its
  user.
\<close>

theorem token_at_expiry_counterexample:
  "parseJWT env0 sample_token = Inr sample_payload
   \<and> opt_prop sample_payload (S ''exp'') = JNum 1700000000
   \<and> Date_now env0 = 1700000000 * 1000
   \<and> getAuthenticatedUser env0 (with_token (get_tasks None)) sample_config
       = Some \<lparr>user_id = JStr (S ''u-1''), email = JUndefined, username = JUndefined,
               userStatus = JUndefined, user_payload = sample_payload\<rparr>"
  by (simp add: sample_parseJWT sample_user) (simp add: sample_payload_def opt_prop_def env0_def)

section \<open>The identity hint and the outcome of a request\<close>

text \<open>
  C9 does not hold of the handler with the identity hint. \<^verbatim>\<open>getAuthenticatedUser\<close> catches
  every exception of its own and returns no user, but the handler then logs
  \<^verbatim>\<open>`ID: ${user.id}`\<close> inside its own \<^verbatim>\<open>try\<close>, and for a user whose id has no text this line
  throws. The request below carries the bearer token whose payload is
  \<^verbatim>\<open>{"sub":{"toString":0},"exp":1700000000,"iss":...,"aud":"client-1","token_use":"id"}\<close>: the
  token passes every check, the user's id is the object \<^verbatim>\<open>{"toString":0}\<close>, and the handler
  answers 500 and stores nothing, while the same request without the header answers 201,
  stores the Task and publishes the work item.
\<close>

theorem identity_hint_object_sub_fails_request:
  "with_object_sub_token (post_tasks (S ''{\"topic\":\" Photosynthesis \"}''))
     = (post_tasks (S ''{\"topic\":\" Photosynthesis \"}''))
         \<lparr>headers := Some [(S ''Authorization'', S ''Bearer '' @ object_sub_token)]\<rparr>
   \<and> getAuthenticatedUser env0
         (with_object_sub_token (post_tasks (S ''{\"topic\":\" Photosynthesis \"}''))) sample_config
       = Some \<lparr>user_id = JObj [(S ''toString'', JNum 0)], email = JUndefined, username = JUndefined,
               userStatus = JUndefined, user_payload = object_sub_payload\<rparr>
   \<and> handler_api_auth env0
         (with_object_sub_token (post_tasks (S ''{\"topic\":\" Photosynthesis \"}''))) world0
       = (\<lparr>statusCode = 500, res_headers = cors,
           res_body = S ''{\"message\":\"Server error\",\"error\":\"Cannot convert object to primitive value\"}''\<rparr>,
          world0)
   \<and> statusCode (fst (handler_api_auth env0 (post_tasks (S ''{\"topic\":\" Photosynthesis \"}'')) world0)) = 201
   \<and> res_body (fst (handler_api_auth env0 (post_tasks (S ''{\"topic\":\" Photosynthesis \"}'')) world0))
       = S ''{\"id\":\"0b9f7c1e-uuid\",\"topic\":\"Photosynthesis\",\"status\":\"QUEUED\",\"createdAt\":\"2024-01-01T00:00:00.000Z\"}''
   \<and> calls (snd (handler_api_auth env0 (post_tasks (S ''{\"topic\":\" Photosynthesis \"}'')) world0))
       = [PutCommand (S ''tasks'')
            (new_item (S ''0b9f7c1e-uuid'') (S ''Photosynthesis'') (S ''2024-01-01T00:00:00.000Z'')),
          SendMessageCommand (S ''https://sqs.example/tasks'')
            (S ''{\"id\":\"0b9f7c1e-uuid\",\"topic\":\"Photosynthesis\",\"requestedAt\":\"2024-01-01T00:00:00.000Z\",\"taskType\":\"RESEARCH_SUMMARY_V1\"}'')]"
proof -
  let ?ev = "with_object_sub_token (post_tasks (S ''{\"topic\":\" Photosynthesis \"}''))"
  have c: "loadConfig env0 = Inr sample_config" by (simp add: loadConfig_def env0_def)
  have t: "ToString env0 (JObj [(S ''toString'', JNum 0)])
           = Inl (TypeError (S ''Cannot convert object to primitive value''))"
    by simp
  have b: "JSON_stringify env0
             (JObj [(S ''message'', JStr (S ''Server error'')),
                    (S ''error'', JStr (S ''Cannot convert object to primitive value''))])
           = S ''{\"message\":\"Server error\",\"error\":\"Cannot convert object to primitive value\"}''"
    by (simp add: env0_def)
  have g: "getAuthenticatedUser env0 ?ev sample_config
           = Some \<lparr>user_id = JObj [(S ''toString'', JNum 0)], email = JUndefined,
                   username = JUndefined, userStatus = JUndefined,
                   user_payload = object_sub_payload\<rparr>"
    by (rule object_sub_user)
  have h: "handler_api_auth env0 ?ev world0
           = (\<lparr>statusCode = 500, res_headers = cors,
               res_body = S ''{\"message\":\"Server error\",\"error\":\"Cannot convert object to primitive value\"}''\<rparr>,
              world0)"
    unfolding handler_api_auth_def c Let_def
    by (simp add: sample_post_facts g template_def and_then_def t server_error_def res_def b
             TypeError_def)
  show ?thesis
    by (simp add: h object_sub_user sample_create_plain) (simp add: with_object_sub_token_def)
qed

text \<open>
  The two requests side by side: with the header the status is 500 and no command is
  sent, without it the status is 201.
\<close>

theorem identity_hint_object_sub_witness:
  "statusCode (fst (handler_api_auth env0
       (with_object_sub_token (post_tasks (S ''{\"topic\":\" Photosynthesis \"}''))) world0)) = 500
   \<and> calls (snd (handler_api_auth env0
       (with_object_sub_token (post_tasks (S ''{\"topic\":\" Photosynthesis \"}''))) world0)) = []
   \<and> statusCode (fst (handler_api_auth env0 (post_tasks (S ''{\"topic\":\" Photosynthesis \"}'')) world0)) = 201"
proof -
  note th = identity_hint_object_sub_fails_request
  from th have a: "handler_api_auth env0
         (with_object_sub_token (post_tasks (S ''{\"topic\":\" Photosynthesis \"}''))) world0
       = (\<lparr>statusCode = 500, res_headers = cors,
           res_body = S ''{\"message\":\"Server error\",\"error\":\"Cannot convert object to primitive value\"}''\<rparr>,
          world0)"
    by (elim conjE)
  from th have b:
    "statusCode (fst (handler_api_auth env0 (post_tasks (S ''{\"topic\":\" Photosynthesis \"}'')) world0)) = 201"
    by (elim conjE)
  show ?thesis by (simp add: a b)
qed

section \<open>List: the limit\<close>






lemma ddb_query_eq:
  "ddb_query e t l k w =
     ((case fault e (length (calls w)) of
         Some err \<Rightarrow> Inl err
       | None \<Rightarrow> Inr (query_answer e (length (calls w)))),
      w\<lparr>calls := calls w @ [QueryCommand t l k]\<rparr>)"
  by (simp add: ddb_query_def issue_def split: option.splits)

lemma list_tasks_200:
  assumes "list_tasks e t ev xh w = (Inr r, w')"
  shows "\<exists>startKey.
           startKey_of e (case queryStringParameters ev of Some q \<Rightarrow> q | None \<Rightarrow> []) = Inr startKey
         \<and> fault e (length (calls w)) = None
         \<and> w' = w\<lparr>calls := calls w @
                  [QueryCommand t
                     (list_limit e (case queryStringParameters ev of Some q \<Rightarrow> q | None \<Rightarrow> []))
                     startKey]\<rparr>
         \<and> r = res e 200
               (JObj [(S ''items'', JArr (items_of (query_answer e (length (calls w))))),
                      (S ''cursor'', cursor_of e (LastEvaluatedKey (query_answer e (length (calls w)))))])
               xh"
  using assms
  by (auto simp: list_tasks_def Let_def and_then_def ddb_query_eq items_of_def
           split: sum.splits option.splits)
lemma list_route:
  assumes "httpMethod ev = S ''GET''" and "path_is_tasks ev" and "resource ev \<noteq> Some (S ''/tasks/{id}'')"
    and "loadConfig e = Inr config" and "truthy (param config (S ''dynamo-db-table-name''))"
  shows "handler_api e ev w
         = server_error e (list_tasks e (str_of (param config (S ''dynamo-db-table-name''))) ev [] w)"
  using assms by (simp add: handler_api_def routes_def)

lemma list_tasks_eq:
  assumes "startKey_of e (case queryStringParameters ev of Some q \<Rightarrow> q | None \<Rightarrow> []) = Inr k"
  shows "list_tasks e t ev xh w =
     ((case fault e (length (calls w)) of
         Some err \<Rightarrow> Inl err
       | None \<Rightarrow>
           Inr (res e 200
                  (JObj [(S ''items'', JArr (items_of (query_answer e (length (calls w))))),
                         (S ''cursor'', cursor_of e (LastEvaluatedKey (query_answer e (length (calls w)))))])
                  xh)),
      w\<lparr>calls := calls w @
          [QueryCommand t (list_limit e (case queryStringParameters ev of Some q \<Rightarrow> q | None \<Rightarrow> [])) k]\<rparr>)"
  using assms
  by (simp add: list_tasks_def Let_def and_then_def ddb_query_eq items_of_def split: option.splits)




section \<open>List: the cursor\<close>

text \<open>
  C7. A List request whose query succeeds answers with the cursor \<^verbatim>\<open>null\<close> when the store
  returned no continuation key, and otherwise with the cursor that is the base64 text of
  the JSON text of that key. In this case, the runtime's codecs inverting each other on
  the key (parsing the JSON text of the key gives the key, decoding the cursor gives the
  text that was encoded, and the cursor is not the empty string), every later List request
  that carries this cursor sends its query with exactly that key as \<^verbatim>\<open>ExclusiveStartKey\<close>.
\<close>

theorem cursor_round_trip:
  fixes e :: env and ev :: api_event and w :: world and config :: "(jstring \<times> jstring) list"
  defines "out \<equiv> query_answer e (length (calls w))"
    and "qs \<equiv> (case queryStringParameters ev of Some q \<Rightarrow> q | None \<Rightarrow> [])"
  defines "cursor \<equiv> base64_encode e (JSON_stringify e (LastEvaluatedKey out))"
  assumes "loadConfig e = Inr config" and "truthy (param config (S ''dynamo-db-table-name''))"
    and "httpMethod ev = S ''GET''" and "path_is_tasks ev" and "resource ev \<noteq> Some (S ''/tasks/{id}'')"
    and "startKey_of e qs = Inr k" and "fault e (length (calls w)) = None"
  shows "if truthy (LastEvaluatedKey out)
         then res_body (fst (handler_api e ev w))
                = JSON_stringify e (JObj [(S ''items'', JArr (items_of out)), (S ''cursor'', JStr cursor)])
            \<and> (JSON_parse e (JSON_stringify e (LastEvaluatedKey out)) = Inr (LastEvaluatedKey out)
                 \<and> base64_decode e cursor = JSON_stringify e (LastEvaluatedKey out)
                 \<and> cursor \<noteq> []
               \<longrightarrow> (\<forall>ev' w'.
                      httpMethod ev' = S ''GET'' \<and> path_is_tasks ev' \<and> resource ev' \<noteq> Some (S ''/tasks/{id}'')
                      \<and> map_of (case queryStringParameters ev' of Some q \<Rightarrow> q | None \<Rightarrow> []) (S ''cursor'')
                          = Some cursor
                    \<longrightarrow> calls (snd (handler_api e ev' w'))
                          = calls w' @
                            [QueryCommand (str_of (param config (S ''dynamo-db-table-name'')))
                               (list_limit e (case queryStringParameters ev' of Some q \<Rightarrow> q | None \<Rightarrow> []))
                               (LastEvaluatedKey out)]))
         else res_body (fst (handler_api e ev w))
                = JSON_stringify e (JObj [(S ''items'', JArr (items_of out)), (S ''cursor'', JNull)])"
proof -
  let ?t = "str_of (param config (S ''dynamo-db-table-name''))"
  let ?key = "LastEvaluatedKey out"
  have first: "res_body (fst (handler_api e ev w))
      = JSON_stringify e (JObj [(S ''items'', JArr (items_of out)), (S ''cursor'', cursor_of e ?key)])"
    using list_tasks_eq [of e ev k ?t "[]" w] assms(9,10)
    by (simp add: list_route [OF assms(6-8) assms(4,5)] server_error_def out_def qs_def)
  have second: "calls (snd (handler_api e ev' w'))
      = calls w' @ [QueryCommand ?t
                      (list_limit e (case queryStringParameters ev' of Some q \<Rightarrow> q | None \<Rightarrow> [])) ?key]"
    if codec: "JSON_parse e (JSON_stringify e ?key) = Inr ?key"
              "base64_decode e cursor = JSON_stringify e ?key" "cursor \<noteq> []"
      and next_request: "httpMethod ev' = S ''GET''" "path_is_tasks ev'"
              "resource ev' \<noteq> Some (S ''/tasks/{id}'')"
              "map_of (case queryStringParameters ev' of Some q \<Rightarrow> q | None \<Rightarrow> []) (S ''cursor'') = Some cursor"
    for ev' w'
  proof -
    have sk: "startKey_of e (case queryStringParameters ev' of Some q \<Rightarrow> q | None \<Rightarrow> []) = Inr ?key"
      using codec next_request(4) by (simp add: startKey_of_def param_def)
    show ?thesis
      using list_tasks_eq [of e ev' ?key ?t "[]" w'] sk
      by (simp add: list_route [OF next_request(1-3) assms(4,5)] server_error_def
               split: option.splits)
  qed
  show ?thesis
    using first second by (simp add: cursor_of_def cursor_def)
qed

text \<open>
  The examples: the first page gives the sample cursor, and the next request starts after
  the sample key; the last page gives the cursor \<^verbatim>\<open>null\<close>.
\<close>

theorem cursor_round_trip_witness:
  "res_body (fst (handler_api env0 (get_tasks None) world0))
     = S ''{\"items\":[{\"id\":\"t1\"}],\"cursor\":\"eyJpZCI6InQxIiwicGsiOiJUQVNLIiwiY3JlYXRlZEF0IjoiMjAyNC0wMS0wMVQwMDowMDowMC4wMDBaIn0=\"}''
   \<and> calls (snd (handler_api env0 (get_tasks (Some [(S ''cursor'', sample_cursor)])) world0))
     = [QueryCommand (S ''tasks'') (Fin 25) sample_key]
   \<and> res_body (fst (handler_api env_last_page (get_tasks None) world0))
     = S ''{\"items\":[{\"id\":\"t1\"}],\"cursor\":null}''"
proof -
  let ?ev = "get_tasks None" and ?ev' = "get_tasks (Some [(S ''cursor'', sample_cursor)])"
  have k: "LastEvaluatedKey (query_answer env0 n) = sample_key" for n
    by (simp add: sample_page)
  have c: "base64_encode env0 (JSON_stringify env0 sample_key) = sample_cursor"
    by (simp add: sample_key_text) (simp add: env0_def)
  have 1: "startKey_of env0 (case queryStringParameters ?ev of Some q \<Rightarrow> q | None \<Rightarrow> []) = Inr JUndefined"
    "startKey_of env_last_page (case queryStringParameters ?ev of Some q \<Rightarrow> q | None \<Rightarrow> []) = Inr JUndefined"
    by (simp_all add: sample_get_facts startKey_of_def param_def)
  have 2: "map_of (case queryStringParameters ?ev' of Some q \<Rightarrow> q | None \<Rightarrow> []) (S ''cursor'')
           = Some sample_cursor"
    by (simp add: sample_get_facts)
  have 3: "JSON_parse env0 (JSON_stringify env0 sample_key) = Inr sample_key"
    by (simp add: sample_key_text) (simp add: env0_def sample_parse_def sample_key_json_def)
  have 4: "base64_decode env0 sample_cursor = JSON_stringify env0 sample_key"
    by (simp add: sample_key_text) (simp add: env0_def)
  have 5: "sample_cursor \<noteq> []" by (simp add: sample_cursor_def)
  have t: "truthy sample_key" by (simp add: sample_key_def)
  have l: "list_limit env0 [(S ''cursor'', sample_cursor)] = Fin 25"
    by (simp add: list_limit_def param_def js_or_def number_of_def)
  have b: "sample_stringify (JObj [(S ''items'', JArr [JObj [(S ''id'', JStr (S ''t1''))]]), (S ''cursor'', JNull)])
           = S ''{\"items\":[{\"id\":\"t1\"}],\"cursor\":null}''"
    by simp
  from cursor_round_trip [OF sample_get_facts(5,6) sample_get_facts(1,2,3) 1(1) sample_page(2), of world0]
  have A: "res_body (fst (handler_api env0 ?ev world0))
             = JSON_stringify env0
                 (JObj [(S ''items'', JArr (items_of (query_answer env0 0))), (S ''cursor'', JStr sample_cursor)])"
    and B: "calls (snd (handler_api env0 ?ev' world0))
             = calls world0 @ [QueryCommand (S ''tasks'') (Fin 25) sample_key]"
    using 2 3 4 5 by (simp_all add: k c t sample_get_facts l)
  from cursor_round_trip [OF last_page_facts(1) sample_get_facts(6) sample_get_facts(1,2,3) 1(2)
         last_page_facts(2), of world0]
  have C: "res_body (fst (handler_api env_last_page ?ev world0))
             = S ''{\"items\":[{\"id\":\"t1\"}],\"cursor\":null}''"
    by (simp add: last_page_facts b)
  show ?thesis
    using A B C by (simp add: items_of_def sample_page sample_list_body)
qed

section \<open>The worker: the notification\<close>

text \<open>
  C2, as the code has it. A record whose body parses, with a string \<^verbatim>\<open>id\<close> and a truthy
  \<^verbatim>\<open>topic\<close>, is processed up to a successful \<^verbatim>\<open>DONE\<close> write (the \<^verbatim>\<open>PROCESSING\<close> write, the
  generation and the \<^verbatim>\<open>DONE\<close> write are the commands \<open>n\<close>, \<open>n + 1\<close> and \<open>n + 2\<close> and none
  fails). When no topic is configured, the record is not added to the failure report and
  the stored status is \<^verbatim>\<open>DONE\<close>. When one is configured and the topic of the task has a
  text, the notice with that text and the id is sent as command \<open>n + 3\<close>; when it is
  accepted, the record is not added to the failure report and the stored status is \<^verbatim>\<open>DONE\<close>.
  When the notice is refused, or cannot be written because the topic of the task has no
  text, the exception reaches the \<^verbatim>\<open>catch\<close> of the loop body: the record is added to the
  failure report, and the compensating write (the next command) sets the status to
  \<^verbatim>\<open>ERROR\<close>, unless it fails too and the status stays \<^verbatim>\<open>DONE\<close>.
\<close>

theorem done_then_notify:
  fixes e :: env and w :: world and r :: sqs_record and fs :: "jstring list"
    and cfg :: "(jstring \<times> jstring) list"
  defines "n \<equiv> length (calls w)"
  defines "s \<equiv> process_record e cfg (fs, w) r"
  assumes "JSON_parse e (sqs_body r) = Inr m"
    and "opt_prop m (S ''id'') = JStr i" and "i \<noteq> []" and "truthy (opt_prop m (S ''topic''))"
    and "fault e n = None"
    and "fault e (n + 1) = None" and "ok (fetch_answer e (n + 1))"
    and "body_json (fetch_answer e (n + 1)) = Inr data"
    and "extractMarkdown data = Inr md" and "md \<noteq> []"
    and "fault e (n + 2) = None"
  shows "if \<not> truthy (param cfg (S ''sns-topic-arn''))
         then fst s = fs \<and> status_of (snd s) i = Some (JStr (S ''DONE''))
         else
           (case ToString e (opt_prop m (S ''topic'')) of
              Inl err \<Rightarrow>
                fst s = fs @ [messageId r]
                \<and> status_of (snd s) i
                    = Some (JStr (if fault e (n + 3) = None then S ''ERROR'' else S ''DONE''))
            | Inr topic_text \<Rightarrow>
                calls (snd s) ! (n + 3)
                  = PublishCommand (str_of (param cfg (S ''sns-topic-arn''))) notice_subject
                      (notice topic_text i)
                \<and> (if fault e (n + 3) = None
                    then fst s = fs \<and> status_of (snd s) i = Some (JStr (S ''DONE''))
                    else fst s = fs @ [messageId r]
                       \<and> status_of (snd s) i
                           = Some (JStr (if fault e (n + 4) = None then S ''ERROR'' else S ''DONE''))))"
proof -
  let ?T = "str_of (param cfg (S ''dynamo-db-table-name''))"
  let ?arn = "param cfg (S ''sns-topic-arn'')"
  let ?topic = "opt_prop m (S ''topic'')"
  define u1 where "u1 = UpdateCommand ?T (JStr i)
      [(S ''status'', JStr (S ''PROCESSING'')), (S ''updatedAt'', JStr (toISOString e n))] []"
  define it1 where "it1 = apply_update (case table w i of None \<Rightarrow> [(S ''id'', JStr i)] | Some it \<Rightarrow> it)
      [(S ''status'', JStr (S ''PROCESSING'')), (S ''updatedAt'', JStr (toISOString e n))] []"
  define w1 where "w1 = w\<lparr>calls := calls w @ [u1], table := (table w)(i \<mapsto> it1)\<rparr>"
  define w2 where "w2 = snd (callOpenAIWithPrompt e ?topic (str_of (param cfg (S ''openai-api-key'')))
      (str_of (param cfg (S ''openai-prompt-id''))) w1)"
  define it2 where "it2 = apply_update it1
      [(S ''researchMd'', JStr md), (S ''status'', JStr (S ''DONE'')),
       (S ''updatedAt'', JStr (toISOString e (n + 2)))] [S ''error'']"
  define u2 where "u2 = UpdateCommand ?T (JStr i)
      [(S ''researchMd'', JStr md), (S ''status'', JStr (S ''DONE'')),
       (S ''updatedAt'', JStr (toISOString e (n + 2)))] [S ''error'']"
  define w3 where "w3 = w2\<lparr>calls := calls w2 @ [u2], table := (table w2)(i \<mapsto> it2)\<rparr>"
  have s1: "ddb_update e ?T (JStr i)
      [(S ''status'', JStr (S ''PROCESSING'')), (S ''updatedAt'', JStr (toISOString e (length (calls w))))] [] w
      = (Inr (), w1)"
    using assms(7) by (simp add: ddb_update_eq n_def w1_def u1_def it1_def)
  have l1: "length (calls w1) = n + 1" by (simp add: w1_def n_def)
  have w2: "length (calls w2) = n + 2" "table w2 = table w1"
    by (simp_all add: w2_def callOpenAI_world l1)
  have s2: "callOpenAIWithPrompt e ?topic (str_of (param cfg (S ''openai-api-key'')))
      (str_of (param cfg (S ''openai-prompt-id''))) w1 = (Inr md, w2)"
    using callOpenAI_ok [of e w1 data md] assms(8-12)
    by (simp add: l1 w2_def prod_eq_iff)
  have s3: "ddb_update e ?T (JStr i)
      [(S ''researchMd'', JStr md), (S ''status'', JStr (S ''DONE'')),
       (S ''updatedAt'', JStr (toISOString e (length (calls w2))))] [S ''error''] w2
      = (Inr (), w3)"
    using assms(13) by (simp add: ddb_update_eq w2 w3_def u2_def it2_def w1_def)
  have l3: "length (calls w3) = n + 3" by (simp add: w3_def w2)
  have st3: "status_of w3 i = Some (JStr (S ''DONE''))"
    by (simp add: status_of_def w3_def it2_def status_after_done)
  have tr: "try_record e cfg r w =
      (if truthy ?arn
       then (case ToString e ?topic of
               Inl err \<Rightarrow> (Inl err, w3)
             | Inr topic_text \<Rightarrow>
                 sns_publish e (str_of ?arn) notice_subject (notice topic_text i) w3)
       else (Inr (), w3))"
    using assms(3-6)
    by (simp add: try_record_def Let_def get_prop_obj [OF assms(4)] template_def s1 s2 s3 and_then_def
             split: sum.splits)
  have me: "status_of (mark_error e cfg r err v) i
            = Some (JStr (if fault e (length (calls v)) = None then S ''ERROR'' else S ''DONE''))"
    if "status_of v i = Some (JStr (S ''DONE''))" for err v
    using that
    by (simp add: mark_error_def assms(3,4,5) template_def and_then_def ddb_update_eq status_of_def
             status_after_error
             split: option.splits)
  show ?thesis
  proof (cases "truthy ?arn")
    case False
    then show ?thesis
      using st3 by (simp add: s_def process_record_def tr)
  next
    case a: True
    show ?thesis
    proof (cases "ToString e ?topic")
      case (Inl err)
      then have t3: "try_record e cfg r w = (Inl err, w3)" by (simp add: tr a)
      show ?thesis
        using a Inl me [OF st3, of err]
        by (simp add: s_def process_record_def t3 l3)
    next
      case (Inr topic_text)
      define p where "p = PublishCommand (str_of ?arn) notice_subject (notice topic_text i)"
      define w4 where "w4 = w3\<lparr>calls := calls w3 @ [p]\<rparr>"
      have l4: "length (calls w4) = n + 4" "status_of w4 i = Some (JStr (S ''DONE''))"
        "calls w4 ! (n + 3) = p"
        using st3 l3 by (simp_all add: w4_def status_of_def nth_append)
      have t4: "try_record e cfg r w
                = ((case fault e (n + 3) of Some err \<Rightarrow> Inl err | None \<Rightarrow> Inr ()), w4)"
        by (simp add: tr a Inr sns_publish_eq l3 w4_def p_def)
      have keep: "calls (mark_error e cfg r err w4) ! (n + 3) = p" for err
        using l4(1,3)
        by (simp add: mark_error_def assms(3,4,5) template_def and_then_def ddb_update_eq nth_append
                 split: option.splits)
      show ?thesis
      proof (cases "fault e (n + 3)")
        case None
        then show ?thesis
          using a Inr l4 by (simp add: s_def process_record_def t4 p_def)
      next
        case (Some err)
        then show ?thesis
          using a Inr me [OF l4(2), of err] keep [of err]
          by (simp add: s_def process_record_def t4 l4(1) p_def)
      qed
    qed
  qed
qed

text \<open>
  The examples: the topic accepts the notice, and the task is \<^verbatim>\<open>DONE\<close> and not reported; the
  topic refuses the notice, and the record is reported and the task marked \<^verbatim>\<open>ERROR\<close>; the
  topic of the task is the object \<^verbatim>\<open>{"toString":0}\<close>, no notice can be written, and the record
  is reported and the task marked \<^verbatim>\<open>ERROR\<close>.
\<close>

theorem done_then_notify_witness:
  "fst (process_record env0 sample_config ([], world_queued)
          \<lparr>messageId = S ''m-1'', sqs_body = S ''{\"id\":\"t1\",\"topic\":\"Photosynthesis\"}''\<rparr>) = []
   \<and> status_of (snd (process_record env0 sample_config ([], world_queued)
          \<lparr>messageId = S ''m-1'', sqs_body = S ''{\"id\":\"t1\",\"topic\":\"Photosynthesis\"}''\<rparr>)) (S ''t1'')
       = Some (JStr (S ''DONE''))
   \<and> calls (snd (process_record env0 sample_config ([], world_queued)
          \<lparr>messageId = S ''m-1'', sqs_body = S ''{\"id\":\"t1\",\"topic\":\"Photosynthesis\"}''\<rparr>)) ! 3
       = PublishCommand (S ''arn:aws:sns:eu-west-1:1:done'') notice_subject
           (notice (S ''Photosynthesis'') (S ''t1''))
   \<and> fst (process_record env_topic_down sample_config ([], world_queued)
          \<lparr>messageId = S ''m-1'', sqs_body = S ''{\"id\":\"t1\",\"topic\":\"Photosynthesis\"}''\<rparr>) = [S ''m-1'']
   \<and> status_of (snd (process_record env_topic_down sample_config ([], world_queued)
          \<lparr>messageId = S ''m-1'', sqs_body = S ''{\"id\":\"t1\",\"topic\":\"Photosynthesis\"}''\<rparr>)) (S ''t1'')
       = Some (JStr (S ''ERROR''))
   \<and> fst (process_record env0 sample_config ([], world_queued)
          \<lparr>messageId = S ''m-2'', sqs_body = S ''{\"id\":\"t1\",\"topic\":{\"toString\":0}}''\<rparr>) = [S ''m-2'']
   \<and> status_of (snd (process_record env0 sample_config ([], world_queued)
          \<lparr>messageId = S ''m-2'', sqs_body = S ''{\"id\":\"t1\",\"topic\":{\"toString\":0}}''\<rparr>)) (S ''t1'')
       = Some (JStr (S ''ERROR''))"
proof -
  let ?r = "\<lparr>messageId = S ''m-1'', sqs_body = S ''{\"id\":\"t1\",\"topic\":\"Photosynthesis\"}''\<rparr>"
  let ?m = "JObj [(S ''id'', JStr (S ''t1'')), (S ''topic'', JStr (S ''Photosynthesis''))]"
  let ?r' = "\<lparr>messageId = S ''m-2'', sqs_body = S ''{\"id\":\"t1\",\"topic\":{\"toString\":0}}''\<rparr>"
  let ?m' = "JObj [(S ''id'', JStr (S ''t1'')), (S ''topic'', JObj [(S ''toString'', JNum 0)])]"
  have 1: "JSON_parse env0 (sqs_body ?r) = Inr ?m" "JSON_parse env_topic_down (sqs_body ?r) = Inr ?m"
    "JSON_parse env0 (sqs_body ?r') = Inr ?m'"
    by (simp_all add: env_topic_down_def env0_def sample_parse_def sample_key_json_def
        sample_payload_json_def object_sub_payload_json_def)
  have 2: "opt_prop ?m (S ''id'') = JStr (S ''t1'')" "S ''t1'' \<noteq> []" "truthy (opt_prop ?m (S ''topic''))"
    by (simp_all add: opt_prop_def)
  have o2: "opt_prop ?m' (S ''id'') = JStr (S ''t1'')" "truthy (opt_prop ?m' (S ''topic''))"
    by (simp_all add: opt_prop_def)
  have tx: "ToString env0 (opt_prop ?m (S ''topic'')) = Inr (S ''Photosynthesis'')"
    "ToString env_topic_down (opt_prop ?m (S ''topic'')) = Inr (S ''Photosynthesis'')"
    "ToString env0 (opt_prop ?m' (S ''topic''))
       = Inl (TypeError (S ''Cannot convert object to primitive value''))"
    by (simp_all add: opt_prop_def)
  have f: "fault env0 k = None" for k by (simp add: env0_def)
  have g: "fault env_topic_down (length (calls world_queued)) = None"
    "fault env_topic_down (length (calls world_queued) + 1) = None"
    "fault env_topic_down (length (calls world_queued) + 2) = None"
    "fault env_topic_down (length (calls world_queued) + 3) \<noteq> None"
    "fault env_topic_down (length (calls world_queued) + 4) = None"
    by (simp_all add: env_topic_down_def world_queued_def)
  have 3: "ok (fetch_answer env0 (length (calls world_queued) + 1))"
    "body_json (fetch_answer env0 (length (calls world_queued) + 1)) = Inr sample_note"
    "ok (fetch_answer env_topic_down (length (calls world_queued) + 1))"
    "body_json (fetch_answer env_topic_down (length (calls world_queued) + 1)) = Inr sample_note"
    by (simp_all add: env_topic_down_def env0_def)
  have 4: "S ''# Photosynthesis'' \<noteq> []" by simp
  have a: "truthy (param sample_config (S ''sns-topic-arn''))"
    "str_of (param sample_config (S ''sns-topic-arn'')) = S ''arn:aws:sns:eu-west-1:1:done''"
    by (simp_all add: param_def sample_config_def)
  have l: "length (calls world_queued) = 0" by (simp add: world_queued_def)
  show ?thesis
    using done_then_notify [OF 1(1) 2 f f 3(1,2) sample_extract 4 f, of sample_config "[]"]
      done_then_notify [OF 1(2) 2 g(1,2) 3(3,4) sample_extract 4 g(3), of sample_config "[]"]
      done_then_notify [OF 1(3) o2(1) 2(2) o2(2) f f 3(1,2) sample_extract 4 f, of sample_config "[]"]
      g(4,5)
    by (simp add: f a tx l)
qed

text \<open>
  C2 as stated fails: the \<^verbatim>\<open>DONE\<close> write succeeds, the topic refuses the notice, and the
  record is named in the failure report and the task is left in \<^verbatim>\<open>ERROR\<close>.
\<close>

theorem notify_failure_counterexample:
  "fault env_topic_down 2 = None
   \<and> calls (snd (handler_worker env_topic_down
               (batch_of (S ''{\"id\":\"t1\",\"topic\":\"Photosynthesis\"}'')) world_queued)) ! 2
       = UpdateCommand (S ''tasks'') (JStr (S ''t1''))
           [(S ''researchMd'', JStr (S ''# Photosynthesis'')), (S ''status'', JStr (S ''DONE'')),
            (S ''updatedAt'', JStr (S ''2024-01-01T00:00:01.000Z''))] [S ''error'']
   \<and> fault env_topic_down 3 = Some (Error (S ''AuthorizationError'') (S ''Publish is not authorized''))
   \<and> calls (snd (handler_worker env_topic_down
               (batch_of (S ''{\"id\":\"t1\",\"topic\":\"Photosynthesis\"}'')) world_queued)) ! 3
       = PublishCommand (S ''arn:aws:sns:eu-west-1:1:done'') notice_subject
           (notice (S ''Photosynthesis'') (S ''t1''))
   \<and> batchItemFailures (fst (handler_worker env_topic_down
               (batch_of (S ''{\"id\":\"t1\",\"topic\":\"Photosynthesis\"}'')) world_queued)) = [S ''m-1'']
   \<and> status_of (snd (handler_worker env_topic_down
               (batch_of (S ''{\"id\":\"t1\",\"topic\":\"Photosynthesis\"}'')) world_queued)) (S ''t1'')
       = Some (JStr (S ''ERROR''))"
  by (simp add: env_topic_down_def handler_worker_def loadConfig_worker_def required_def
      batch_of_def process_record_def
      try_record_def get_prop_def opt_prop_def param_def sample_config_def template_def
      ddb_update_eq and_then_def callOpenAIWithPrompt_def fetch_eq sns_publish_eq mark_error_def
      world_queued_def status_of_def apply_update_def spread_def new_item_def Let_def
      env0_def sample_parse_def sample_extract error_text_def)

section \<open>The status of a task\<close>

lemma never_queues_refl [simp]: "never_queues w w"
  by (simp add: never_queues_def)

lemma never_queues_trans: "never_queues a b \<Longrightarrow> never_queues b c \<Longrightarrow> never_queues a c"
  by (simp add: never_queues_def)

lemma never_queues_same_table: "table w' = table w \<Longrightarrow> never_queues w w'"
  by (simp add: never_queues_def status_of_def)

lemma never_queues_update:
  assumes "\<And>it. map_of (apply_update it sets removes) (S ''status'') = Some v" and "v \<noteq> JStr (S ''QUEUED'')"
  shows "never_queues w (snd (ddb_update e t key sets removes w))"
  using assms
  by (auto simp: never_queues_def ddb_update_eq status_of_def split: option.splits jsval.splits)

lemma never_queues_and_then:
  assumes "never_queues w (snd m)" and "\<And>x w1. never_queues w1 (snd (f x w1))"
  shows "never_queues w (snd (and_then m f))"
proof (cases m)
  case (Pair x w1)
  show ?thesis
  proof (cases x)
    case (Inl err)
    then show ?thesis using assms(1) Pair by (simp add: and_then_def)
  next
    case (Inr y)
    then show ?thesis
      using assms(1) assms(2) [of w1 y] Pair
      by (auto simp: and_then_def intro: never_queues_trans)
  qed
qed

lemma never_queues_callOpenAI: "never_queues w (snd (callOpenAIWithPrompt e topic k p w))"
  by (rule never_queues_same_table) (simp add: callOpenAI_world)

lemma never_queues_publish: "never_queues w (snd (sns_publish e a topic i w))"
  by (rule never_queues_same_table) (simp add: sns_publish_eq)

lemma never_queues_template: "never_queues w (snd (template e v w))"
  by (simp add: template_def)

lemma never_queues_try: "never_queues w (snd (try_record e cfg r w))"
proof -
  have pr: "never_queues w (snd (ddb_update e t i
              [(S ''status'', JStr (S ''PROCESSING'')), (S ''updatedAt'', ts)] [] w))" for t i ts w
    by (rule never_queues_update [where v = "JStr (S ''PROCESSING'')"])
       (simp_all add: status_after_processing)
  have dn: "never_queues w (snd (ddb_update e t i
              [(S ''researchMd'', md), (S ''status'', JStr (S ''DONE'')), (S ''updatedAt'', ts)] [S ''error''] w))"
    for t i md ts w
    by (rule never_queues_update [where v = "JStr (S ''DONE'')"]) (simp_all add: status_after_done)
  show ?thesis
    unfolding try_record_def Let_def
    by (auto split: sum.splits
             intro!: never_queues_and_then pr dn never_queues_callOpenAI never_queues_publish
               never_queues_template)
qed

lemma never_queues_mark_error: "never_queues w (mark_error e cfg r err w)"
proof -
  have er: "never_queues w (snd (ddb_update e t i
              [(S ''error'', m), (S ''status'', JStr (S ''ERROR'')), (S ''updatedAt'', ts)] [] w))" for t i m ts w
    by (rule never_queues_update [where v = "JStr (S ''ERROR'')"]) (simp_all add: status_after_error)
  show ?thesis
    by (auto simp: mark_error_def split: sum.splits
             intro!: never_queues_and_then er never_queues_template)
qed

lemma never_queues_record: "never_queues (snd s) (snd (process_record e cfg s r))"
  using never_queues_try [of "snd s" e cfg r]
  by (auto simp: process_record_def split: prod.splits sum.splits
           intro: never_queues_trans never_queues_mark_error)

lemma never_queues_batch: "never_queues (snd s) (snd (foldl (process_record e cfg) s rs))"
proof (induction rs arbitrary: s)
  case Nil
  show ?case by simp
next
  case (Cons r rs)
  show ?case
    using never_queues_record [of s e cfg r] Cons [of "process_record e cfg s r"]
    by (auto intro: never_queues_trans)
qed

lemma never_queues_worker: "never_queues w (snd (handler_worker e ev w))"
  using never_queues_batch [of "([], w)" e]
  by (auto simp: handler_worker_def Let_def split: sum.splits)

lemma no_requeue_tables:
  assumes "\<And>i. table w' i = table w i \<or> table w i = None \<or> table w' i = None"
  shows "no_requeue w w'"
  unfolding no_requeue_def status_of_def
proof (intro allI impI)
  fix i
  assume q: "(case table w' i of None \<Rightarrow> None | Some it \<Rightarrow> map_of it (S ''status'')) = Some (JStr (S ''QUEUED''))"
  then have "table w' i \<noteq> None" by (auto split: option.splits)
  with assms [of i] q
  show "(case table w i of None \<Rightarrow> None | Some it \<Rightarrow> map_of it (S ''status'')) = Some (JStr (S ''QUEUED''))
        \<or> table w i = None"
    by auto
qed

lemma ddb_put_table:
  "table (snd (ddb_put e t it w)) i = table w i \<or> table w i = None"
  by (auto simp: ddb_put_def issue_def split: option.splits jsval.splits)

lemma ddb_delete_table:
  "table (snd (ddb_delete e t j w)) i = table w i \<or> table (snd (ddb_delete e t j w)) i = None"
  by (auto simp: ddb_delete_def issue_def split: option.splits)

lemma and_then_table:
  assumes "\<And>x w1. table (snd (f x w1)) = table w1"
  shows "table (snd (and_then m f)) = table (snd m)"
  using assms by (cases m) (auto simp: and_then_def split: sum.splits)

lemma create_task_world:
  "snd (create_task e t q ev xh w) = w
   \<or> (\<exists>it. table (snd (create_task e t q ev xh w)) = table (snd (ddb_put e t it w)))"
proof (cases "parse_body e (body ev)")
  case (Inl err)
  then show ?thesis by (simp add: create_task_def)
next
  case (Inr b)
  show ?thesis
  proof (cases "topic_of b")
    case (Inl err)
    then show ?thesis using Inr by (simp add: create_task_def)
  next
    case tp: (Inr topic)
    show ?thesis
    proof (cases "topic = []")
      case True
      then show ?thesis using Inr tp by (simp add: create_task_def)
    next
      case False
      let ?i = "randomUUID e (length (calls w))" and ?now = "toISOString e (length (calls w))"
      have "table (snd (create_task e t q ev xh w))
            = table (snd (ddb_put e t (new_item ?i topic ?now) w))"
        using Inr tp False
        by (simp add: create_task_def Let_def)
           (rule and_then_table, simp add: and_then_def sqs_send_eq split: option.splits)
      then show ?thesis by blast
    qed
  qed
qed

lemma create_task_table:
  "table (snd (create_task e t q ev xh w)) i = table w i \<or> table w i = None"
  using create_task_world [of e t q ev xh w] ddb_put_table [of e t _ w i]
  by auto

lemma list_tasks_table: "table (snd (list_tasks e t ev xh w)) = table w"
  by (simp add: list_tasks_def Let_def and_then_def ddb_query_eq split: sum.splits option.splits)

lemma get_task_table: "table (snd (get_task e t ev xh w)) = table w"
  by (simp add: get_task_def and_then_def ddb_get_def issue_def split: option.splits)

lemma delete_task_world:
  "snd (delete_task e t ev xh w) = w
   \<or> snd (delete_task e t ev xh w) = snd (ddb_delete e t (str_of (path_id ev)) w)"
  by (cases "ddb_delete e t (str_of (path_id ev)) w")
     (auto simp: delete_task_def and_then_def split: sum.splits)

lemma delete_task_table:
  "table (snd (delete_task e t ev xh w)) i = table w i \<or> table (snd (delete_task e t ev xh w)) i = None"
  using delete_task_world [of e t ev xh w] ddb_delete_table [of e t "str_of (path_id ev)" w i]
  by auto

lemma routes_table:
  "table (snd (routes e config ev xh w)) i = table w i \<or> table w i = None
   \<or> table (snd (routes e config ev xh w)) i = None"
  using create_task_table [of e "str_of (param config (S ''dynamo-db-table-name''))"
          "param config (S ''sqs-queue-url'')" ev xh w i]
        delete_task_table [of e "str_of (param config (S ''dynamo-db-table-name''))" ev xh w i]
  by (auto simp add: routes_def Let_def list_tasks_table get_task_table)

lemma server_error_world: "snd (server_error e m) = snd m"
  by (cases m) (auto simp: server_error_def split: sum.splits)

lemma handler_api_table:
  "table (snd (handler_api e ev w)) i = table w i \<or> table w i = None
   \<or> table (snd (handler_api e ev w)) i = None"
proof (cases "loadConfig e")
  case (Inl err)
  then show ?thesis by (simp add: handler_api_def server_error_world)
next
  case (Inr config)
  then show ?thesis
    using routes_table [of e config ev "[]" w i]
    by (simp add: handler_api_def server_error_world)
qed

lemma handler_api_auth_table:
  "table (snd (handler_api_auth e ev w)) i = table w i \<or> table w i = None
   \<or> table (snd (handler_api_auth e ev w)) i = None"
proof (cases "loadConfig e")
  case (Inl err)
  then show ?thesis by (simp add: handler_api_auth_def server_error_world)
next
  case (Inr config)
  then show ?thesis
    using routes_table [of e config ev "user_header (getAuthenticatedUser e ev config)" w i]
    by (auto simp: handler_api_auth_def server_error_world template_def and_then_def Let_def
             split: option.splits sum.splits)
qed

lemma no_requeue_api: "no_requeue w (snd (handler_api e ev w))"
  by (rule no_requeue_tables) (rule handler_api_table)

lemma no_requeue_api_auth: "no_requeue w (snd (handler_api_auth e ev w))"
  by (rule no_requeue_tables) (rule handler_api_auth_table)

lemma no_requeue_worker: "no_requeue w (snd (handler_worker e ev w))"
  using never_queues_worker [of w e ev] by (simp add: no_requeue_def never_queues_def)

lemma no_requeue_invoke: "no_requeue w (invoke w op)"
  by (cases op) (simp_all add: no_requeue_api no_requeue_api_auth no_requeue_worker)

lemma run_Cons: "run (op # ops) w = run ops (invoke w op)"
  by (simp add: run_def)

lemma run_requeue:
  "status_of (run ops w) i = Some (JStr (S ''QUEUED''))
   \<Longrightarrow> status_of w i = Some (JStr (S ''QUEUED'')) \<or> (\<exists>k\<le>length ops. table (run (take k ops) w) i = None)"
proof (induction ops arbitrary: w)
  case Nil
  then show ?case by (simp add: run_def)
next
  case (Cons op ops)
  from Cons.prems have "status_of (run ops (invoke w op)) i = Some (JStr (S ''QUEUED''))"
    by (simp add: run_Cons)
  from Cons.IH [OF this]
  consider "status_of (invoke w op) i = Some (JStr (S ''QUEUED''))"
    | k where "k \<le> length ops" "table (run (take k ops) (invoke w op)) i = None"
    by blast
  then show ?case
  proof cases
    case 1
    with no_requeue_invoke [of w op]
    have "status_of w i = Some (JStr (S ''QUEUED'')) \<or> table w i = None"
      by (simp add: no_requeue_def)
    then show ?thesis
    proof
      assume "status_of w i = Some (JStr (S ''QUEUED''))"
      then show ?thesis by simp
    next
      assume "table w i = None"
      then have "0 \<le> length (op # ops) \<and> table (run (take 0 (op # ops)) w) i = None"
        by (simp add: run_def)
      then show ?thesis by blast
    qed
  next
    case 2
    then have "Suc k \<le> length (op # ops) \<and> table (run (take (Suc k) (op # ops)) w) i = None"
      by (simp add: run_Cons)
    then show ?thesis by blast
  qed
qed

text \<open>
  C3, as the code has it. The worker never writes \<^verbatim>\<open>QUEUED\<close>: its three updates set
  \<^verbatim>\<open>PROCESSING\<close>, \<^verbatim>\<open>DONE\<close> and \<^verbatim>\<open>ERROR\<close>, so a task that is \<^verbatim>\<open>QUEUED\<close> after a batch was \<^verbatim>\<open>QUEUED\<close>
  before it. And over any sequence of invocations of the API functions and of the worker,
  a task that is \<^verbatim>\<open>QUEUED\<close> at the end was \<^verbatim>\<open>QUEUED\<close> at the start, or at some moment of the
  sequence it was not in the store: Create writes \<^verbatim>\<open>QUEUED\<close> only under an id that is absent.
  No transition returns a task to \<^verbatim>\<open>QUEUED\<close>. The updates of the worker are unconditional,
  and nothing is promised for \<^verbatim>\<open>DONE\<close>.
\<close>

theorem status_never_returns_to_queued:
  "(status_of (snd (handler_worker e ev w)) i = Some (JStr (S ''QUEUED''))
      \<longrightarrow> status_of w i = Some (JStr (S ''QUEUED'')))
   \<and> (status_of (run ops w) i = Some (JStr (S ''QUEUED''))
      \<longrightarrow> status_of w i = Some (JStr (S ''QUEUED''))
          \<or> (\<exists>k\<le>length ops. table (run (take k ops) w) i = None))"
  using never_queues_worker [of w e ev] run_requeue [of ops w i]
  by (simp add: never_queues_def)

lemma sample_list_keeps_table: "table (snd (handler_api env0 (get_tasks qs) w)) = table w"
  by (simp add: list_route [OF sample_get_facts(1,2,3,5,6)] server_error_world list_tasks_table)

text \<open>
  The examples: a task that is \<^verbatim>\<open>QUEUED\<close> stays so through a batch whose only record has no
  \<^verbatim>\<open>id\<close> and through a List request; and Create puts a task in the store, \<^verbatim>\<open>QUEUED\<close>, under an
  id that was absent.
\<close>

theorem status_never_returns_witness:
  "status_of (snd (handler_worker env0 (batch_of (S ''{\"topic\":\"Photosynthesis\"}'')) world_queued)) (S ''t1'')
     = Some (JStr (S ''QUEUED''))
   \<and> status_of (run [Worker env0 (batch_of (S ''{\"topic\":\"Photosynthesis\"}'')), Api env0 (get_tasks None)]
                  world_queued) (S ''t1'')
     = Some (JStr (S ''QUEUED''))
   \<and> status_of world_queued (S ''t1'') = Some (JStr (S ''QUEUED''))
   \<and> status_of (run [ApiWithHint env0 (with_token (post_tasks (S ''{\"topic\":\" Photosynthesis \"}'')))] world0)
         (S ''0b9f7c1e-uuid'') = Some (JStr (S ''QUEUED''))
   \<and> (\<exists>k\<le>1. table (run (take k [ApiWithHint env0 (with_token (post_tasks (S ''{\"topic\":\" Photosynthesis \"}'')))])
                        world0) (S ''0b9f7c1e-uuid'') = None)"
proof -
  let ?b = "batch_of (S ''{\"topic\":\"Photosynthesis\"}'')"
  let ?ops = "[Worker env0 ?b, Api env0 (get_tasks None)]"
  let ?create = "[ApiWithHint env0 (with_token (post_tasks (S ''{\"topic\":\" Photosynthesis \"}'')))]"
  have q: "status_of world_queued (S ''t1'') = Some (JStr (S ''QUEUED''))"
    by (simp add: status_of_def world_queued_def new_item_def)
  have 1: "status_of (snd (handler_worker env0 ?b world_queued)) (S ''t1'') = Some (JStr (S ''QUEUED''))"
    by (simp add: sample_malformed_batch q)
  have 2: "status_of (run ?ops world_queued) (S ''t1'') = Some (JStr (S ''QUEUED''))"
    using q by (simp add: run_def sample_malformed_batch status_of_def sample_list_keeps_table)
  from status_never_returns_to_queued [of env0 ?b world_queued "(S ''t1'')" ?ops] 1 2
  have 3: "status_of world_queued (S ''t1'') = Some (JStr (S ''QUEUED''))" by blast
  have 4: "status_of (run ?create world0) (S ''0b9f7c1e-uuid'') = Some (JStr (S ''QUEUED''))"
    by (simp add: run_def sample_create_auth status_of_def new_item_def)
  have n: "status_of world0 (S ''0b9f7c1e-uuid'') \<noteq> Some (JStr (S ''QUEUED''))"
    by (simp add: status_of_def world0_def)
  from status_never_returns_to_queued [of env0 ?b world0 "(S ''0b9f7c1e-uuid'')" ?create] 4 n
  have 5: "\<exists>k\<le>1. table (run (take k ?create) world0) (S ''0b9f7c1e-uuid'') = None" by simp
  from 1 2 3 4 5 show ?thesis by blast
qed

text \<open>
  C3 as stated fails: the work item of a task that is \<^verbatim>\<open>DONE\<close> is delivered again, the
  worker writes \<^verbatim>\<open>PROCESSING\<close> over \<^verbatim>\<open>DONE\<close>, the generation fails, and the task ends in
  \<^verbatim>\<open>ERROR\<close>.
\<close>

theorem done_is_overwritten_counterexample:
  "status_of world_done (S ''t1'') = Some (JStr (S ''DONE''))
   \<and> calls (snd (handler_worker env_backend_down
               (batch_of (S ''{\"id\":\"t1\",\"topic\":\"Photosynthesis\"}'')) world_done)) ! 0
       = UpdateCommand (S ''tasks'') (JStr (S ''t1''))
           [(S ''status'', JStr (S ''PROCESSING'')), (S ''updatedAt'', JStr (S ''2024-01-01T00:00:00.000Z''))] []
   \<and> status_of (snd (handler_worker env_backend_down
               (batch_of (S ''{\"id\":\"t1\",\"topic\":\"Photosynthesis\"}'')) world_done)) (S ''t1'')
       = Some (JStr (S ''ERROR''))"
  by (simp add: env_backend_down_def handler_worker_def loadConfig_worker_def required_def
      batch_of_def process_record_def
      try_record_def get_prop_def opt_prop_def param_def sample_config_def template_def
      ddb_update_eq and_then_def callOpenAIWithPrompt_def fetch_eq mark_error_def
      world_done_def done_task_def status_of_def apply_update_def spread_def Let_def
      env0_def sample_parse_def error_text_def)

section \<open>The worker: a malformed item\<close>

lemma try_malformed:
  assumes "JSON_parse e (sqs_body r) = Inr m"
    and "\<not> truthy (opt_prop m (S ''id'')) \<or> \<not> truthy (opt_prop m (S ''topic''))"
  shows "\<exists>err. try_record e cfg r w = (Inl err, w)
           \<and> (truthy (opt_prop m (S ''id'')) \<longrightarrow> err = Error (S ''Error'') (S ''Message must contain id and topic''))"
  using assms
  by (cases m) (auto simp: try_record_def Let_def get_prop_def opt_prop_def)

lemma calls_after_update:
  "calls (snd (ddb_update e t key sets removes w)) = calls w @ [UpdateCommand t key sets removes]"
  by (simp add: ddb_update_eq split: option.splits jsval.splits)

lemma failures_grow: "set (fst s) \<subseteq> set (fst (process_record e cfg s r))"
  by (auto simp: process_record_def split: prod.splits sum.splits)

lemma failures_grow_batch: "set (fst s) \<subseteq> set (fst (foldl (process_record e cfg) s rs))"
proof (induction rs arbitrary: s)
  case Nil
  show ?case by simp
next
  case (Cons r rs)
  show ?case
    using failures_grow [of s e cfg r] Cons [of "process_record e cfg s r"] by auto
qed

lemma failed_record_in_batch:
  assumes "r \<in> set rs" and "\<And>s. messageId r \<in> set (fst (process_record e cfg s r))"
  shows "messageId r \<in> set (fst (foldl (process_record e cfg) s rs))"
  using assms(1)
proof (induction rs arbitrary: s)
  case Nil
  then show ?case by simp
next
  case (Cons a rs)
  show ?case
  proof (cases "r = a")
    case True
    then show ?thesis
      using assms(2) [of s] failures_grow_batch [of "process_record e cfg s a" e cfg rs]
      by auto
  next
    case False
    then show ?thesis using Cons by simp
  qed
qed

text \<open>
  C4, as the code has it. A record whose parsed body lacks \<^verbatim>\<open>id\<close> or \<^verbatim>\<open>topic\<close> (a falsy value)
  is named in the failure report of its batch, and the loop body adds it to the failure
  list. When the \<^verbatim>\<open>id\<close> is missing, no command is sent and the world is unchanged. When the
  \<^verbatim>\<open>id\<close> is there and the \<^verbatim>\<open>topic\<close> is missing, the \<^verbatim>\<open>catch\<close> logs the \<^verbatim>\<open>id\<close> and sends exactly one
  command, the compensating update that marks the task under this \<^verbatim>\<open>id\<close> as \<^verbatim>\<open>ERROR\<close>: there is no
  \<^verbatim>\<open>PROCESSING\<close> or \<^verbatim>\<open>DONE\<close> write and no generation. When that \<^verbatim>\<open>id\<close> has no text, the log line
  throws, no command is sent and the world is unchanged.
\<close>

theorem malformed_item_is_reported:
  assumes "JSON_parse e (sqs_body r) = Inr m"
    and "\<not> truthy (opt_prop m (S ''id'')) \<or> \<not> truthy (opt_prop m (S ''topic''))"
  shows "(r \<in> set rs \<longrightarrow>
            messageId r \<in> set (batchItemFailures (fst (handler_worker e \<lparr>Records = Some rs\<rparr> w0))))
       \<and> fst (process_record e cfg (fs, w) r) = fs @ [messageId r]
       \<and> (if \<not> truthy (opt_prop m (S ''id'')) then snd (process_record e cfg (fs, w) r) = w
           else
             (case ToString e (opt_prop m (S ''id'')) of
                Inl err \<Rightarrow> snd (process_record e cfg (fs, w) r) = w
              | Inr id_text \<Rightarrow>
                  calls (snd (process_record e cfg (fs, w) r))
                  = calls w @
                    [UpdateCommand (str_of (param cfg (S ''dynamo-db-table-name''))) (opt_prop m (S ''id''))
                       [(S ''error'', JStr (S ''Message must contain id and topic'')),
                        (S ''status'', JStr (S ''ERROR'')),
                        (S ''updatedAt'', JStr (toISOString e (length (calls w))))] []]))"
proof -
  have rec: "fst (process_record e c s r) = fst s @ [messageId r]" for c s
    using try_malformed [OF assms, of c "snd s"]
    by (auto simp: process_record_def)
  have batch: "r \<in> set rs \<longrightarrow>
            messageId r \<in> set (batchItemFailures (fst (handler_worker e \<lparr>Records = Some rs\<rparr> w0)))"
  proof
    assume r: "r \<in> set rs"
    show "messageId r \<in> set (batchItemFailures (fst (handler_worker e \<lparr>Records = Some rs\<rparr> w0)))"
    proof (cases "loadConfig_worker e")
      case (Inl err)
      then show ?thesis using r by (simp add: handler_worker_def)
    next
      case (Inr c)
      have "messageId r \<in> set (fst (foldl (process_record e c) ([], w0) rs))"
        by (rule failed_record_in_batch [OF r]) (simp add: rec)
      then show ?thesis using Inr by (simp add: handler_worker_def Let_def)
    qed
  qed
  from try_malformed [OF assms, of cfg w] obtain err where
    t: "try_record e cfg r w = (Inl err, w)"
    and m: "truthy (opt_prop m (S ''id'')) \<longrightarrow> err = Error (S ''Error'') (S ''Message must contain id and topic'')"
    by blast
  have world: "if \<not> truthy (opt_prop m (S ''id'')) then snd (process_record e cfg (fs, w) r) = w
           else
             (case ToString e (opt_prop m (S ''id'')) of
                Inl err \<Rightarrow> snd (process_record e cfg (fs, w) r) = w
              | Inr id_text \<Rightarrow>
                  calls (snd (process_record e cfg (fs, w) r))
                  = calls w @
                    [UpdateCommand (str_of (param cfg (S ''dynamo-db-table-name''))) (opt_prop m (S ''id''))
                       [(S ''error'', JStr (S ''Message must contain id and topic'')),
                        (S ''status'', JStr (S ''ERROR'')),
                        (S ''updatedAt'', JStr (toISOString e (length (calls w))))] []])"
    using m
    by (simp add: process_record_def t mark_error_def assms(1) template_def and_then_def
             calls_after_update error_text_def
             split: sum.splits)
  show ?thesis
    using batch rec [of cfg "(fs, w)"] world by simp
qed

text \<open>
  The examples: a body without \<^verbatim>\<open>id\<close> is reported and nothing is sent; a body with an \<^verbatim>\<open>id\<close>
  and no \<^verbatim>\<open>topic\<close> is reported and the compensating update is the only command; a body
  whose \<^verbatim>\<open>id\<close> is the object \<^verbatim>\<open>{"toString":0}\<close>, with no \<^verbatim>\<open>topic\<close>, is reported and nothing is sent.
\<close>

theorem malformed_item_witness:
  "S ''m-1'' \<in> set (batchItemFailures (fst (handler_worker env0
                     (batch_of (S ''{\"topic\":\"Photosynthesis\"}'')) world_queued)))
   \<and> fst (process_record env0 sample_config ([], world_queued)
            \<lparr>messageId = S ''m-1'', sqs_body = S ''{\"topic\":\"Photosynthesis\"}''\<rparr>) = [S ''m-1'']
   \<and> snd (process_record env0 sample_config ([], world_queued)
            \<lparr>messageId = S ''m-1'', sqs_body = S ''{\"topic\":\"Photosynthesis\"}''\<rparr>) = world_queued
   \<and> fst (process_record env0 sample_config ([], world_queued)
            \<lparr>messageId = S ''m-2'', sqs_body = S ''{\"id\":\"t1\"}''\<rparr>) = [S ''m-2'']
   \<and> calls (snd (process_record env0 sample_config ([], world_queued)
            \<lparr>messageId = S ''m-2'', sqs_body = S ''{\"id\":\"t1\"}''\<rparr>))
       = [UpdateCommand (S ''tasks'') (JStr (S ''t1''))
            [(S ''error'', JStr (S ''Message must contain id and topic'')), (S ''status'', JStr (S ''ERROR'')),
             (S ''updatedAt'', JStr (S ''2024-01-01T00:00:00.000Z''))] []]
   \<and> fst (process_record env0 sample_config ([], world_queued)
            \<lparr>messageId = S ''m-3'', sqs_body = S ''{\"id\":{\"toString\":0}}''\<rparr>) = [S ''m-3'']
   \<and> snd (process_record env0 sample_config ([], world_queued)
            \<lparr>messageId = S ''m-3'', sqs_body = S ''{\"id\":{\"toString\":0}}''\<rparr>) = world_queued"
proof -
  let ?r = "\<lparr>messageId = S ''m-1'', sqs_body = S ''{\"topic\":\"Photosynthesis\"}''\<rparr>"
  let ?m = "JObj [(S ''topic'', JStr (S ''Photosynthesis''))]"
  let ?r' = "\<lparr>messageId = S ''m-2'', sqs_body = S ''{\"id\":\"t1\"}''\<rparr>"
  let ?m' = "JObj [(S ''id'', JStr (S ''t1''))]"
  let ?r'' = "\<lparr>messageId = S ''m-3'', sqs_body = S ''{\"id\":{\"toString\":0}}''\<rparr>"
  let ?m'' = "JObj [(S ''id'', JObj [(S ''toString'', JNum 0)])]"
  have 1: "JSON_parse env0 (sqs_body ?r) = Inr ?m" "JSON_parse env0 (sqs_body ?r') = Inr ?m'"
    "JSON_parse env0 (sqs_body ?r'') = Inr ?m''"
    by (simp_all add: env0_def sample_parse_def sample_key_json_def sample_payload_json_def
        object_sub_payload_json_def)
  have i: "opt_prop ?m (S ''id'') = JUndefined" "opt_prop ?m' (S ''id'') = JStr (S ''t1'')"
    "opt_prop ?m' (S ''topic'') = JUndefined"
    "opt_prop ?m'' (S ''id'') = JObj [(S ''toString'', JNum 0)]"
    "opt_prop ?m'' (S ''topic'') = JUndefined"
    by (simp_all add: opt_prop_def)
  have 2: "\<not> truthy (opt_prop ?m (S ''id'')) \<or> \<not> truthy (opt_prop ?m (S ''topic''))"
    "\<not> truthy (opt_prop ?m' (S ''id'')) \<or> \<not> truthy (opt_prop ?m' (S ''topic''))"
    "\<not> truthy (opt_prop ?m'' (S ''id'')) \<or> \<not> truthy (opt_prop ?m'' (S ''topic''))"
    by (simp_all add: i)
  have c: "calls world_queued = []" "toISOString env0 0 = S ''2024-01-01T00:00:00.000Z''"
    "str_of (param sample_config (S ''dynamo-db-table-name'')) = S ''tasks''"
    by (simp_all add: world_queued_def env0_def param_def sample_config_def)
  show ?thesis
    using malformed_item_is_reported [OF 1(1) 2(1), of "[?r]" world_queued sample_config "[]" world_queued]
      malformed_item_is_reported [OF 1(2) 2(2), of "[?r']" world_queued sample_config "[]" world_queued]
      malformed_item_is_reported [OF 1(3) 2(3), of "[?r'']" world_queued sample_config "[]" world_queued]
    by (simp add: i c batch_of_def)
qed

text \<open>
  C4 as stated fails: a body with an \<^verbatim>\<open>id\<close> and no \<^verbatim>\<open>topic\<close> is named in the failure report,
  and the store is written: the task goes from \<^verbatim>\<open>QUEUED\<close> to \<^verbatim>\<open>ERROR\<close>.
\<close>

theorem malformed_item_counterexample:
  "JSON_parse env0 (S ''{\"id\":\"t1\"}'') = Inr (JObj [(S ''id'', JStr (S ''t1''))])
   \<and> opt_prop (JObj [(S ''id'', JStr (S ''t1''))]) (S ''topic'') = JUndefined
   \<and> batchItemFailures (fst (handler_worker env0 (batch_of (S ''{\"id\":\"t1\"}'')) world_queued)) = [S ''m-1'']
   \<and> calls (snd (handler_worker env0 (batch_of (S ''{\"id\":\"t1\"}'')) world_queued))
       = [UpdateCommand (S ''tasks'') (JStr (S ''t1''))
            [(S ''error'', JStr (S ''Message must contain id and topic'')), (S ''status'', JStr (S ''ERROR'')),
             (S ''updatedAt'', JStr (S ''2024-01-01T00:00:00.000Z''))] []]
   \<and> status_of world_queued (S ''t1'') = Some (JStr (S ''QUEUED''))
   \<and> status_of (snd (handler_worker env0 (batch_of (S ''{\"id\":\"t1\"}'')) world_queued)) (S ''t1'')
       = Some (JStr (S ''ERROR''))"
  by (simp add: handler_worker_def loadConfig_worker_def required_def
      batch_of_def process_record_def
      try_record_def get_prop_def opt_prop_def param_def sample_config_def template_def and_then_def
      ddb_update_eq mark_error_def
      world_queued_def new_item_def status_of_def apply_update_def spread_def Let_def
      env0_def sample_parse_def error_text_def)

end
